theory Spec2Isabelle
  imports Main "HOL-Library.Word" "HOL-Library.Monad_Syntax" "HOL-Library.Code_Target_Numeral"
begin

unbundle bit_operations_syntax

section \<open>UAVTalk: the telemetry protocol engine of flight/UAVTalk/uavtalk.c\<close>

subsection \<open>Data model\<close>

type_synonym byte = "8 word"

text \<open>A \<open>UAVObjHandle\<close> is a pointer; it is modelled by its address, \<open>0\<close> being \<open>NULL\<close>.
  The same holds for the function pointer \<open>outStream\<close>.\<close>

type_synonym UAVObjHandle = nat

datatype UAVTalkState =
    UAVTALK_STATE_SYNC
  | UAVTALK_STATE_TYPE
  | UAVTALK_STATE_SIZE
  | UAVTALK_STATE_OBJID
  | UAVTALK_STATE_INSTID
  | UAVTALK_STATE_DATA
  | UAVTALK_STATE_CS

text \<open>
  Everything \<open>uavtalk.c\<close> uses but does not define is a parameter of the model, collected in
  one record: the constants of \<open>uavtalk_priv.h\<close> and \<open>UAVOBJ_ALL_INSTANCES\<close>, the checksum
  step \<open>PIOS_CRC_updateByte\<close>, and the functions of the object registry. The registry has a
  state of its own, of type \<open>'r\<close>, that \<open>UAVObjUnpack\<close> changes. \<open>UAVObjPack\<close> returns its
  return code together with the bytes it stores at the address it is given; \<open>UAVObjUnpack\<close>
  returns its return code and the new registry.
\<close>

record 'r externals =
  UAVTALK_SYNC_VAL :: byte
  UAVTALK_TYPE_MASK :: byte
  UAVTALK_TYPE_VER :: byte
  UAVTALK_TYPE_OBJ :: byte
  UAVTALK_TYPE_OBJ_REQ :: byte
  UAVTALK_TYPE_OBJ_ACK :: byte
  UAVTALK_TYPE_ACK :: byte
  UAVTALK_TYPE_NACK :: byte
  UAVTALK_MIN_HEADER_LENGTH :: nat
  UAVTALK_MAX_HEADER_LENGTH :: nat
  UAVTALK_MAX_PAYLOAD_LENGTH :: nat
  UAVTALK_CHECKSUM_LENGTH :: nat
  UAVTALK_MAX_PACKET_LENGTH :: nat
  UAVOBJ_ALL_INSTANCES :: "16 word"
  PIOS_CRC_updateByte :: "byte \<Rightarrow> byte \<Rightarrow> byte"
  UAVObjGetByID :: "'r \<Rightarrow> 32 word \<Rightarrow> UAVObjHandle"
  UAVObjGetID :: "'r \<Rightarrow> UAVObjHandle \<Rightarrow> 32 word"
  UAVObjGetNumBytes :: "'r \<Rightarrow> UAVObjHandle \<Rightarrow> nat"
  UAVObjIsSingleInstance :: "'r \<Rightarrow> UAVObjHandle \<Rightarrow> bool"
  UAVObjGetNumInstances :: "'r \<Rightarrow> UAVObjHandle \<Rightarrow> nat"
  UAVObjPack :: "'r \<Rightarrow> UAVObjHandle \<Rightarrow> 16 word \<Rightarrow> int \<times> byte list"
  UAVObjUnpack :: "'r \<Rightarrow> UAVObjHandle \<Rightarrow> 16 word \<Rightarrow> byte list \<Rightarrow> int \<times> 'r"

text \<open>
  The state a call works on: the fields of \<open>UAVTalkConnectionData\<close>, with those of its
  members \<open>iproc\<close> (the input processor) and \<open>stats\<close> under the prefixes \<open>iproc_\<close> and
  \<open>stats_\<close>; the registry; and two histories that the C program does not store:
  \<open>sink\<close>, the buffers handed to \<open>*outStream\<close>, one entry for each call, and
  \<open>dispatched\<close>, the arguments of each call of \<open>receiveObject\<close> made by the receive state
  machine. The recursive mutexes \<open>lock\<close> and \<open>transLock\<close> are the number of times they are
  held, the binary semaphore \<open>respSema\<close> is \<open>True\<close> when it has been given.

  The header that declares these structures is not among the sources. The statistics
  counters are taken to be 32-bit and wrap around; the lengths and counts that the
  connection holds are natural numbers, which the code keeps below \<open>0xffff\<close>. The two
  buffers are lists. An assignment beyond the end of a list leaves the list as it is, and
  the part of a list beyond its end is empty, where the C program would write or read
  outside the buffer: the statements about buffers say how long the buffers are.
\<close>

record 'r uavtalk =
  iproc_obj :: UAVObjHandle
  iproc_type :: byte
  iproc_packet_size :: nat
  iproc_objId :: "32 word"
  iproc_instId :: "16 word"
  iproc_length :: nat
  iproc_cs :: byte
  iproc_rxCount :: nat
  iproc_state :: UAVTalkState
  iproc_rxPacketLength :: nat
  outStream :: nat
  lock :: nat
  transLock :: nat
  respSema :: bool
  respObj :: UAVObjHandle
  respInstId :: "16 word"
  txSize :: nat
  rxBuffer :: "byte list"
  txBuffer :: "byte list"
  stats_txBytes :: "32 word"
  stats_rxBytes :: "32 word"
  stats_txObjectBytes :: "32 word"
  stats_txObjects :: "32 word"
  stats_rxObjectBytes :: "32 word"
  stats_rxObjects :: "32 word"
  stats_rxErrors :: "32 word"
  registry :: 'r
  sink :: "byte list list"
  dispatched :: "(byte \<times> 32 word \<times> 16 word \<times> byte list) list"

subsection \<open>Checksum\<close>

text \<open>
  Modelled from the spec: \<open>PIOS_CRC_updateCRC\<close> is not among the sources. The spec describes
  the checksum as a rolling one, updated one byte at a time (\<open>checksum_step(acc, byte)\<close>) and
  computed over every byte from the start marker to the end of the payload; so the checksum
  of a buffer is the step \<open>PIOS_CRC_updateByte\<close> folded over its bytes, in order.
\<close>

definition PIOS_CRC_updateCRC :: "'r externals \<Rightarrow> byte \<Rightarrow> byte list \<Rightarrow> byte" where
  "PIOS_CRC_updateCRC e crc data = foldl (PIOS_CRC_updateByte e) crc data"

subsection \<open>Transmitter\<close>

text \<open>
  \<open>store buf off bs\<close> is the buffer after \<open>bs\<close> has been stored at offset \<open>off\<close>: what
  \<open>UAVObjPack(obj, instId, &txBuffer[dataOffset])\<close> does to \<open>txBuffer\<close>.
\<close>

definition store :: "byte list \<Rightarrow> nat \<Rightarrow> byte list \<Rightarrow> byte list" where
  "store buf off bs = take off buf @ bs @ drop (off + length bs) buf"

text \<open>
  The loop at the end of \<open>sendSingleObject\<close>: \<open>while (sent < nbytes) { ... }\<close>, where
  \<open>nbytes\<close> is \<open>dataOffset+length+UAVTALK_CHECKSUM_LENGTH\<close>. With \<open>txSize = 0\<close> the loop
  never ends, which is the value \<open>None\<close>.
\<close>

partial_function (option) sendBuffer :: "nat \<Rightarrow> nat \<Rightarrow> 'r uavtalk \<Rightarrow> 'r uavtalk option" where
  "sendBuffer nbytes sent s =
     (if sent < nbytes then
        (let sending = (if nbytes - sent > txSize s then txSize s else nbytes - sent);
             s' = (if outStream s \<noteq> 0
                   then s\<lparr>sink := sink s @ [take sending (drop sent (txBuffer s))]\<rparr>
                   else s)
         in sendBuffer nbytes (sent + sending) s')
      else Some s)"

declare sendBuffer.simps [code]

text \<open>
  \<open>sendSingleObject\<close> returns its return code and the state it leaves. Its local
  \<open>length\<close> is an \<open>int32_t\<close>: the size that \<open>UAVObjGetNumBytes\<close> returns is converted to
  32 bits and read as a signed number, so a size of \<open>2^31\<close> or more is a negative
  length. The constants of \<open>uavtalk_priv.h\<close> are taken to be of type \<open>int\<close>, so the test
  \<open>length >= UAVTALK_MAX_PAYLOAD_LENGTH\<close> is a signed comparison, which a negative length
  passes. \<open>n\<close> is \<open>dataOffset+length\<close>; its two bytes are stored as \<open>(uint8_t)(n & 0xFF)\<close>
  and \<open>(uint8_t)((n >> 8) & 0xFF)\<close>, the shift of a negative number being the arithmetic
  one. The bound of the transmit loop, \<open>n+UAVTALK_CHECKSUM_LENGTH\<close>, is compared with the
  \<open>uint32_t sent\<close>, hence converted to 32 bits unsigned.

  A size of \<open>0xFFFFFFFF\<close> is the length \<open>-1\<close>: the frame is cut by one byte and the
  checksum takes the place of its last byte. When \<open>n\<close> itself is negative the C program
  stores the checksum before the start of the buffer and the loop runs beyond its end,
  which C leaves undefined; the model keeps to the rule for the buffers: the assignment
  changes nothing of the list, and the loop reads nothing beyond its end.
\<close>

definition sendSingleObject ::
  "'r externals \<Rightarrow> 'r uavtalk \<Rightarrow> UAVObjHandle \<Rightarrow> 16 word \<Rightarrow> byte \<Rightarrow> (int \<times> 'r uavtalk) option" where
  "sendSingleObject e s obj instId type =
     (let objId = UAVObjGetID e (registry s) obj;
          tx1 = (txBuffer s)
                  [0 := UAVTALK_SYNC_VAL e,
                   1 := type,
                   4 := ucast (objId AND 0xFF),
                   5 := ucast (drop_bit 8 objId AND 0xFF),
                   6 := ucast (drop_bit 16 objId AND 0xFF),
                   7 := ucast (drop_bit 24 objId AND 0xFF)];
          single = UAVObjIsSingleInstance e (registry s) obj;
          tx2 = (if single then tx1
                 else tx1[8 := ucast (instId AND 0xFF), 9 := ucast (drop_bit 8 instId AND 0xFF)]);
          dataOffset = (if single then 8 else 10 :: nat);
          len = (if type = UAVTALK_TYPE_OBJ_REQ e \<or> type = UAVTALK_TYPE_ACK e then 0
                 else sint (of_nat (UAVObjGetNumBytes e (registry s) obj) :: 32 word))
      in if len \<ge> int (UAVTALK_MAX_PAYLOAD_LENGTH e) then Some (- 1, s\<lparr>txBuffer := tx2\<rparr>)
         else
          (let packed = (if len > 0 then UAVObjPack e (registry s) obj instId else (0, []));
               tx3 = store tx2 dataOffset (snd packed)
           in if len > 0 \<and> fst packed < 0 then Some (- 1, s\<lparr>txBuffer := tx3\<rparr>)
              else
               (let n = int dataOffset + len;
                    tx4 = tx3[2 := of_int n, 3 := of_int (n div 256)];
                    tx5 = (if n < 0 then tx4
                           else tx4[nat n := PIOS_CRC_updateCRC e 0 (take (nat n) tx4)]);
                    nbytes = unat (of_int (n + int (UAVTALK_CHECKSUM_LENGTH e)) :: 32 word)
                in do {
                     s' \<leftarrow> sendBuffer nbytes 0 (s\<lparr>txBuffer := tx5\<rparr>);
                     Some (0, s'\<lparr>stats_txObjects := stats_txObjects s' + 1,
                                 stats_txBytes := stats_txBytes s'
                                    + of_int (n + int (UAVTALK_CHECKSUM_LENGTH e)),
                                 stats_txObjectBytes := stats_txObjectBytes s' + of_int len\<rparr>)
                   })))"

text \<open>\<open>sendNack\<close> hands the whole frame to \<open>*outStream\<close> in one call.\<close>

definition sendNack :: "'r externals \<Rightarrow> 'r uavtalk \<Rightarrow> 32 word \<Rightarrow> int \<times> 'r uavtalk" where
  "sendNack e s objId =
     (let tx1 = (txBuffer s)
                  [0 := UAVTALK_SYNC_VAL e,
                   1 := UAVTALK_TYPE_NACK e,
                   4 := ucast (objId AND 0xFF),
                   5 := ucast (drop_bit 8 objId AND 0xFF),
                   6 := ucast (drop_bit 16 objId AND 0xFF),
                   7 := ucast (drop_bit 24 objId AND 0xFF)];
          dataOffset = (8 :: nat);
          tx2 = tx1[2 := of_nat dataOffset, 3 := of_nat (dataOffset div 256)];
          tx3 = tx2[dataOffset := PIOS_CRC_updateCRC e 0 (take dataOffset tx2)];
          s1 = s\<lparr>txBuffer := tx3\<rparr>;
          s2 = (if outStream s1 \<noteq> 0
                then s1\<lparr>sink := sink s1 @ [take (dataOffset + UAVTALK_CHECKSUM_LENGTH e) tx3]\<rparr>
                else s1)
      in (0, s2\<lparr>stats_txBytes := stats_txBytes s2
                   + of_nat (dataOffset + UAVTALK_CHECKSUM_LENGTH e)\<rparr>))"

text \<open>
  The loop of \<open>sendObject\<close> over the instances \<open>n = 0, ..., numInst - 1\<close>; the return code of
  each \<open>sendSingleObject\<close> is dropped, and \<open>n\<close> is passed as a \<open>uint16_t\<close>.
\<close>

fun sendInstances ::
  "'r externals \<Rightarrow> UAVObjHandle \<Rightarrow> byte \<Rightarrow> nat list \<Rightarrow> 'r uavtalk \<Rightarrow> 'r uavtalk option" where
  "sendInstances e obj type [] s = Some s"
| "sendInstances e obj type (n # ns) s =
     do { r \<leftarrow> sendSingleObject e s obj (of_nat n) type;
          sendInstances e obj type ns (snd r) }"

definition sendObject ::
  "'r externals \<Rightarrow> 'r uavtalk \<Rightarrow> UAVObjHandle \<Rightarrow> 16 word \<Rightarrow> byte \<Rightarrow> (int \<times> 'r uavtalk) option" where
  "sendObject e s obj instId0 type =
     (let instId = (if instId0 = UAVOBJ_ALL_INSTANCES e \<and> UAVObjIsSingleInstance e (registry s) obj
                    then 0 else instId0)
      in if type = UAVTALK_TYPE_OBJ e \<or> type = UAVTALK_TYPE_OBJ_ACK e then
           (if instId = UAVOBJ_ALL_INSTANCES e then
              do { s' \<leftarrow> sendInstances e obj type
                           [0 ..< UAVObjGetNumInstances e (registry s) obj] s;
                   Some (0, s') }
            else sendSingleObject e s obj instId type)
         else if type = UAVTALK_TYPE_OBJ_REQ e then
           sendSingleObject e s obj instId (UAVTALK_TYPE_OBJ_REQ e)
         else if type = UAVTALK_TYPE_ACK e then
           (if instId \<noteq> UAVOBJ_ALL_INSTANCES e
            then sendSingleObject e s obj instId (UAVTALK_TYPE_ACK e)
            else Some (- 1, s))
         else Some (- 1, s))"

subsection \<open>Dispatcher\<close>

definition updateAck :: "'r externals \<Rightarrow> 'r uavtalk \<Rightarrow> UAVObjHandle \<Rightarrow> 16 word \<Rightarrow> 'r uavtalk" where
  "updateAck e s obj instId =
     (if respObj s = obj \<and> (respInstId s = instId \<or> respInstId s = UAVOBJ_ALL_INSTANCES e)
      then s\<lparr>respSema := True, respObj := 0\<rparr>
      else s)"

text \<open>
  \<open>receiveObject\<close> returns \<open>ret\<close> and the state it leaves. \<open>data\<close> is the content of the
  buffer that the C function gets as a pointer, \<open>len\<close> its length.
\<close>

definition receiveObject ::
  "'r externals \<Rightarrow> 'r uavtalk \<Rightarrow> byte \<Rightarrow> 32 word \<Rightarrow> 16 word \<Rightarrow> byte list \<Rightarrow> nat
     \<Rightarrow> (int \<times> 'r uavtalk) option" where
  "receiveObject e s type objId instId data len =
     (let obj = UAVObjGetByID e (registry s) objId
      in if type = UAVTALK_TYPE_OBJ e then
           (if instId \<noteq> UAVOBJ_ALL_INSTANCES e then
              (let u = UAVObjUnpack e (registry s) obj instId data
               in Some (0, updateAck e (s\<lparr>registry := snd u\<rparr>) obj instId))
            else Some (- 1, s))
         else if type = UAVTALK_TYPE_OBJ_ACK e then
           (if instId \<noteq> UAVOBJ_ALL_INSTANCES e then
              (let u = UAVObjUnpack e (registry s) obj instId data;
                   s1 = s\<lparr>registry := snd u\<rparr>
               in if fst u = 0
                  then do { r \<leftarrow> sendObject e s1 obj instId (UAVTALK_TYPE_ACK e);
                            Some (0, snd r) }
                  else Some (- 1, s1))
            else Some (- 1, s))
         else if type = UAVTALK_TYPE_OBJ_REQ e then
           (if obj = 0 then Some (0, snd (sendNack e s objId))
            else do { r \<leftarrow> sendObject e s obj instId (UAVTALK_TYPE_OBJ e);
                      Some (0, snd r) })
         else if type = UAVTALK_TYPE_NACK e then Some (0, s)
         else if type = UAVTALK_TYPE_ACK e then
           (if instId \<noteq> UAVOBJ_ALL_INSTANCES e
            then Some (0, updateAck e s obj instId)
            else Some (- 1, s))
         else Some (- 1, s))"

subsection \<open>Receive state machine\<close>

text \<open>The three statements that end a rejected frame with a counted error.\<close>

definition rxError :: "'r uavtalk \<Rightarrow> 'r uavtalk" where
  "rxError s = s\<lparr>stats_rxErrors := stats_rxErrors s + 1, iproc_state := UAVTALK_STATE_SYNC\<rparr>"

text \<open>
  \<open>UAVTalkProcessInputStream\<close> always returns 0; the model returns the state it leaves.
  The connection handle is taken to be valid (the macro \<open>CHECKCONHANDLE\<close> is not among the
  sources). The byte is shifted as a 32-bit value into \<open>objId\<close> and as a 16-bit value into
  \<open>instId\<close>.
\<close>

definition UAVTalkProcessInputStream ::
  "'r externals \<Rightarrow> 'r uavtalk \<Rightarrow> byte \<Rightarrow> 'r uavtalk option" where
  "UAVTalkProcessInputStream e s0 rxbyte =
     (let s = s0\<lparr>stats_rxBytes := stats_rxBytes s0 + 1,
                 iproc_rxPacketLength :=
                   (if iproc_rxPacketLength s0 < 0xffff then iproc_rxPacketLength s0 + 1
                    else iproc_rxPacketLength s0)\<rparr>;
          c = s\<lparr>iproc_cs := PIOS_CRC_updateByte e (iproc_cs s) rxbyte\<rparr>
      in case iproc_state s of
           UAVTALK_STATE_SYNC \<Rightarrow>
             if rxbyte \<noteq> UAVTALK_SYNC_VAL e then Some s
             else Some (s\<lparr>iproc_cs := PIOS_CRC_updateByte e 0 rxbyte,
                          iproc_rxPacketLength := 1,
                          iproc_state := UAVTALK_STATE_TYPE\<rparr>)
         | UAVTALK_STATE_TYPE \<Rightarrow>
             if rxbyte AND UAVTALK_TYPE_MASK e \<noteq> UAVTALK_TYPE_VER e
             then Some (c\<lparr>iproc_state := UAVTALK_STATE_SYNC\<rparr>)
             else Some (c\<lparr>iproc_type := rxbyte,
                          iproc_packet_size := 0,
                          iproc_state := UAVTALK_STATE_SIZE,
                          iproc_rxCount := 0\<rparr>)
         | UAVTALK_STATE_SIZE \<Rightarrow>
             if iproc_rxCount c = 0
             then Some (c\<lparr>iproc_packet_size := iproc_packet_size c + unat rxbyte,
                          iproc_rxCount := iproc_rxCount c + 1\<rparr>)
             else
              (let c1 = c\<lparr>iproc_packet_size := iproc_packet_size c + unat rxbyte * 256\<rparr>
               in if iproc_packet_size c1 < UAVTALK_MIN_HEADER_LENGTH e
                     \<or> iproc_packet_size c1
                         > UAVTALK_MAX_HEADER_LENGTH e + UAVTALK_MAX_PAYLOAD_LENGTH e
                  then Some (c1\<lparr>iproc_state := UAVTALK_STATE_SYNC\<rparr>)
                  else Some (c1\<lparr>iproc_rxCount := 0,
                                iproc_objId := 0,
                                iproc_state := UAVTALK_STATE_OBJID\<rparr>))
         | UAVTALK_STATE_OBJID \<Rightarrow>
             (let c1 = c\<lparr>iproc_objId :=
                           iproc_objId c + push_bit (8 * iproc_rxCount c) (ucast rxbyte),
                         iproc_rxCount := iproc_rxCount c + 1\<rparr>
              in if iproc_rxCount c1 < 4 then Some c1
                 else
                  (let c2 = c1\<lparr>iproc_obj := UAVObjGetByID e (registry c1) (iproc_objId c1)\<rparr>
                   in if iproc_obj c2 = 0 \<and> iproc_type c2 \<noteq> UAVTALK_TYPE_OBJ_REQ e
                      then Some (rxError c2)
                      else
                       (let c3 = c2\<lparr>iproc_length :=
                                      (if iproc_type c2 = UAVTALK_TYPE_OBJ_REQ e
                                          \<or> iproc_type c2 = UAVTALK_TYPE_ACK e
                                          \<or> iproc_type c2 = UAVTALK_TYPE_NACK e
                                       then 0
                                       else UAVObjGetNumBytes e (registry c2) (iproc_obj c2))\<rparr>
                        in if iproc_length c3 \<ge> UAVTALK_MAX_PAYLOAD_LENGTH e
                           then Some (rxError c3)
                           else if iproc_rxPacketLength c3 + iproc_length c3
                                     \<noteq> iproc_packet_size c3
                           then Some (rxError c3)
                           else
                            (let c4 = c3\<lparr>iproc_instId := 0\<rparr>
                             in if iproc_obj c4 = 0
                                then Some (c4\<lparr>iproc_state := UAVTALK_STATE_CS,
                                              iproc_rxCount := 0\<rparr>)
                                else if UAVObjIsSingleInstance e (registry c4) (iproc_obj c4)
                                then Some (c4\<lparr>iproc_state :=
                                                (if iproc_length c4 > 0 then UAVTALK_STATE_DATA
                                                 else UAVTALK_STATE_CS),
                                              iproc_rxCount := 0\<rparr>)
                                else Some (c4\<lparr>iproc_state := UAVTALK_STATE_INSTID,
                                              iproc_rxCount := 0\<rparr>)))))
         | UAVTALK_STATE_INSTID \<Rightarrow>
             (let c1 = c\<lparr>iproc_instId :=
                           iproc_instId c + push_bit (8 * iproc_rxCount c) (ucast rxbyte),
                         iproc_rxCount := iproc_rxCount c + 1\<rparr>
              in if iproc_rxCount c1 < 2 then Some c1
                 else Some (c1\<lparr>iproc_rxCount := 0,
                               iproc_state :=
                                 (if iproc_length c1 > 0 then UAVTALK_STATE_DATA
                                  else UAVTALK_STATE_CS)\<rparr>))
         | UAVTALK_STATE_DATA \<Rightarrow>
             (let c1 = c\<lparr>rxBuffer := (rxBuffer c)[iproc_rxCount c := rxbyte],
                         iproc_rxCount := iproc_rxCount c + 1\<rparr>
              in if iproc_rxCount c1 < iproc_length c1 then Some c1
                 else Some (c1\<lparr>iproc_state := UAVTALK_STATE_CS, iproc_rxCount := 0\<rparr>))
         | UAVTALK_STATE_CS \<Rightarrow>
             if rxbyte \<noteq> iproc_cs s then Some (rxError s)
             else if iproc_rxPacketLength s \<noteq> iproc_packet_size s + 1 then Some (rxError s)
             else
               do {
                 let data = take (iproc_length s) (rxBuffer s);
                 let s1 = s\<lparr>lock := lock s + 1,
                             dispatched := dispatched s
                               @ [(iproc_type s, iproc_objId s, iproc_instId s, data)]\<rparr>;
                 r \<leftarrow> receiveObject e s1 (iproc_type s1) (iproc_objId s1) (iproc_instId s1)
                        data (iproc_length s1);
                 let s2 = snd r;
                 Some (s2\<lparr>stats_rxObjectBytes := stats_rxObjectBytes s2 + of_nat (iproc_length s2),
                          stats_rxObjects := stats_rxObjects s2 + 1,
                          lock := lock s2 - 1,
                          iproc_state := UAVTALK_STATE_SYNC\<rparr>)
               })"

text \<open>The bytes of an input stream, given to \<open>UAVTalkProcessInputStream\<close> one at a time.\<close>

fun processBytes :: "'r externals \<Rightarrow> 'r uavtalk \<Rightarrow> byte list \<Rightarrow> 'r uavtalk option" where
  "processBytes e s [] = Some s"
| "processBytes e s (b # bs) =
     do { s' \<leftarrow> UAVTalkProcessInputStream e s b; processBytes e s' bs }"

subsection \<open>Transaction manager\<close>

text \<open>
  \<open>objectTransaction\<close> blocks its caller in \<open>xSemaphoreTake(respSema, timeout)\<close> while
  another task receives. The model is sequential: \<open>rx\<close> is the input that the receiving task
  gives to \<open>UAVTalkProcessInputStream\<close> from the moment the caller starts to wait until the
  wait is over. The wait returns \<open>pdTRUE\<close>, and takes the semaphore, when the semaphore has
  been given by then; otherwise it returns \<open>pdFALSE\<close>, the timeout. Durations are not
  modelled: \<open>timeoutMs\<close> has no other role.

  \<open>transactionWait\<close> is the first part of \<open>objectTransaction\<close> for a transaction with a
  response, from taking \<open>transLock\<close> to the moment \<open>xSemaphoreTake\<close> returns; the return
  code of \<open>sendObject\<close> is dropped there.
\<close>

definition xSemaphoreTake :: "'r uavtalk \<Rightarrow> bool \<times> 'r uavtalk" where
  "xSemaphoreTake s = (respSema s, s\<lparr>respSema := False\<rparr>)"

definition transactionWait ::
  "'r externals \<Rightarrow> 'r uavtalk \<Rightarrow> UAVObjHandle \<Rightarrow> 16 word \<Rightarrow> byte \<Rightarrow> byte list
     \<Rightarrow> 'r uavtalk option" where
  "transactionWait e s obj instId type rx =
     do {
       let s1 = s\<lparr>transLock := transLock s + 1\<rparr>;
       let s2 = s1\<lparr>lock := lock s1 + 1\<rparr>;
       let s3 = s2\<lparr>respObj := obj, respInstId := instId\<rparr>;
       r \<leftarrow> sendObject e s3 obj instId type;
       let s4 = (snd r)\<lparr>lock := lock (snd r) - 1\<rparr>;
       processBytes e s4 rx
     }"

definition objectTransaction ::
  "'r externals \<Rightarrow> 'r uavtalk \<Rightarrow> UAVObjHandle \<Rightarrow> 16 word \<Rightarrow> byte \<Rightarrow> int \<Rightarrow> byte list
     \<Rightarrow> (int \<times> 'r uavtalk) option" where
  "objectTransaction e s obj instId type timeoutMs rx =
     (if type = UAVTALK_TYPE_OBJ_ACK e \<or> type = UAVTALK_TYPE_OBJ_REQ e then
        do {
          s5 \<leftarrow> transactionWait e s obj instId type rx;
          let (respReceived, s6) = xSemaphoreTake s5;
          if \<not> respReceived then
            (let s7 = s6\<lparr>lock := lock s6 + 1\<rparr>;
                 s8 = snd (xSemaphoreTake s7);
                 s9 = s8\<lparr>respObj := 0\<rparr>;
                 s10 = s9\<lparr>lock := lock s9 - 1\<rparr>
             in Some (- 1, s10\<lparr>transLock := transLock s10 - 1\<rparr>))
          else Some (0, s6\<lparr>transLock := transLock s6 - 1\<rparr>)
        }
      else if type = UAVTALK_TYPE_OBJ e then
        do {
          let s1 = s\<lparr>lock := lock s + 1\<rparr>;
          r \<leftarrow> sendObject e s1 obj instId (UAVTALK_TYPE_OBJ e);
          Some (0, (snd r)\<lparr>lock := lock (snd r) - 1\<rparr>)
        }
      else Some (- 1, s))"

definition UAVTalkSendObjectRequest ::
  "'r externals \<Rightarrow> 'r uavtalk \<Rightarrow> UAVObjHandle \<Rightarrow> 16 word \<Rightarrow> int \<Rightarrow> byte list
     \<Rightarrow> (int \<times> 'r uavtalk) option" where
  "UAVTalkSendObjectRequest e s obj instId timeout rx =
     objectTransaction e s obj instId (UAVTALK_TYPE_OBJ_REQ e) timeout rx"

definition UAVTalkSendObject ::
  "'r externals \<Rightarrow> 'r uavtalk \<Rightarrow> UAVObjHandle \<Rightarrow> 16 word \<Rightarrow> byte \<Rightarrow> int \<Rightarrow> byte list
     \<Rightarrow> (int \<times> 'r uavtalk) option" where
  "UAVTalkSendObject e s obj instId acked timeoutMs rx =
     (if acked = 1
      then objectTransaction e s obj instId (UAVTALK_TYPE_OBJ_ACK e) timeoutMs rx
      else objectTransaction e s obj instId (UAVTALK_TYPE_OBJ e) timeoutMs rx)"

subsection \<open>Connection creation\<close>

text \<open>
  \<open>UAVTalkInitialize\<close> returns 0, here \<open>None\<close>, when \<open>maxPacketSize < 1\<close>. The failure of
  an allocation is not modelled, and the memory that \<open>pvPortMalloc\<close> returns is taken to
  hold zeros: the fields that \<open>UAVTalkInitialize\<close> does not set are 0. The connection is
  created over a registry \<open>r\<close>.
\<close>

definition UAVTalkInitialize :: "'r externals \<Rightarrow> 'r \<Rightarrow> nat \<Rightarrow> nat \<Rightarrow> 'r uavtalk option" where
  "UAVTalkInitialize e r outputStream maxPacketSize =
     (if maxPacketSize < 1 then None
      else Some
        \<lparr>iproc_obj = 0, iproc_type = 0, iproc_packet_size = 0, iproc_objId = 0, iproc_instId = 0,
         iproc_length = 0, iproc_cs = 0, iproc_rxCount = 0, iproc_state = UAVTALK_STATE_SYNC,
         iproc_rxPacketLength = 0,
         outStream = outputStream, lock = 0, transLock = 0, respSema = False, respObj = 0,
         respInstId = 0, txSize = maxPacketSize,
         rxBuffer = replicate (UAVTALK_MAX_PACKET_LENGTH e) 0,
         txBuffer = replicate (UAVTALK_MAX_PACKET_LENGTH e) 0,
         stats_txBytes = 0, stats_rxBytes = 0, stats_txObjectBytes = 0, stats_txObjects = 0,
         stats_rxObjectBytes = 0, stats_rxObjects = 0, stats_rxErrors = 0,
         registry = r, sink = [], dispatched = []\<rparr>)"

subsection \<open>An instance of the parameters\<close>

text \<open>
  A concrete choice of what the model takes as parameters, on which the functions can be
  evaluated. The checksum step is that of a CRC-8 with polynomial \<open>0x07\<close>. The registry
  holds a single-instance object \<open>A\<close> (handle 1) and a multi-instance object \<open>B\<close>
  (handle 2), both of 4 bytes; its state is the data of \<open>A\<close> and the list of the instances
  of \<open>B\<close>. Unpacking creates the instance that follows the last one, and fails for any
  instance beyond.
\<close>

definition crc8_bit :: "byte \<Rightarrow> byte" where
  "crc8_bit c = (if c AND 0x80 \<noteq> 0 then push_bit 1 c XOR 0x07 else push_bit 1 c)"

definition crc8 :: "byte \<Rightarrow> byte \<Rightarrow> byte" where
  "crc8 crc b =
     crc8_bit (crc8_bit (crc8_bit (crc8_bit (crc8_bit (crc8_bit (crc8_bit (crc8_bit
       (crc XOR b))))))))"

type_synonym reg = "byte list \<times> byte list list"

definition idA :: "32 word" where "idA = 0x11223344"
definition idB :: "32 word" where "idB = 0xA1B2C3D4"

definition ex :: "reg externals" where
  "ex = \<lparr>UAVTALK_SYNC_VAL = 0x3C,
         UAVTALK_TYPE_MASK = 0xF8,
         UAVTALK_TYPE_VER = 0x20,
         UAVTALK_TYPE_OBJ = 0x20,
         UAVTALK_TYPE_OBJ_REQ = 0x21,
         UAVTALK_TYPE_OBJ_ACK = 0x22,
         UAVTALK_TYPE_ACK = 0x23,
         UAVTALK_TYPE_NACK = 0x24,
         UAVTALK_MIN_HEADER_LENGTH = 8,
         UAVTALK_MAX_HEADER_LENGTH = 10,
         UAVTALK_MAX_PAYLOAD_LENGTH = 256,
         UAVTALK_CHECKSUM_LENGTH = 1,
         UAVTALK_MAX_PACKET_LENGTH = 267,
         UAVOBJ_ALL_INSTANCES = 0xFFFF,
         PIOS_CRC_updateByte = crc8,
         UAVObjGetByID = (\<lambda>r i. if i = idA then 1 else if i = idB then 2 else 0),
         UAVObjGetID = (\<lambda>r h. if h = 1 then idA else idB),
         UAVObjGetNumBytes = (\<lambda>r h. 4),
         UAVObjIsSingleInstance = (\<lambda>r h. h = 1),
         UAVObjGetNumInstances = (\<lambda>r h. if h = 1 then 1 else length (snd r)),
         UAVObjPack = (\<lambda>r h i.
            if h = 1 then (if i = 0 then (0, fst r) else (- 1, []))
            else if unat i < length (snd r) then (0, snd r ! unat i) else (- 1, [])),
         UAVObjUnpack = (\<lambda>r h i d.
            if h = 1 then (if i = 0 then (0, (take 4 d, snd r)) else (- 1, r))
            else if unat i < length (snd r) then (0, (fst r, (snd r)[unat i := take 4 d]))
            else if unat i = length (snd r) then (0, (fst r, snd r @ [take 4 d]))
            else (- 1, r))\<rparr>"

text \<open>
  The connection that \<open>UAVTalkInitialize(outputStream, maxPacketSize)\<close> creates in this
  instance, over a registry \<open>r\<close>: receive state \<open>SYNC\<close>, semaphore taken, statistics
  reset, buffers of \<open>UAVTALK_MAX_PACKET_LENGTH\<close> bytes.
\<close>

definition conn :: "nat \<Rightarrow> nat \<Rightarrow> reg \<Rightarrow> reg uavtalk" where
  "conn outputStream maxPacketSize r =
     \<lparr>iproc_obj = 0, iproc_type = 0, iproc_packet_size = 0, iproc_objId = 0, iproc_instId = 0,
      iproc_length = 0, iproc_cs = 0, iproc_rxCount = 0, iproc_state = UAVTALK_STATE_SYNC,
      iproc_rxPacketLength = 0,
      outStream = outputStream, lock = 0, transLock = 0, respSema = False, respObj = 0,
      respInstId = 0, txSize = maxPacketSize,
      rxBuffer = replicate 267 0, txBuffer = replicate 267 0,
      stats_txBytes = 0, stats_rxBytes = 0, stats_txObjectBytes = 0, stats_txObjects = 0,
      stats_rxObjectBytes = 0, stats_rxObjects = 0, stats_rxErrors = 0,
      registry = r, sink = [], dispatched = []\<rparr>"

definition reg0 :: reg where
  "reg0 = ([1, 2, 3, 4], [[5, 6, 7, 8], [9, 10, 11, 12]])"

subsection \<open>The wire format\<close>

text \<open>
  The bytes that \<open>sendSingleObject\<close> and \<open>sendNack\<close> store for a 32-bit object id and a
  16-bit instance id, and the frame they build from a type byte, an object id, the bytes
  of the instance field (none for a single-instance object) and a payload: 8 header bytes
  with the length of everything before the checksum in bytes 2 and 3, then the instance
  field, the payload and the checksum of all that precedes it.
\<close>

definition le32 :: "32 word \<Rightarrow> byte list" where
  "le32 x = [ucast (x AND 0xFF), ucast (drop_bit 8 x AND 0xFF),
             ucast (drop_bit 16 x AND 0xFF), ucast (drop_bit 24 x AND 0xFF)]"

definition le16 :: "16 word \<Rightarrow> byte list" where
  "le16 x = [ucast (x AND 0xFF), ucast (drop_bit 8 x AND 0xFF)]"

definition frame_body :: "'r externals \<Rightarrow> byte \<Rightarrow> 32 word \<Rightarrow> byte list \<Rightarrow> byte list \<Rightarrow> byte list" where
  "frame_body e type objId inst payload =
     (let n = 8 + length inst + length payload
      in [UAVTALK_SYNC_VAL e, type, of_nat n, of_nat (n div 256)] @ le32 objId @ inst @ payload)"

definition frame :: "'r externals \<Rightarrow> byte \<Rightarrow> 32 word \<Rightarrow> byte list \<Rightarrow> byte list \<Rightarrow> byte list" where
  "frame e type objId inst payload =
     frame_body e type objId inst payload
       @ [PIOS_CRC_updateCRC e 0 (frame_body e type objId inst payload)]"

text \<open>A buffer cut into pieces of \<open>m\<close> bytes, the last one possibly shorter.\<close>

function chunks :: "nat \<Rightarrow> byte list \<Rightarrow> byte list list" where
  "chunks m xs = (if m = 0 \<or> xs = [] then [] else take m xs # chunks m (drop m xs))"
  by pat_completeness auto
termination
  by (relation "measure (\<lambda>(m, xs). length xs)") auto

declare chunks.simps [simp del]

text \<open>
  What the spec's wire format (section 6) says of the constants: the five message types
  are distinct and carry the version tag in their upper bits, the header has 8 bytes
  without and 10 bytes with the instance field, the checksum has one byte, the wildcard
  instance id is not the instance 0 of a single-instance object, a frame and its checksum
  fit the buffers, and a frame length fits its 16-bit field.
\<close>

definition wire_format :: "'r externals \<Rightarrow> bool" where
  "wire_format e \<longleftrightarrow>
     distinct [UAVTALK_TYPE_OBJ e, UAVTALK_TYPE_OBJ_REQ e, UAVTALK_TYPE_OBJ_ACK e,
               UAVTALK_TYPE_ACK e, UAVTALK_TYPE_NACK e]
     \<and> list_all (\<lambda>t. t AND UAVTALK_TYPE_MASK e = UAVTALK_TYPE_VER e)
          [UAVTALK_TYPE_OBJ e, UAVTALK_TYPE_OBJ_REQ e, UAVTALK_TYPE_OBJ_ACK e,
           UAVTALK_TYPE_ACK e, UAVTALK_TYPE_NACK e]
     \<and> UAVTALK_MIN_HEADER_LENGTH e = 8
     \<and> UAVTALK_MAX_HEADER_LENGTH e = 10
     \<and> UAVTALK_CHECKSUM_LENGTH e = 1
     \<and> 0 < UAVTALK_MAX_PAYLOAD_LENGTH e
     \<and> UAVOBJ_ALL_INSTANCES e \<noteq> 0
     \<and> UAVTALK_MAX_HEADER_LENGTH e + UAVTALK_MAX_PAYLOAD_LENGTH e < 0xffff
     \<and> UAVTALK_MAX_PACKET_LENGTH e
         = UAVTALK_MAX_HEADER_LENGTH e + UAVTALK_MAX_PAYLOAD_LENGTH e + UAVTALK_CHECKSUM_LENGTH e"

text \<open>
  The same parameters with objects of 256 bytes, the value of
  \<open>UAVTALK_MAX_PAYLOAD_LENGTH\<close> in this instance.
\<close>

definition ex256 :: "reg externals" where
  "ex256 = ex\<lparr>UAVObjGetNumBytes := (\<lambda>r h. 256),
                UAVObjPack := (\<lambda>r h i. (0, replicate 256 0))\<rparr>"

text \<open>
  The same parameters with objects whose size is the largest 32-bit value, which
  \<open>sendSingleObject\<close> reads as the length \<open>-1\<close>.
\<close>

definition exWrap :: "reg externals" where
  "exWrap = ex\<lparr>UAVObjGetNumBytes := (\<lambda>r h. 0xFFFFFFFF)\<rparr>"

text \<open>A registry in which the last byte of instance 1 of \<open>B\<close> is the start marker.\<close>

definition reg1 :: reg where
  "reg1 = ([1, 2, 3, 4], [[5, 6, 7, 8], [9, 10, 11, 0x3C]])"

subsection \<open>Fields that the transmitter leaves alone\<close>

text \<open>
  \<open>keeps s s'\<close>: the states \<open>s\<close> and \<open>s'\<close> differ at most in the transmit buffer, the
  history of the output stream and the transmit statistics.
\<close>

definition keeps :: "'r uavtalk \<Rightarrow> 'r uavtalk \<Rightarrow> bool" where
  "keeps s s' \<longleftrightarrow>
     iproc_obj s' = iproc_obj s \<and> iproc_type s' = iproc_type s
     \<and> iproc_packet_size s' = iproc_packet_size s \<and> iproc_objId s' = iproc_objId s
     \<and> iproc_instId s' = iproc_instId s \<and> iproc_length s' = iproc_length s
     \<and> iproc_cs s' = iproc_cs s \<and> iproc_rxCount s' = iproc_rxCount s
     \<and> iproc_state s' = iproc_state s \<and> iproc_rxPacketLength s' = iproc_rxPacketLength s
     \<and> outStream s' = outStream s \<and> lock s' = lock s \<and> transLock s' = transLock s
     \<and> respSema s' = respSema s \<and> respObj s' = respObj s \<and> respInstId s' = respInstId s
     \<and> txSize s' = txSize s \<and> rxBuffer s' = rxBuffer s
     \<and> stats_rxBytes s' = stats_rxBytes s \<and> stats_rxObjectBytes s' = stats_rxObjectBytes s
     \<and> stats_rxObjects s' = stats_rxObjects s \<and> stats_rxErrors s' = stats_rxErrors s
     \<and> registry s' = registry s \<and> dispatched s' = dispatched s"

text \<open>
  What a step of the receiver keeps: \<open>txSize\<close>, the hold count of \<open>transLock\<close>, and that
  the pending slot is empty once the response semaphore has been given.
\<close>

definition rx_inv :: "'r uavtalk \<Rightarrow> 'r uavtalk \<Rightarrow> bool" where
  "rx_inv s s' \<longleftrightarrow> txSize s' = txSize s \<and> transLock s' = transLock s
     \<and> ((respSema s \<longrightarrow> respObj s = 0) \<longrightarrow> (respSema s' \<longrightarrow> respObj s' = 0))"

section \<open>Properties\<close>

subsection \<open>The transmit loop\<close>

lemma chunks_Nil [simp]: "chunks m [] = []"
  by (simp add: chunks.simps)

lemma concat_chunks: "0 < m \<Longrightarrow> concat (chunks m xs) = xs"
proof (induction m xs rule: chunks.induct)
  case (1 m xs)
  then show ?case by (subst chunks.simps) auto
qed

lemma length_chunks: "c \<in> set (chunks m xs) \<Longrightarrow> length c \<le> m"
proof (induction m xs rule: chunks.induct)
  case (1 m xs)
  from "1.prems" have c: "c \<in> set (if m = 0 \<or> xs = [] then [] else take m xs # chunks m (drop m xs))"
    by (subst (asm) chunks.simps)
  show ?case
  proof (cases "m = 0 \<or> xs = []")
    case True
    with c show ?thesis by simp
  next
    case False
    with c have "c = take m xs \<or> c \<in> set (chunks m (drop m xs))" by simp
    then show ?thesis using "1.IH" False by auto
  qed
qed

lemma sendBuffer_chunks:
  "0 < txSize s \<Longrightarrow> sent \<le> n \<Longrightarrow> n \<le> length (txBuffer s) \<Longrightarrow>
   sendBuffer n sent s =
     Some (if outStream s \<noteq> 0
           then s\<lparr>sink := sink s @ chunks (txSize s) (take (n - sent) (drop sent (txBuffer s)))\<rparr>
           else s)"
proof (induction "n - sent" arbitrary: sent s rule: less_induct)
  case less
  show ?case
  proof (cases "sent < n")
    case False
    with less.prems have "sent = n" by simp
    then show ?thesis by (subst sendBuffer.simps) simp
  next
    case True
    define sending where "sending = (if n - sent > txSize s then txSize s else n - sent)"
    define s' where "s' = (if outStream s \<noteq> 0
                   then s\<lparr>sink := sink s @ [take sending (drop sent (txBuffer s))]\<rparr>
                   else s)"
    have pos: "0 < sending" "sent + sending \<le> n" "sending \<le> txSize s"
      using True less.prems by (auto simp: sending_def)
    have s': "txSize s' = txSize s" "txBuffer s' = txBuffer s" "outStream s' = outStream s"
      by (auto simp: s'_def)
    have step: "sendBuffer n sent s = sendBuffer n (sent + sending) s'"
      using True by (subst sendBuffer.simps) (simp add: sending_def s'_def Let_def)
    have IH: "sendBuffer n (sent + sending) s' =
      Some (if outStream s' \<noteq> 0
           then s'\<lparr>sink := sink s' @ chunks (txSize s') (take (n - (sent + sending)) (drop (sent + sending) (txBuffer s')))\<rparr>
           else s')"
      using pos less.prems True by (intro less.hyps) (auto simp: s')
    let ?xs = "take (n - sent) (drop sent (txBuffer s))"
    have ne: "?xs \<noteq> []" using True less.prems by auto
    have c1: "take (txSize s) ?xs = take sending (drop sent (txBuffer s))"
      by (auto simp: sending_def min_def)
    have c2: "chunks (txSize s) (drop (txSize s) ?xs)
        = chunks (txSize s) (take (n - (sent + sending)) (drop (sent + sending) (txBuffer s)))"
    proof (cases "n - sent > txSize s")
      case True
      then show ?thesis by (simp add: sending_def drop_take add.commute)
    next
      case False
      then show ?thesis by (simp add: sending_def)
    qed
    have "chunks (txSize s) ?xs = take sending (drop sent (txBuffer s))
            # chunks (txSize s) (take (n - (sent + sending)) (drop (sent + sending) (txBuffer s)))"
      using ne less.prems(1) c1 c2 by (subst chunks.simps) simp
    then show ?thesis
      unfolding step IH by (simp add: s' s'_def)
  qed
qed

subsection \<open>The transmit buffer\<close>

lemma update8:
  assumes "8 \<le> length tx"
  shows "\<exists>x2 x3 rest. tx[0 := a, 1 := b, 4 := c4, 5 := c5, 6 := c6, 7 := c7]
           = [a, b, x2, x3, c4, c5, c6, c7] @ rest \<and> length rest = length tx - 8"
proof -
  from assms obtain x0 x1 x2 x3 x4 x5 x6 x7 rest
    where tx: "tx = x0 # x1 # x2 # x3 # x4 # x5 # x6 # x7 # rest"
    by (auto simp: Suc_le_length_iff eval_nat_numeral)
  show ?thesis by (simp add: tx eval_nat_numeral)
qed

lemma buf_single:
  assumes len: "8 + length pl + 1 \<le> length tx"
    and tx4: "tx4 = (store (tx[0 := a, 1 := b, 4 := c4, 5 := c5, 6 := c6, 7 := c7]) 8 pl)[2 := l0, 3 := l1]"
  shows "take (8 + length pl) tx4 = [a, b, l0, l1, c4, c5, c6, c7] @ pl"
    and "take (8 + length pl + 1) (tx4[8 + length pl := c]) = [a, b, l0, l1, c4, c5, c6, c7] @ pl @ [c]"
    and "length (tx4[8 + length pl := c]) = length tx"
proof -
  from len have "8 \<le> length tx" by simp
  from update8[OF this, of a b c4 c5 c6 c7] obtain x2 x3 rest where
    tx2: "tx[0 := a, 1 := b, 4 := c4, 5 := c5, 6 := c6, 7 := c7] = [a, b, x2, x3, c4, c5, c6, c7] @ rest"
    and r: "length rest = length tx - 8"
    by blast
  have tx4': "tx4 = [a, b, l0, l1, c4, c5, c6, c7] @ pl @ drop (length pl) rest"
    unfolding tx4 tx2 by (simp add: store_def eval_nat_numeral)
  from len r have "length pl < length rest" by simp
  then obtain y ys where d: "drop (length pl) rest = y # ys"
    by (cases "drop (length pl) rest") auto
  show "take (8 + length pl) tx4 = [a, b, l0, l1, c4, c5, c6, c7] @ pl"
    by (simp add: tx4' eval_nat_numeral)
  have upd: "tx4[8 + length pl := c] = [a, b, l0, l1, c4, c5, c6, c7] @ pl @ c # ys"
    by (simp add: tx4' d list_update_append eval_nat_numeral)
  show "take (8 + length pl + 1) (tx4[8 + length pl := c]) = [a, b, l0, l1, c4, c5, c6, c7] @ pl @ [c]"
    unfolding upd by (simp add: eval_nat_numeral)
  show "length (tx4[8 + length pl := c]) = length tx"
    using len r by (simp add: tx4')
qed

lemma buf_multi:
  assumes len: "10 + length pl + 1 \<le> length tx"
    and tx4: "tx4 = (store (tx[0 := a, 1 := b, 4 := c4, 5 := c5, 6 := c6, 7 := c7, 8 := i0, 9 := i1]) 10 pl)
                 [2 := l0, 3 := l1]"
  shows "take (10 + length pl) tx4 = [a, b, l0, l1, c4, c5, c6, c7, i0, i1] @ pl"
    and "take (10 + length pl + 1) (tx4[10 + length pl := c])
           = [a, b, l0, l1, c4, c5, c6, c7, i0, i1] @ pl @ [c]"
    and "length (tx4[10 + length pl := c]) = length tx"
proof -
  from len have "8 \<le> length tx" by simp
  from update8[OF this, of a b c4 c5 c6 c7] obtain x2 x3 rest where
    tx2: "tx[0 := a, 1 := b, 4 := c4, 5 := c5, 6 := c6, 7 := c7] = [a, b, x2, x3, c4, c5, c6, c7] @ rest"
    and r: "length rest = length tx - 8"
    by blast
  from len r obtain x8 x9 rest' where rest: "rest = x8 # x9 # rest'"
    by (cases rest; cases "tl rest") auto
  have tx4': "tx4 = [a, b, l0, l1, c4, c5, c6, c7, i0, i1] @ pl @ drop (length pl) rest'"
    unfolding tx4 tx2 rest by (simp add: store_def eval_nat_numeral)
  from len r rest have "length pl < length rest'" by simp
  then obtain y ys where d: "drop (length pl) rest' = y # ys"
    by (cases "drop (length pl) rest'") auto
  show "take (10 + length pl) tx4 = [a, b, l0, l1, c4, c5, c6, c7, i0, i1] @ pl"
    by (simp add: tx4' eval_nat_numeral)
  have upd: "tx4[10 + length pl := c] = [a, b, l0, l1, c4, c5, c6, c7, i0, i1] @ pl @ c # ys"
    by (simp add: tx4' d list_update_append eval_nat_numeral)
  show "take (10 + length pl + 1) (tx4[10 + length pl := c])
           = [a, b, l0, l1, c4, c5, c6, c7, i0, i1] @ pl @ [c]"
    unfolding upd by (simp add: eval_nat_numeral)
  show "length (tx4[10 + length pl := c]) = length tx"
    using len r rest by (simp add: tx4')
qed

lemma sendBuffer_frame:
  assumes "0 < txSize s" and "n \<le> length buf" and "take n buf = F"
  shows "sendBuffer n 0 (s\<lparr>txBuffer := buf\<rparr>) =
     Some (s\<lparr>txBuffer := buf,
             sink := (if outStream s \<noteq> 0 then sink s @ chunks (txSize s) F else sink s)\<rparr>)"
  using sendBuffer_chunks[of "s\<lparr>txBuffer := buf\<rparr>" 0 n] assms by simp

lemma sendSingleObject_unfold:
  assumes "objId = UAVObjGetID e (registry s) obj"
    and "tx1 = (txBuffer s)
                  [0 := UAVTALK_SYNC_VAL e,
                   1 := type,
                   4 := ucast (objId AND 0xFF),
                   5 := ucast (drop_bit 8 objId AND 0xFF),
                   6 := ucast (drop_bit 16 objId AND 0xFF),
                   7 := ucast (drop_bit 24 objId AND 0xFF)]"
    and "single = UAVObjIsSingleInstance e (registry s) obj"
    and "tx2 = (if single then tx1
                 else tx1[8 := ucast (instId AND 0xFF), 9 := ucast (drop_bit 8 instId AND 0xFF)])"
    and "dataOffset = (if single then 8 else 10 :: nat)"
    and "len = (if type = UAVTALK_TYPE_OBJ_REQ e \<or> type = UAVTALK_TYPE_ACK e then 0
                 else sint (of_nat (UAVObjGetNumBytes e (registry s) obj) :: 32 word))"
    and "packed = (if len > 0 then UAVObjPack e (registry s) obj instId else (0, []))"
    and "tx3 = store tx2 dataOffset (snd packed)"
    and "n = int dataOffset + len"
    and "tx4 = tx3[2 := of_int n, 3 := of_int (n div 256)]"
    and "tx5 = (if n < 0 then tx4 else tx4[nat n := PIOS_CRC_updateCRC e 0 (take (nat n) tx4)])"
    and "nbytes = unat (of_int (n + int (UAVTALK_CHECKSUM_LENGTH e)) :: 32 word)"
  shows "sendSingleObject e s obj instId type =
     (if len \<ge> int (UAVTALK_MAX_PAYLOAD_LENGTH e) then Some (- 1, s\<lparr>txBuffer := tx2\<rparr>)
      else if len > 0 \<and> fst packed < 0 then Some (- 1, s\<lparr>txBuffer := tx3\<rparr>)
      else do {
             s' \<leftarrow> sendBuffer nbytes 0 (s\<lparr>txBuffer := tx5\<rparr>);
             Some (0, s'\<lparr>stats_txObjects := stats_txObjects s' + 1,
                         stats_txBytes := stats_txBytes s'
                            + of_int (n + int (UAVTALK_CHECKSUM_LENGTH e)),
                         stats_txObjectBytes := stats_txObjectBytes s' + of_int len\<rparr>)
           })"
  unfolding sendSingleObject_def Let_def assms ..

lemma sint_of_nat_32:
  "n < 2 ^ 31 \<Longrightarrow> sint (of_nat n :: 32 word) = int n"
  by (simp add: signed_of_nat signed_take_bit_int_eq_self)

lemma unat_of_nat_32:
  "k < 2 ^ 32 \<Longrightarrow> unat (of_nat k :: 32 word) = k"
  by (simp add: unsigned_of_nat take_bit_nat_eq_self)

lemma sendSingleObject_unfold_nat:
  assumes cl: "UAVTALK_CHECKSUM_LENGTH e = 1"
    and il: "int len = (if type = UAVTALK_TYPE_OBJ_REQ e \<or> type = UAVTALK_TYPE_ACK e then 0
                 else sint (of_nat (UAVObjGetNumBytes e (registry s) obj) :: 32 word))"
    and "objId = UAVObjGetID e (registry s) obj"
    and "tx1 = (txBuffer s)
                  [0 := UAVTALK_SYNC_VAL e,
                   1 := type,
                   4 := ucast (objId AND 0xFF),
                   5 := ucast (drop_bit 8 objId AND 0xFF),
                   6 := ucast (drop_bit 16 objId AND 0xFF),
                   7 := ucast (drop_bit 24 objId AND 0xFF)]"
    and "single = UAVObjIsSingleInstance e (registry s) obj"
    and "tx2 = (if single then tx1
                 else tx1[8 := ucast (instId AND 0xFF), 9 := ucast (drop_bit 8 instId AND 0xFF)])"
    and dataOffset: "dataOffset = (if single then 8 else 10 :: nat)"
    and packed: "packed = (if len > 0 then UAVObjPack e (registry s) obj instId else (0, []))"
    and tx3: "tx3 = store tx2 dataOffset (snd packed)"
    and tx4: "tx4 = tx3[2 := of_nat (dataOffset + len), 3 := of_nat ((dataOffset + len) div 256)]"
    and tx5: "tx5 = tx4[dataOffset + len := PIOS_CRC_updateCRC e 0 (take (dataOffset + len) tx4)]"
  shows "sendSingleObject e s obj instId type =
     (if len \<ge> UAVTALK_MAX_PAYLOAD_LENGTH e then Some (- 1, s\<lparr>txBuffer := tx2\<rparr>)
      else if len > 0 \<and> fst packed < 0 then Some (- 1, s\<lparr>txBuffer := tx3\<rparr>)
      else do {
             s' \<leftarrow> sendBuffer (dataOffset + len + UAVTALK_CHECKSUM_LENGTH e) 0 (s\<lparr>txBuffer := tx5\<rparr>);
             Some (0, s'\<lparr>stats_txObjects := stats_txObjects s' + 1,
                         stats_txBytes := stats_txBytes s'
                            + of_nat (dataOffset + len + UAVTALK_CHECKSUM_LENGTH e),
                         stats_txObjectBytes := stats_txObjectBytes s' + of_nat len\<rparr>)
           })"
proof -
  define ilen where "ilen = (if type = UAVTALK_TYPE_OBJ_REQ e \<or> type = UAVTALK_TYPE_ACK e then 0
                 else sint (of_nat (UAVObjGetNumBytes e (registry s) obj) :: 32 word))"
  have il: "ilen = int len"
    using il by (simp add: ilen_def)
  have "sint (of_nat (UAVObjGetNumBytes e (registry s) obj) :: 32 word) < 2 ^ 31"
    using sint_lt[of "of_nat (UAVObjGetNumBytes e (registry s) obj) :: 32 word"] by simp
  then have small: "len < 2 ^ 31"
    using il by (auto simp: ilen_def split: if_splits)
  define n where "n = int dataOffset + ilen"
  have n: "n = int (dataOffset + len)" by (simp add: n_def il)
  have pk: "packed = (if ilen > 0 then UAVObjPack e (registry s) obj instId else (0, []))"
    by (simp add: packed il)
  have d256: "int (dataOffset + len) div 256 = int ((dataOffset + len) div 256)"
    by (simp add: zdiv_int)
  have t4: "tx4 = tx3[2 := of_int n, 3 := of_int (n div 256)]"
    by (simp only: tx4 n d256 of_int_of_nat_eq)
  have nn: "nat n = dataOffset + len" "\<not> n < 0"
    by (simp_all add: n)
  have t5: "tx5 = (if n < 0 then tx4 else tx4[nat n := PIOS_CRC_updateCRC e 0 (take (nat n) tx4)])"
    by (simp only: tx5 nn if_False)
  have lt: "dataOffset + len + 1 < 2 ^ 32" using small by (simp add: dataOffset)
  have "n + int (UAVTALK_CHECKSUM_LENGTH e) = int (dataOffset + len + 1)"
    by (simp add: n cl)
  then have "(of_int (n + int (UAVTALK_CHECKSUM_LENGTH e)) :: 32 word) = of_nat (dataOffset + len + 1)"
    by (simp only: of_int_of_nat_eq)
  then have nb: "dataOffset + len + UAVTALK_CHECKSUM_LENGTH e
       = unat (of_int (n + int (UAVTALK_CHECKSUM_LENGTH e)) :: 32 word)"
    by (simp only: cl unat_of_nat_32[OF lt])
  show ?thesis
    unfolding sendSingleObject_unfold[OF assms(3-7) ilen_def pk tx3 n_def t4 t5 nb]
    by (simp add: il n)
qed

lemma sendSingleObject_frame_int:
  assumes cl: "UAVTALK_CHECKSUM_LENGTH e = 1"
    and tx: "0 < txSize s"
    and len: "int (length payload) =
                (if type = UAVTALK_TYPE_OBJ_REQ e \<or> type = UAVTALK_TYPE_ACK e then 0
                 else sint (of_nat (UAVObjGetNumBytes e (registry s) obj) :: 32 word))"
    and max: "length payload < UAVTALK_MAX_PAYLOAD_LENGTH e"
    and pack: "payload \<noteq> [] \<Longrightarrow> snd (UAVObjPack e (registry s) obj instId) = payload
                 \<and> 0 \<le> fst (UAVObjPack e (registry s) obj instId)"
    and buf: "10 + length payload + 1 \<le> length (txBuffer s)"
    and F: "F = frame e type (UAVObjGetID e (registry s) obj)
                 (if UAVObjIsSingleInstance e (registry s) obj then [] else le16 instId) payload"
  shows "\<exists>tx'. length tx' = length (txBuffer s) \<and>
     sendSingleObject e s obj instId type =
       Some (0, s\<lparr>txBuffer := tx',
                  sink := (if outStream s \<noteq> 0 then sink s @ chunks (txSize s) F else sink s),
                  stats_txObjects := stats_txObjects s + 1,
                  stats_txBytes := stats_txBytes s + of_nat (length F),
                  stats_txObjectBytes := stats_txObjectBytes s + of_nat (length payload)\<rparr>)"
proof -
  define objId where "objId = UAVObjGetID e (registry s) obj"
  define tx1 where "tx1 = (txBuffer s)
                  [0 := UAVTALK_SYNC_VAL e,
                   1 := type,
                   4 := ucast (objId AND 0xFF),
                   5 := ucast (drop_bit 8 objId AND 0xFF),
                   6 := ucast (drop_bit 16 objId AND 0xFF),
                   7 := ucast (drop_bit 24 objId AND 0xFF)]"
  define single where "single = UAVObjIsSingleInstance e (registry s) obj"
  define tx2 where "tx2 = (if single then tx1
                 else tx1[8 := ucast (instId AND 0xFF), 9 := ucast (drop_bit 8 instId AND 0xFF)])"
  define dataOffset where "dataOffset = (if single then 8 else 10 :: nat)"
  define len where "len = length payload"
  define packed where "packed = (if len > 0 then UAVObjPack e (registry s) obj instId else (0, []))"
  define tx3 where "tx3 = store tx2 dataOffset (snd packed)"
  define tx4 where "tx4 = tx3[2 := of_nat (dataOffset + len), 3 := of_nat ((dataOffset + len) div 256)]"
  define crc where "crc = PIOS_CRC_updateCRC e 0 (take (dataOffset + len) tx4)"
  define tx5 where "tx5 = tx4[dataOffset + len := crc]"
  have ll: "len = length payload" by (simp add: len_def)
  note U = sendSingleObject_unfold_nat[OF cl len[folded len_def] objId_def tx1_def single_def
      tx2_def dataOffset_def packed_def tx3_def tx4_def tx5_def[unfolded crc_def]]
  have pk: "snd packed = payload" "\<not> (len > 0 \<and> fst packed < 0)"
    using pack by (auto simp: packed_def ll)
  have inst: "length (if single then [] else le16 instId) + 8 = dataOffset"
    by (simp add: dataOffset_def le16_def)
  have lF: "length F = dataOffset + len + 1"
    by (simp add: F frame_def frame_body_def le32_def ll single_def[symmetric] dataOffset_def le16_def)
  have fr: "take (dataOffset + len + 1) tx5 = F \<and> length tx5 = length (txBuffer s)"
  proof (cases single)
    case True
    have d: "dataOffset = 8" by (simp add: dataOffset_def True)
    have t4: "tx4 = (store ((txBuffer s)[0 := UAVTALK_SYNC_VAL e, 1 := type,
        4 := ucast (objId AND 0xFF), 5 := ucast (drop_bit 8 objId AND 0xFF),
        6 := ucast (drop_bit 16 objId AND 0xFF), 7 := ucast (drop_bit 24 objId AND 0xFF)]) 8 payload)
        [2 := of_nat (8 + length payload), 3 := of_nat ((8 + length payload) div 256)]"
      by (simp only: tx4_def tx3_def tx2_def tx1_def True if_True d ll pk)
    from buf have b8: "8 + length payload + 1 \<le> length (txBuffer s)" by simp
    note B = buf_single(1)[OF b8 t4] buf_single(2)[OF b8 t4, where c = crc] buf_single(3)[OF b8 t4, where c = crc]
    have "take (8 + length payload) tx4 = frame_body e type objId [] payload"
      unfolding B(1) by (simp add: frame_body_def le32_def)
    then have "crc = PIOS_CRC_updateCRC e 0 (frame_body e type objId [] payload)"
      by (simp only: crc_def d ll)
    with B(2,3) show ?thesis
      by (simp add: tx5_def d ll F frame_def frame_body_def le32_def True single_def[symmetric]
          objId_def[symmetric])
  next
    case False
    have d: "dataOffset = 10" by (simp add: dataOffset_def False)
    have t4: "tx4 = (store ((txBuffer s)[0 := UAVTALK_SYNC_VAL e, 1 := type,
        4 := ucast (objId AND 0xFF), 5 := ucast (drop_bit 8 objId AND 0xFF),
        6 := ucast (drop_bit 16 objId AND 0xFF), 7 := ucast (drop_bit 24 objId AND 0xFF),
        8 := ucast (instId AND 0xFF), 9 := ucast (drop_bit 8 instId AND 0xFF)]) 10 payload)
        [2 := of_nat (10 + length payload), 3 := of_nat ((10 + length payload) div 256)]"
      by (simp only: tx4_def tx3_def tx2_def tx1_def False if_False d ll pk)
    note B = buf_multi(1)[OF buf t4] buf_multi(2)[OF buf t4, where c = crc] buf_multi(3)[OF buf t4, where c = crc]
    have "take (10 + length payload) tx4 = frame_body e type objId (le16 instId) payload"
      unfolding B(1) by (simp add: frame_body_def le32_def le16_def)
    then have "crc = PIOS_CRC_updateCRC e 0 (frame_body e type objId (le16 instId) payload)"
      by (simp only: crc_def d ll)
    with B(2,3) show ?thesis
      by (simp add: tx5_def d ll F frame_def frame_body_def le32_def le16_def False single_def[symmetric]
          objId_def[symmetric])
  qed
  have n: "dataOffset + len + 1 \<le> length tx5"
    using fr buf by (simp add: ll dataOffset_def)
  have "sendSingleObject e s obj instId type =
       Some (0, s\<lparr>txBuffer := tx5,
                  sink := (if outStream s \<noteq> 0 then sink s @ chunks (txSize s) F else sink s),
                  stats_txObjects := stats_txObjects s + 1,
                  stats_txBytes := stats_txBytes s + of_nat (length F),
                  stats_txObjectBytes := stats_txObjectBytes s + of_nat (length payload)\<rparr>)"
    unfolding U using max pk(2) sendBuffer_frame[OF tx n conjunct1[OF fr]]
    by (simp add: cl ll[symmetric] lF)
  with fr show ?thesis by blast
qed

lemma sendSingleObject_frame:
  assumes cl: "UAVTALK_CHECKSUM_LENGTH e = 1"
    and tx: "0 < txSize s"
    and len: "length payload = (if type = UAVTALK_TYPE_OBJ_REQ e \<or> type = UAVTALK_TYPE_ACK e then 0
                 else UAVObjGetNumBytes e (registry s) obj)"
    and max: "length payload < UAVTALK_MAX_PAYLOAD_LENGTH e"
    and pack: "payload \<noteq> [] \<Longrightarrow> snd (UAVObjPack e (registry s) obj instId) = payload
                 \<and> 0 \<le> fst (UAVObjPack e (registry s) obj instId)"
    and buf: "10 + length payload + 1 \<le> length (txBuffer s)"
    and F: "F = frame e type (UAVObjGetID e (registry s) obj)
                 (if UAVObjIsSingleInstance e (registry s) obj then [] else le16 instId) payload"
    and small: "length payload < 2 ^ 31"
  shows "\<exists>tx'. length tx' = length (txBuffer s) \<and>
     sendSingleObject e s obj instId type =
       Some (0, s\<lparr>txBuffer := tx',
                  sink := (if outStream s \<noteq> 0 then sink s @ chunks (txSize s) F else sink s),
                  stats_txObjects := stats_txObjects s + 1,
                  stats_txBytes := stats_txBytes s + of_nat (length F),
                  stats_txObjectBytes := stats_txObjectBytes s + of_nat (length payload)\<rparr>)"
proof -
  have "int (length payload) =
                (if type = UAVTALK_TYPE_OBJ_REQ e \<or> type = UAVTALK_TYPE_ACK e then 0
                 else sint (of_nat (UAVObjGetNumBytes e (registry s) obj) :: 32 word))"
    using len small by (auto simp: sint_of_nat_32 split: if_splits)
  from sendSingleObject_frame_int[OF cl tx this max pack buf F] show ?thesis .
qed

subsection \<open>The instance of the parameters\<close>

lemma ex_simps [simp]:
  "UAVTALK_SYNC_VAL ex = 0x3C"
  "UAVTALK_TYPE_MASK ex = 0xF8"
  "UAVTALK_TYPE_VER ex = 0x20"
  "UAVTALK_TYPE_OBJ ex = 0x20"
  "UAVTALK_TYPE_OBJ_REQ ex = 0x21"
  "UAVTALK_TYPE_OBJ_ACK ex = 0x22"
  "UAVTALK_TYPE_ACK ex = 0x23"
  "UAVTALK_TYPE_NACK ex = 0x24"
  "UAVTALK_MIN_HEADER_LENGTH ex = 8"
  "UAVTALK_MAX_HEADER_LENGTH ex = 10"
  "UAVTALK_MAX_PAYLOAD_LENGTH ex = 256"
  "UAVTALK_CHECKSUM_LENGTH ex = 1"
  "UAVTALK_MAX_PACKET_LENGTH ex = 267"
  "UAVOBJ_ALL_INSTANCES ex = 0xFFFF"
  "PIOS_CRC_updateByte ex = crc8"
  "UAVObjGetByID ex r i = (if i = idA then 1 else if i = idB then 2 else 0)"
  "UAVObjGetID ex r h = (if h = 1 then idA else idB)"
  "UAVObjGetNumBytes ex r h = 4"
  "UAVObjIsSingleInstance ex r h = (h = 1)"
  "UAVObjGetNumInstances ex r h = (if h = 1 then 1 else length (snd r))"
  "UAVObjPack ex r h j =
     (if h = 1 then (if j = 0 then (0, fst r) else (- 1, []))
      else if unat j < length (snd r) then (0, snd r ! unat j) else (- 1, []))"
  "UAVObjUnpack ex r h j d =
     (if h = 1 then (if j = 0 then (0, (take 4 d, snd r)) else (- 1, r))
      else if unat j < length (snd r) then (0, (fst r, (snd r)[unat j := take 4 d]))
      else if unat j = length (snd r) then (0, (fst r, snd r @ [take 4 d]))
      else (- 1, r))"
  by (simp_all add: ex_def)

lemma conn_simps [simp]:
  "iproc_state (conn p m r) = UAVTALK_STATE_SYNC"
  "outStream (conn p m r) = p"
  "lock (conn p m r) = 0"
  "transLock (conn p m r) = 0"
  "respSema (conn p m r) = False"
  "respObj (conn p m r) = 0"
  "respInstId (conn p m r) = 0"
  "txSize (conn p m r) = m"
  "length (rxBuffer (conn p m r)) = 267"
  "length (txBuffer (conn p m r)) = 267"
  "stats_rxErrors (conn p m r) = 0"
  "stats_rxObjects (conn p m r) = 0"
  "registry (conn p m r) = r"
  "sink (conn p m r) = []"
  "dispatched (conn p m r) = []"
  by (simp_all add: conn_def)

lemma UAVTalkInitialize_ex:
  "UAVTalkInitialize ex r outputStream maxPacketSize =
     (if maxPacketSize < 1 then None else Some (conn outputStream maxPacketSize r))"
  by (simp add: UAVTalkInitialize_def conn_def)

lemma wire_format_ex: "wire_format ex"
  by (simp add: wire_format_def)

lemma idA_neq_idB [simp]: "idA \<noteq> idB" "idB \<noteq> idA"
  by (simp_all add: idA_def idB_def)

subsection \<open>Steps of the receive state machine\<close>

lemma processBytes_append:
  "processBytes e s (xs @ ys) = processBytes e s xs \<bind> (\<lambda>s'. processBytes e s' ys)"
  by (induction xs arbitrary: s) simp_all

lemma step_SYNC_skip:
  "iproc_state s = UAVTALK_STATE_SYNC \<Longrightarrow> b \<noteq> UAVTALK_SYNC_VAL e \<Longrightarrow>
   UAVTalkProcessInputStream e s b =
     Some (s\<lparr>stats_rxBytes := stats_rxBytes s + 1,
             iproc_rxPacketLength :=
               (if iproc_rxPacketLength s < 0xffff then iproc_rxPacketLength s + 1
                else iproc_rxPacketLength s)\<rparr>)"
  by (simp add: UAVTalkProcessInputStream_def)

lemma step_SYNC:
  "iproc_state s = UAVTALK_STATE_SYNC \<Longrightarrow>
   UAVTalkProcessInputStream e s (UAVTALK_SYNC_VAL e) =
     Some (s\<lparr>stats_rxBytes := stats_rxBytes s + 1,
             iproc_cs := PIOS_CRC_updateByte e 0 (UAVTALK_SYNC_VAL e),
             iproc_rxPacketLength := 1,
             iproc_state := UAVTALK_STATE_TYPE\<rparr>)"
  by (simp add: UAVTalkProcessInputStream_def)

lemma step_TYPE:
  "iproc_state s = UAVTALK_STATE_TYPE \<Longrightarrow> b AND UAVTALK_TYPE_MASK e = UAVTALK_TYPE_VER e \<Longrightarrow>
   iproc_rxPacketLength s < 0xffff \<Longrightarrow>
   UAVTalkProcessInputStream e s b =
     Some (s\<lparr>stats_rxBytes := stats_rxBytes s + 1,
             iproc_rxPacketLength := iproc_rxPacketLength s + 1,
             iproc_cs := PIOS_CRC_updateByte e (iproc_cs s) b,
             iproc_type := b,
             iproc_packet_size := 0,
             iproc_state := UAVTALK_STATE_SIZE,
             iproc_rxCount := 0\<rparr>)"
  by (simp add: UAVTalkProcessInputStream_def)

lemma step_TYPE_bad:
  "iproc_state s = UAVTALK_STATE_TYPE \<Longrightarrow> b AND UAVTALK_TYPE_MASK e \<noteq> UAVTALK_TYPE_VER e \<Longrightarrow>
   iproc_rxPacketLength s < 0xffff \<Longrightarrow>
   UAVTalkProcessInputStream e s b =
     Some (s\<lparr>stats_rxBytes := stats_rxBytes s + 1,
             iproc_rxPacketLength := iproc_rxPacketLength s + 1,
             iproc_cs := PIOS_CRC_updateByte e (iproc_cs s) b,
             iproc_state := UAVTALK_STATE_SYNC\<rparr>)"
  by (simp add: UAVTalkProcessInputStream_def)

lemma step_SIZE_lo:
  "iproc_state s = UAVTALK_STATE_SIZE \<Longrightarrow> iproc_rxCount s = 0 \<Longrightarrow>
   iproc_rxPacketLength s < 0xffff \<Longrightarrow>
   UAVTalkProcessInputStream e s b =
     Some (s\<lparr>stats_rxBytes := stats_rxBytes s + 1,
             iproc_rxPacketLength := iproc_rxPacketLength s + 1,
             iproc_cs := PIOS_CRC_updateByte e (iproc_cs s) b,
             iproc_packet_size := iproc_packet_size s + unat b,
             iproc_rxCount := 1\<rparr>)"
  by (simp add: UAVTalkProcessInputStream_def)

lemma step_SIZE_hi:
  "iproc_state s = UAVTALK_STATE_SIZE \<Longrightarrow> iproc_rxCount s \<noteq> 0 \<Longrightarrow>
   iproc_rxPacketLength s < 0xffff \<Longrightarrow>
   UAVTALK_MIN_HEADER_LENGTH e \<le> iproc_packet_size s + unat b * 256 \<Longrightarrow>
   iproc_packet_size s + unat b * 256
     \<le> UAVTALK_MAX_HEADER_LENGTH e + UAVTALK_MAX_PAYLOAD_LENGTH e \<Longrightarrow>
   UAVTalkProcessInputStream e s b =
     Some (s\<lparr>stats_rxBytes := stats_rxBytes s + 1,
             iproc_rxPacketLength := iproc_rxPacketLength s + 1,
             iproc_cs := PIOS_CRC_updateByte e (iproc_cs s) b,
             iproc_packet_size := iproc_packet_size s + unat b * 256,
             iproc_rxCount := 0,
             iproc_objId := 0,
             iproc_state := UAVTALK_STATE_OBJID\<rparr>)"
  by (simp add: UAVTalkProcessInputStream_def Let_def)

lemma step_OBJID_more:
  "iproc_state s = UAVTALK_STATE_OBJID \<Longrightarrow> iproc_rxCount s < 3 \<Longrightarrow>
   iproc_rxPacketLength s < 0xffff \<Longrightarrow>
   UAVTalkProcessInputStream e s b =
     Some (s\<lparr>stats_rxBytes := stats_rxBytes s + 1,
             iproc_rxPacketLength := iproc_rxPacketLength s + 1,
             iproc_cs := PIOS_CRC_updateByte e (iproc_cs s) b,
             iproc_objId := iproc_objId s + push_bit (8 * iproc_rxCount s) (ucast b),
             iproc_rxCount := iproc_rxCount s + 1\<rparr>)"
  by (simp add: UAVTalkProcessInputStream_def Let_def)

text \<open>The last byte of the object id: the registry lookup and the checks that follow it.\<close>

lemma step_OBJID_last:
  assumes "iproc_state s = UAVTALK_STATE_OBJID" and "iproc_rxCount s = 3"
    and "iproc_rxPacketLength s < 0xffff"
    and "objId = iproc_objId s + push_bit 24 (ucast b)"
    and "obj = UAVObjGetByID e (registry s) objId"
    and "len = (if iproc_type s = UAVTALK_TYPE_OBJ_REQ e \<or> iproc_type s = UAVTALK_TYPE_ACK e
                   \<or> iproc_type s = UAVTALK_TYPE_NACK e
                then 0 else UAVObjGetNumBytes e (registry s) obj)"
    and "c = s\<lparr>stats_rxBytes := stats_rxBytes s + 1,
               iproc_rxPacketLength := iproc_rxPacketLength s + 1,
               iproc_cs := PIOS_CRC_updateByte e (iproc_cs s) b,
               iproc_objId := objId,
               iproc_rxCount := 4,
               iproc_obj := obj\<rparr>"
  shows "UAVTalkProcessInputStream e s b =
     (if obj = 0 \<and> iproc_type s \<noteq> UAVTALK_TYPE_OBJ_REQ e then Some (rxError c)
      else if len \<ge> UAVTALK_MAX_PAYLOAD_LENGTH e then Some (rxError (c\<lparr>iproc_length := len\<rparr>))
      else if iproc_rxPacketLength s + 1 + len \<noteq> iproc_packet_size s
        then Some (rxError (c\<lparr>iproc_length := len\<rparr>))
      else Some (c\<lparr>iproc_length := len, iproc_instId := 0, iproc_rxCount := 0,
                   iproc_state :=
                     (if obj = 0 then UAVTALK_STATE_CS
                      else if UAVObjIsSingleInstance e (registry s) obj
                      then (if len > 0 then UAVTALK_STATE_DATA else UAVTALK_STATE_CS)
                      else UAVTALK_STATE_INSTID)\<rparr>))"
  using assms(1-3) unfolding assms(4-7)
  by (simp add: UAVTalkProcessInputStream_def Let_def rxError_def)

lemma step_INSTID_lo:
  "iproc_state s = UAVTALK_STATE_INSTID \<Longrightarrow> iproc_rxCount s = 0 \<Longrightarrow>
   iproc_rxPacketLength s < 0xffff \<Longrightarrow>
   UAVTalkProcessInputStream e s b =
     Some (s\<lparr>stats_rxBytes := stats_rxBytes s + 1,
             iproc_rxPacketLength := iproc_rxPacketLength s + 1,
             iproc_cs := PIOS_CRC_updateByte e (iproc_cs s) b,
             iproc_instId := iproc_instId s + ucast b,
             iproc_rxCount := 1\<rparr>)"
  by (simp add: UAVTalkProcessInputStream_def Let_def)

lemma step_INSTID_hi:
  "iproc_state s = UAVTALK_STATE_INSTID \<Longrightarrow> iproc_rxCount s = 1 \<Longrightarrow>
   iproc_rxPacketLength s < 0xffff \<Longrightarrow>
   UAVTalkProcessInputStream e s b =
     Some (s\<lparr>stats_rxBytes := stats_rxBytes s + 1,
             iproc_rxPacketLength := iproc_rxPacketLength s + 1,
             iproc_cs := PIOS_CRC_updateByte e (iproc_cs s) b,
             iproc_instId := iproc_instId s + push_bit 8 (ucast b),
             iproc_rxCount := 0,
             iproc_state := (if iproc_length s > 0 then UAVTALK_STATE_DATA else UAVTALK_STATE_CS)\<rparr>)"
  by (simp add: UAVTalkProcessInputStream_def Let_def)

lemma step_DATA:
  "iproc_state s = UAVTALK_STATE_DATA \<Longrightarrow> iproc_rxPacketLength s < 0xffff \<Longrightarrow>
   UAVTalkProcessInputStream e s b =
     Some (s\<lparr>stats_rxBytes := stats_rxBytes s + 1,
             iproc_rxPacketLength := iproc_rxPacketLength s + 1,
             iproc_cs := PIOS_CRC_updateByte e (iproc_cs s) b,
             rxBuffer := (rxBuffer s)[iproc_rxCount s := b],
             iproc_rxCount := (if iproc_rxCount s + 1 < iproc_length s then iproc_rxCount s + 1 else 0),
             iproc_state := (if iproc_rxCount s + 1 < iproc_length s then UAVTALK_STATE_DATA
                             else UAVTALK_STATE_CS)\<rparr>)"
  by (simp add: UAVTalkProcessInputStream_def Let_def)

lemma step_CS_bad:
  "iproc_state s = UAVTALK_STATE_CS \<Longrightarrow> b \<noteq> iproc_cs s \<Longrightarrow>
   iproc_rxPacketLength s < 0xffff \<Longrightarrow>
   UAVTalkProcessInputStream e s b =
     Some (s\<lparr>stats_rxBytes := stats_rxBytes s + 1,
             iproc_rxPacketLength := iproc_rxPacketLength s + 1,
             stats_rxErrors := stats_rxErrors s + 1,
             iproc_state := UAVTALK_STATE_SYNC\<rparr>)"
  by (simp add: UAVTalkProcessInputStream_def Let_def rxError_def)

lemma step_CS:
  assumes "iproc_state s = UAVTALK_STATE_CS" and "iproc_rxPacketLength s < 0xffff"
    and "iproc_rxPacketLength s + 1 = iproc_packet_size s + 1"
    and "data = take (iproc_length s) (rxBuffer s)"
    and "s1 = s\<lparr>stats_rxBytes := stats_rxBytes s + 1,
                iproc_rxPacketLength := iproc_rxPacketLength s + 1,
                lock := lock s + 1,
                dispatched := dispatched s @ [(iproc_type s, iproc_objId s, iproc_instId s, data)]\<rparr>"
  shows "UAVTalkProcessInputStream e s (iproc_cs s) =
     do { r \<leftarrow> receiveObject e s1 (iproc_type s) (iproc_objId s) (iproc_instId s) data (iproc_length s);
          Some ((snd r)\<lparr>stats_rxObjectBytes := stats_rxObjectBytes (snd r) + of_nat (iproc_length (snd r)),
                          stats_rxObjects := stats_rxObjects (snd r) + 1,
                          lock := lock (snd r) - 1,
                          iproc_state := UAVTALK_STATE_SYNC\<rparr>) }"
  using assms(1-3) unfolding assms(4-5)
  by (simp add: UAVTalkProcessInputStream_def Let_def)

subsection \<open>Bytes and words\<close>

lemma objId_bytes:
  fixes x :: "32 word"
  shows "ucast (ucast (x AND 0xFF) :: byte) + push_bit 8 (ucast (ucast (drop_bit 8 x AND 0xFF) :: byte))
     + push_bit 16 (ucast (ucast (drop_bit 16 x AND 0xFF) :: byte))
     + push_bit 24 (ucast (ucast (drop_bit 24 x AND 0xFF) :: byte)) = x"
proof -
  let ?a = "ucast (ucast (x AND 0xFF) :: byte) :: 32 word"
  let ?b = "push_bit 8 (ucast (ucast (drop_bit 8 x AND 0xFF) :: byte)) :: 32 word"
  let ?c = "push_bit 16 (ucast (ucast (drop_bit 16 x AND 0xFF) :: byte)) :: 32 word"
  let ?d = "push_bit 24 (ucast (ucast (drop_bit 24 x AND 0xFF) :: byte)) :: 32 word"
  have m: "(0xFF :: 32 word) = mask 8" by (simp add: mask_eq_exp_minus_1)
  have ab: "?a + ?b = ?a OR ?b"
    by (rule disjunctive_add_eq_or, rule bit_eqI) (auto simp: bit_simps m)
  have abc: "(?a OR ?b) + ?c = (?a OR ?b) OR ?c"
    by (rule disjunctive_add_eq_or, rule bit_eqI) (auto simp: bit_simps m)
  have abcd: "((?a OR ?b) OR ?c) + ?d = ((?a OR ?b) OR ?c) OR ?d"
    by (rule disjunctive_add_eq_or, rule bit_eqI) (auto simp: bit_simps m)
  have "((?a OR ?b) OR ?c) OR ?d = x"
  proof (rule bit_eqI)
    fix n
    assume "possible_bit TYPE(32 word) n"
    then have n: "n < 32" by simp
    consider "n < 8" | "8 \<le> n" "n < 16" | "16 \<le> n" "n < 24" | "24 \<le> n"
      by linarith
    then show "bit (((?a OR ?b) OR ?c) OR ?d) n = bit x n"
      using n by cases (auto simp: bit_simps m)
  qed
  then show ?thesis using ab abc abcd by simp
qed

lemma len_bytes:
  "n < 65536 \<Longrightarrow> unat (of_nat n :: byte) + unat (of_nat (n div 256) :: byte) * 256 = n"
  by (simp add: unat_of_nat)

subsection \<open>Runs of the receive state machine\<close>

lemma header7:
  assumes "iproc_state s = UAVTALK_STATE_SYNC"
    and "type AND UAVTALK_TYPE_MASK e = UAVTALK_TYPE_VER e"
    and "UAVTALK_MIN_HEADER_LENGTH e \<le> unat l0 + unat l1 * 256"
    and "unat l0 + unat l1 * 256 \<le> UAVTALK_MAX_HEADER_LENGTH e + UAVTALK_MAX_PAYLOAD_LENGTH e"
  shows "processBytes e s [UAVTALK_SYNC_VAL e, type, l0, l1, i0, i1, i2] =
     Some (s\<lparr>stats_rxBytes := stats_rxBytes s + 7,
             iproc_rxPacketLength := 7,
             iproc_cs := foldl (PIOS_CRC_updateByte e) 0 [UAVTALK_SYNC_VAL e, type, l0, l1, i0, i1, i2],
             iproc_type := type,
             iproc_packet_size := unat l0 + unat l1 * 256,
             iproc_rxCount := 3,
             iproc_objId := ucast i0 + push_bit 8 (ucast i1) + push_bit 16 (ucast i2),
             iproc_state := UAVTALK_STATE_OBJID\<rparr>)"
  using assms
  by (simp add: step_SYNC step_TYPE step_SIZE_lo step_SIZE_hi step_OBJID_more)

lemma header8:
  assumes s: "iproc_state s = UAVTALK_STATE_SYNC"
    and t: "type AND UAVTALK_TYPE_MASK e = UAVTALK_TYPE_VER e"
    and n: "UAVTALK_MIN_HEADER_LENGTH e \<le> n"
       "n \<le> UAVTALK_MAX_HEADER_LENGTH e + UAVTALK_MAX_PAYLOAD_LENGTH e" "n < 65536"
    and obj: "obj = UAVObjGetByID e (registry s) objId"
    and len: "len = (if type = UAVTALK_TYPE_OBJ_REQ e \<or> type = UAVTALK_TYPE_ACK e
                   \<or> type = UAVTALK_TYPE_NACK e
                then 0 else UAVObjGetNumBytes e (registry s) obj)"
    and c: "c = s\<lparr>stats_rxBytes := stats_rxBytes s + 8,
               iproc_rxPacketLength := 8,
               iproc_cs := PIOS_CRC_updateCRC e 0
                  ([UAVTALK_SYNC_VAL e, type, of_nat n, of_nat (n div 256)] @ le32 objId),
               iproc_type := type,
               iproc_packet_size := n,
               iproc_objId := objId,
               iproc_rxCount := 4,
               iproc_obj := obj,
               iproc_state := UAVTALK_STATE_OBJID\<rparr>"
  shows "processBytes e s ([UAVTALK_SYNC_VAL e, type, of_nat n, of_nat (n div 256)] @ le32 objId) =
     (if obj = 0 \<and> type \<noteq> UAVTALK_TYPE_OBJ_REQ e then Some (rxError c)
      else if len \<ge> UAVTALK_MAX_PAYLOAD_LENGTH e then Some (rxError (c\<lparr>iproc_length := len\<rparr>))
      else if 8 + len \<noteq> n then Some (rxError (c\<lparr>iproc_length := len\<rparr>))
      else Some (c\<lparr>iproc_length := len, iproc_instId := 0, iproc_rxCount := 0,
                   iproc_state :=
                     (if obj = 0 then UAVTALK_STATE_CS
                      else if UAVObjIsSingleInstance e (registry s) obj
                      then (if len > 0 then UAVTALK_STATE_DATA else UAVTALK_STATE_CS)
                      else UAVTALK_STATE_INSTID)\<rparr>))"
proof -
  let ?l0 = "of_nat n :: byte" and ?l1 = "of_nat (n div 256) :: byte"
  let ?i0 = "ucast (objId AND 0xFF) :: byte" and ?i1 = "ucast (drop_bit 8 objId AND 0xFF) :: byte"
  let ?i2 = "ucast (drop_bit 16 objId AND 0xFF) :: byte" and ?i3 = "ucast (drop_bit 24 objId AND 0xFF) :: byte"
  have ln: "unat ?l0 + unat ?l1 * 256 = n" using n(3) by (rule len_bytes)
  define s7 where "s7 = s\<lparr>stats_rxBytes := stats_rxBytes s + 7,
             iproc_rxPacketLength := 7,
             iproc_cs := foldl (PIOS_CRC_updateByte e) 0 [UAVTALK_SYNC_VAL e, type, ?l0, ?l1, ?i0, ?i1, ?i2],
             iproc_type := type,
             iproc_packet_size := n,
             iproc_rxCount := 3,
             iproc_objId := ucast ?i0 + push_bit 8 (ucast ?i1) + push_bit 16 (ucast ?i2),
             iproc_state := UAVTALK_STATE_OBJID\<rparr>"
  have h7: "processBytes e s [UAVTALK_SYNC_VAL e, type, ?l0, ?l1, ?i0, ?i1, ?i2] = Some s7"
    using header7[OF s t, of ?l0 ?l1 ?i0 ?i1 ?i2] n(1,2) unfolding ln s7_def by simp
  have split: "[UAVTALK_SYNC_VAL e, type, ?l0, ?l1] @ le32 objId
      = [UAVTALK_SYNC_VAL e, type, ?l0, ?l1, ?i0, ?i1, ?i2] @ [?i3]"
    by (simp add: le32_def)
  have id: "iproc_objId s7 + push_bit 24 (ucast ?i3) = objId"
    using objId_bytes[of objId] by (simp add: s7_def)
  have c': "c = s7\<lparr>stats_rxBytes := stats_rxBytes s7 + 1,
               iproc_rxPacketLength := iproc_rxPacketLength s7 + 1,
               iproc_cs := PIOS_CRC_updateByte e (iproc_cs s7) ?i3,
               iproc_objId := objId,
               iproc_rxCount := 4,
               iproc_obj := obj\<rparr>"
    by (simp add: c s7_def PIOS_CRC_updateCRC_def le32_def)
  have st: "iproc_state s7 = UAVTALK_STATE_OBJID" "iproc_rxCount s7 = 3"
    "iproc_rxPacketLength s7 < 0xffff" "iproc_type s7 = type" "registry s7 = registry s"
    "iproc_rxPacketLength s7 = 7" "iproc_packet_size s7 = n"
    by (simp_all add: s7_def)
  have last: "UAVTalkProcessInputStream e s7 ?i3 =
     (if obj = 0 \<and> type \<noteq> UAVTALK_TYPE_OBJ_REQ e then Some (rxError c)
      else if len \<ge> UAVTALK_MAX_PAYLOAD_LENGTH e then Some (rxError (c\<lparr>iproc_length := len\<rparr>))
      else if 8 + len \<noteq> n then Some (rxError (c\<lparr>iproc_length := len\<rparr>))
      else Some (c\<lparr>iproc_length := len, iproc_instId := 0, iproc_rxCount := 0,
                   iproc_state :=
                     (if obj = 0 then UAVTALK_STATE_CS
                      else if UAVObjIsSingleInstance e (registry s) obj
                      then (if len > 0 then UAVTALK_STATE_DATA else UAVTALK_STATE_CS)
                      else UAVTALK_STATE_INSTID)\<rparr>))"
    using step_OBJID_last[OF st(1,2,3) id[symmetric], of obj e len c]
    by (simp add: st obj len c')
  show ?thesis
    unfolding split processBytes_append h7 using last by simp
qed

lemma store_Cons:
  "k < length buf \<Longrightarrow> store (buf[k := b]) (Suc k) bs = store buf k (b # bs)"
  by (simp add: store_def take_Suc_conv_app_nth drop_update_cancel)

lemma length_store: "off + length bs \<le> length buf \<Longrightarrow> length (store buf off bs) = length buf"
  by (simp add: store_def)

lemma take_store_0: "take (length bs) (store buf 0 bs) = bs"
  by (simp add: store_def)

lemma payload_run:
  "iproc_state s = UAVTALK_STATE_DATA \<Longrightarrow> bs \<noteq> [] \<Longrightarrow>
   iproc_rxCount s + length bs = iproc_length s \<Longrightarrow>
   iproc_rxPacketLength s + length bs < 0xffff \<Longrightarrow>
   iproc_length s \<le> length (rxBuffer s) \<Longrightarrow>
   processBytes e s bs =
     Some (s\<lparr>stats_rxBytes := stats_rxBytes s + of_nat (length bs),
             iproc_rxPacketLength := iproc_rxPacketLength s + length bs,
             iproc_cs := foldl (PIOS_CRC_updateByte e) (iproc_cs s) bs,
             rxBuffer := store (rxBuffer s) (iproc_rxCount s) bs,
             iproc_rxCount := 0,
             iproc_state := UAVTALK_STATE_CS\<rparr>)"
proof (induction bs arbitrary: s)
  case Nil
  then show ?case by simp
next
  case (Cons b bs)
  let ?s1 = "s\<lparr>stats_rxBytes := stats_rxBytes s + 1,
             iproc_rxPacketLength := iproc_rxPacketLength s + 1,
             iproc_cs := PIOS_CRC_updateByte e (iproc_cs s) b,
             rxBuffer := (rxBuffer s)[iproc_rxCount s := b],
             iproc_rxCount := (if iproc_rxCount s + 1 < iproc_length s then iproc_rxCount s + 1 else 0),
             iproc_state := (if iproc_rxCount s + 1 < iproc_length s then UAVTALK_STATE_DATA
                             else UAVTALK_STATE_CS)\<rparr>"
  from Cons.prems have st: "UAVTalkProcessInputStream e s b = Some ?s1"
    by (intro step_DATA) auto
  from Cons.prems have k: "iproc_rxCount s < length (rxBuffer s)" by simp
  show ?case
  proof (cases "bs = []")
    case True
    with Cons.prems show ?thesis
      by (simp add: st store_def upd_conv_take_nth_drop k)
  next
    case False
    with Cons.prems have lt: "iproc_rxCount s + 1 < iproc_length s"
      by (cases bs) auto
    have "processBytes e ?s1 bs =
       Some (?s1\<lparr>stats_rxBytes := stats_rxBytes ?s1 + of_nat (length bs),
             iproc_rxPacketLength := iproc_rxPacketLength ?s1 + length bs,
             iproc_cs := foldl (PIOS_CRC_updateByte e) (iproc_cs ?s1) bs,
             rxBuffer := store (rxBuffer ?s1) (iproc_rxCount ?s1) bs,
             iproc_rxCount := 0,
             iproc_state := UAVTALK_STATE_CS\<rparr>)"
      using Cons.prems False lt by (intro Cons.IH) auto
    then show ?thesis
      using lt k by (simp add: st store_Cons add.assoc)
  qed
qed

text \<open>
  A frame without instance field, for an object that the registry holds as a
  single-instance object or, when the frame is a request, does not hold at all: the state
  machine reads it to its end and calls \<open>receiveObject\<close>.
\<close>

lemma frame_run:
  assumes wf: "wire_format e"
    and s: "iproc_state s = UAVTALK_STATE_SYNC"
    and t: "type AND UAVTALK_TYPE_MASK e = UAVTALK_TYPE_VER e"
    and obj: "obj = UAVObjGetByID e (registry s) objId"
    and ok: "obj \<noteq> 0 \<or> type = UAVTALK_TYPE_OBJ_REQ e"
    and single: "obj = 0 \<or> UAVObjIsSingleInstance e (registry s) obj"
    and len: "length payload = (if type = UAVTALK_TYPE_OBJ_REQ e \<or> type = UAVTALK_TYPE_ACK e
                   \<or> type = UAVTALK_TYPE_NACK e
                then 0 else UAVObjGetNumBytes e (registry s) obj)"
    and max: "length payload < UAVTALK_MAX_PAYLOAD_LENGTH e"
    and buf: "UAVTALK_MAX_PAYLOAD_LENGTH e \<le> length (rxBuffer s)"
    and s1: "s1 = s\<lparr>stats_rxBytes := stats_rxBytes s + of_nat (length payload) + 9,
               iproc_rxPacketLength := 9 + length payload,
               iproc_cs := PIOS_CRC_updateCRC e 0 (frame_body e type objId [] payload),
               iproc_type := type,
               iproc_packet_size := 8 + length payload,
               iproc_objId := objId,
               iproc_rxCount := 0,
               iproc_obj := obj,
               iproc_length := length payload,
               iproc_instId := 0,
               iproc_state := UAVTALK_STATE_CS,
               rxBuffer := store (rxBuffer s) 0 payload,
               lock := lock s + 1,
               dispatched := dispatched s @ [(type, objId, 0, payload)]\<rparr>"
  shows "processBytes e s (frame e type objId [] payload) =
     do { r \<leftarrow> receiveObject e s1 type objId 0 payload (length payload);
          Some ((snd r)\<lparr>stats_rxObjectBytes := stats_rxObjectBytes (snd r) + of_nat (iproc_length (snd r)),
                          stats_rxObjects := stats_rxObjects (snd r) + 1,
                          lock := lock (snd r) - 1,
                          iproc_state := UAVTALK_STATE_SYNC\<rparr>) }"
proof -
  let ?n = "8 + length payload"
  let ?hdr = "[UAVTALK_SYNC_VAL e, type, of_nat ?n, of_nat (?n div 256)] @ le32 objId"
  let ?crc = "PIOS_CRC_updateCRC e 0 (frame_body e type objId [] payload)"
  from wf have k: "UAVTALK_MIN_HEADER_LENGTH e = 8" "UAVTALK_MAX_HEADER_LENGTH e = 10"
      "UAVTALK_MAX_HEADER_LENGTH e + UAVTALK_MAX_PAYLOAD_LENGTH e < 0xffff"
    by (simp_all add: wire_format_def)
  have fb: "frame_body e type objId [] payload = ?hdr @ payload"
    by (simp add: frame_body_def)
  have fr: "frame e type objId [] payload = ?hdr @ payload @ [?crc]"
    by (simp add: frame_def fb)
  define c where "c = s\<lparr>stats_rxBytes := stats_rxBytes s + 8,
               iproc_rxPacketLength := 8,
               iproc_cs := PIOS_CRC_updateCRC e 0 ?hdr,
               iproc_type := type,
               iproc_packet_size := ?n,
               iproc_objId := objId,
               iproc_rxCount := 4,
               iproc_obj := obj,
               iproc_state := UAVTALK_STATE_OBJID\<rparr>"
  define c8 where "c8 = c\<lparr>iproc_length := length payload, iproc_instId := 0, iproc_rxCount := 0,
                   iproc_state := (if payload \<noteq> [] then UAVTALK_STATE_DATA else UAVTALK_STATE_CS)\<rparr>"
  have n: "UAVTALK_MIN_HEADER_LENGTH e \<le> ?n"
      "?n \<le> UAVTALK_MAX_HEADER_LENGTH e + UAVTALK_MAX_PAYLOAD_LENGTH e" "?n < 65536"
    using k max by simp_all
  have pl0: "obj = 0 \<Longrightarrow> payload = []" using ok len by auto
  have h8: "processBytes e s ?hdr = Some c8"
    unfolding header8[OF s t n obj len c_def]
    using ok single max pl0 by (auto simp: c8_def)
  define c9 where "c9 = c8\<lparr>stats_rxBytes := stats_rxBytes c8 + of_nat (length payload),
             iproc_rxPacketLength := iproc_rxPacketLength c8 + length payload,
             iproc_cs := foldl (PIOS_CRC_updateByte e) (iproc_cs c8) payload,
             rxBuffer := store (rxBuffer c8) 0 payload,
             iproc_rxCount := 0,
             iproc_state := UAVTALK_STATE_CS\<rparr>"
  have pr: "processBytes e c8 payload = Some c9"
  proof (cases "payload = []")
    case True
    then show ?thesis by (simp add: c9_def c8_def c_def store_def)
  next
    case False
    have "processBytes e c8 payload =
      Some (c8\<lparr>stats_rxBytes := stats_rxBytes c8 + of_nat (length payload),
             iproc_rxPacketLength := iproc_rxPacketLength c8 + length payload,
             iproc_cs := foldl (PIOS_CRC_updateByte e) (iproc_cs c8) payload,
             rxBuffer := store (rxBuffer c8) (iproc_rxCount c8) payload,
             iproc_rxCount := 0,
             iproc_state := UAVTALK_STATE_CS\<rparr>)"
      using False max buf k by (intro payload_run) (auto simp: c8_def c_def)
    then show ?thesis by (simp add: c9_def c8_def)
  qed
  have cs: "iproc_cs c9 = ?crc"
    by (simp add: c9_def c8_def c_def fb PIOS_CRC_updateCRC_def)
  have st: "iproc_state c9 = UAVTALK_STATE_CS" "iproc_rxPacketLength c9 < 0xffff"
     "iproc_rxPacketLength c9 + 1 = iproc_packet_size c9 + 1"
    using max k by (simp_all add: c9_def c8_def c_def)
  have s1': "s1 = c9\<lparr>stats_rxBytes := stats_rxBytes c9 + 1,
                iproc_rxPacketLength := iproc_rxPacketLength c9 + 1,
                lock := lock c9 + 1,
                dispatched := dispatched c9
                  @ [(iproc_type c9, iproc_objId c9, iproc_instId c9, take (iproc_length c9) (rxBuffer c9))]\<rparr>"
    by (simp add: s1 c9_def c8_def c_def cs[symmetric] take_store_0)
  have f: "iproc_type c9 = type" "iproc_objId c9 = objId" "iproc_instId c9 = 0"
     "take (length payload) (rxBuffer c9) = payload" "iproc_length c9 = length payload"
    by (simp_all add: c9_def c8_def c_def take_store_0)
  have last: "UAVTalkProcessInputStream e c9 ?crc =
     do { r \<leftarrow> receiveObject e s1 type objId 0 payload (length payload);
          Some ((snd r)\<lparr>stats_rxObjectBytes := stats_rxObjectBytes (snd r) + of_nat (iproc_length (snd r)),
                          stats_rxObjects := stats_rxObjects (snd r) + 1,
                          lock := lock (snd r) - 1,
                          iproc_state := UAVTALK_STATE_SYNC\<rparr>) }"
    using step_CS[OF st refl s1', of e] by (simp add: cs f)
  have "processBytes e s (frame e type objId [] payload)
      = processBytes e s ?hdr \<bind> (\<lambda>s'. processBytes e s' (payload @ [?crc]))"
    unfolding fr by (rule processBytes_append)
  also have "\<dots> = processBytes e c8 (payload @ [?crc])"
    by (subst h8) simp
  also have "\<dots> = processBytes e c8 payload \<bind> (\<lambda>s'. processBytes e s' [?crc])"
    by (rule processBytes_append)
  also have "\<dots> = UAVTalkProcessInputStream e c9 ?crc"
    by (subst pr) simp
  finally show ?thesis
    by (simp only: last)
qed

lemma ex256_simps [simp]:
  "UAVTALK_TYPE_OBJ ex256 = 0x20"
  "UAVTALK_TYPE_OBJ_REQ ex256 = 0x21"
  "UAVTALK_TYPE_ACK ex256 = 0x23"
  "UAVTALK_MAX_PAYLOAD_LENGTH ex256 = 256"
  "UAVTALK_CHECKSUM_LENGTH ex256 = 1"
  "UAVObjGetNumBytes ex256 r h = 256"
  "UAVObjPack ex256 r h j = (0, replicate 256 0)"
  by (simp_all add: ex256_def)

lemma exWrap_simps [simp]:
  "UAVTALK_SYNC_VAL exWrap = 0x3C"
  "UAVTALK_TYPE_OBJ exWrap = 0x20"
  "UAVTALK_TYPE_OBJ_REQ exWrap = 0x21"
  "UAVTALK_TYPE_ACK exWrap = 0x23"
  "UAVTALK_MAX_PAYLOAD_LENGTH exWrap = 256"
  "UAVTALK_CHECKSUM_LENGTH exWrap = 1"
  "PIOS_CRC_updateByte exWrap = crc8"
  "UAVObjGetID exWrap r h = (if h = 1 then idA else idB)"
  "UAVObjIsSingleInstance exWrap r h = (h = 1)"
  "UAVObjGetNumBytes exWrap r h = 0xFFFFFFFF"
  by (simp_all add: exWrap_def)

lemma store_Nil [simp]: "store buf off [] = buf"
  by (simp add: store_def)

lemma sendNack_frame:
  assumes cl: "UAVTALK_CHECKSUM_LENGTH e = 1" and buf: "9 \<le> length (txBuffer s)"
  shows "\<exists>tx'. length tx' = length (txBuffer s) \<and>
     sendNack e s objId =
       (0, s\<lparr>txBuffer := tx',
             sink := (if outStream s \<noteq> 0
                      then sink s @ [frame e (UAVTALK_TYPE_NACK e) objId [] []] else sink s),
             stats_txBytes := stats_txBytes s + 9\<rparr>)"
proof -
  define tx4 where "tx4 = (store ((txBuffer s)[0 := UAVTALK_SYNC_VAL e, 1 := UAVTALK_TYPE_NACK e,
        4 := ucast (objId AND 0xFF), 5 := ucast (drop_bit 8 objId AND 0xFF),
        6 := ucast (drop_bit 16 objId AND 0xFF), 7 := ucast (drop_bit 24 objId AND 0xFF)]) 8 [])
        [2 := of_nat 8, 3 := of_nat (8 div 256)]"
  define crc where "crc = PIOS_CRC_updateCRC e 0 (take 8 tx4)"
  from buf have b8: "8 + length ([] :: byte list) + 1 \<le> length (txBuffer s)" by simp
  note B = buf_single(1)[OF b8 tx4_def] buf_single(2)[OF b8 tx4_def, where c = crc]
    buf_single(3)[OF b8 tx4_def, where c = crc]
  have body: "take 8 tx4 = frame_body e (UAVTALK_TYPE_NACK e) objId [] []"
    using B(1) by (simp add: frame_body_def le32_def)
  have fr: "take 9 (tx4[8 := crc]) = frame e (UAVTALK_TYPE_NACK e) objId [] []"
    using B(2) body by (simp add: frame_def crc_def frame_body_def le32_def)
  have l: "length (tx4[8 := crc]) = length (txBuffer s)" using B(3) by simp
  have t4: "tx4 = (txBuffer s)[0 := UAVTALK_SYNC_VAL e, 1 := UAVTALK_TYPE_NACK e,
        4 := ucast (objId AND 0xFF), 5 := ucast (drop_bit 8 objId AND 0xFF),
        6 := ucast (drop_bit 16 objId AND 0xFF), 7 := ucast (drop_bit 24 objId AND 0xFF),
        2 := of_nat 8, 3 := of_nat (8 div 256)]"
    by (simp only: tx4_def store_Nil)
  have "sendNack e s objId =
       (0, s\<lparr>txBuffer := tx4[8 := crc],
             sink := (if outStream s \<noteq> 0
                      then sink s @ [take 9 (tx4[8 := crc])] else sink s),
             stats_txBytes := stats_txBytes s + 9\<rparr>)"
    unfolding sendNack_def Let_def cl t4[symmetric] crc_def[symmetric]
    by simp
  with l show ?thesis unfolding fr by blast
qed

subsection \<open>Frames of the instance\<close>

lemma chunks_single: "xs \<noteq> [] \<Longrightarrow> length xs \<le> m \<Longrightarrow> chunks m xs = [xs]"
  by (subst chunks.simps) (cases xs; auto)

lemma sync_skip_run:
  "iproc_state s = UAVTALK_STATE_SYNC \<Longrightarrow> UAVTALK_SYNC_VAL e \<notin> set bs \<Longrightarrow>
   \<exists>n l. processBytes e s bs = Some (s\<lparr>stats_rxBytes := n, iproc_rxPacketLength := l\<rparr>)"
proof (induction bs arbitrary: s)
  case Nil
  have "s = s\<lparr>stats_rxBytes := stats_rxBytes s, iproc_rxPacketLength := iproc_rxPacketLength s\<rparr>"
    by simp
  then show ?case by (metis processBytes.simps(1))
next
  case (Cons b bs)
  let ?s1 = "s\<lparr>stats_rxBytes := stats_rxBytes s + 1,
             iproc_rxPacketLength :=
               (if iproc_rxPacketLength s < 0xffff then iproc_rxPacketLength s + 1
                else iproc_rxPacketLength s)\<rparr>"
  from Cons.prems have st: "UAVTalkProcessInputStream e s b = Some ?s1"
    by (intro step_SYNC_skip) auto
  from Cons.prems have "\<exists>n l. processBytes e ?s1 bs = Some (?s1\<lparr>stats_rxBytes := n, iproc_rxPacketLength := l\<rparr>)"
    by (intro Cons.IH) auto
  then show ?case by (simp add: st)
qed

lemmas frame_eval = frame_def frame_body_def le32_def le16_def PIOS_CRC_updateCRC_def
  crc8_def crc8_bit_def idA_def idB_def

lemma frame_B1: "frame ex 0x20 idB (le16 1) [9, 10, 11, 12]
    = [60, 32, 14, 0, 212, 195, 178, 161, 1, 0, 9, 10, 11, 12, 42]"
  by (simp add: frame_eval)

lemma sendSingleObject_writes:
  assumes "UAVTALK_CHECKSUM_LENGTH e = 1" and "0 < txSize s" and "outStream s \<noteq> 0"
    and "length payload = (if type = UAVTALK_TYPE_OBJ_REQ e \<or> type = UAVTALK_TYPE_ACK e then 0
                 else UAVObjGetNumBytes e (registry s) obj)"
    and "length payload < UAVTALK_MAX_PAYLOAD_LENGTH e"
    and "payload \<noteq> [] \<Longrightarrow> snd (UAVObjPack e (registry s) obj instId) = payload
                 \<and> 0 \<le> fst (UAVObjPack e (registry s) obj instId)"
    and "10 + length payload + 1 \<le> length (txBuffer s)"
    and "length payload < 2 ^ 31"
  shows "\<exists>s' ws. sendSingleObject e s obj instId type = Some (0, s') \<and> sink s' = sink s @ ws
      \<and> (\<forall>w \<in> set ws. length w \<le> txSize s)
      \<and> concat ws = frame e type (UAVObjGetID e (registry s) obj)
                 (if UAVObjIsSingleInstance e (registry s) obj then [] else le16 instId) payload"
proof -
  from sendSingleObject_frame[OF assms(1,2,4,5,6,7) refl assms(8)] assms(3)
  obtain s' where "sendSingleObject e s obj instId type = Some (0, s')"
    "sink s' = sink s @ chunks (txSize s) (frame e type (UAVObjGetID e (registry s) obj)
                 (if UAVObjIsSingleInstance e (registry s) obj then [] else le16 instId) payload)"
    by auto
  then show ?thesis
    using assms(2) by (auto simp: concat_chunks length_chunks)
qed

lemma step_SYNC_eq:
  "iproc_state s = UAVTALK_STATE_SYNC \<Longrightarrow> b = UAVTALK_SYNC_VAL e \<Longrightarrow>
   UAVTalkProcessInputStream e s b =
     Some (s\<lparr>stats_rxBytes := stats_rxBytes s + 1,
             iproc_cs := PIOS_CRC_updateByte e 0 b,
             iproc_rxPacketLength := 1,
             iproc_state := UAVTALK_STATE_TYPE\<rparr>)"
  by (simp add: step_SYNC)

lemma frame_B1_sync: "frame ex 0x20 idB (le16 1) [9, 10, 11, 0x3C]
    = [60, 32, 14, 0, 212, 195, 178, 161, 1, 0, 9, 10, 11, 60, 186]"
  by (simp add: frame_eval)

lemma receive_OBJ_ACK:
  assumes wf: "wire_format e"
    and inst: "instId \<noteq> UAVOBJ_ALL_INSTANCES e"
    and obj: "obj = UAVObjGetByID e (registry s) objId"
    and u: "UAVObjUnpack e (registry s) obj instId data = (0, r')"
    and tx: "0 < txSize s" "11 \<le> length (txBuffer s)"
    and F: "F = frame e (UAVTALK_TYPE_ACK e) (UAVObjGetID e r' obj)
                  (if UAVObjIsSingleInstance e r' obj then [] else le16 instId) []"
  shows "\<exists>tx'. receiveObject e s (UAVTALK_TYPE_OBJ_ACK e) objId instId data len =
      Some (0, s\<lparr>registry := r', txBuffer := tx',
                 sink := (if outStream s \<noteq> 0 then sink s @ chunks (txSize s) F else sink s),
                 stats_txObjects := stats_txObjects s + 1,
                 stats_txBytes := stats_txBytes s + of_nat (length F),
                 stats_txObjectBytes := stats_txObjectBytes s\<rparr>)"
proof -
  let ?s1 = "s\<lparr>registry := r'\<rparr>"
  from wf have k: "UAVTALK_CHECKSUM_LENGTH e = 1" "0 < UAVTALK_MAX_PAYLOAD_LENGTH e"
      "UAVTALK_TYPE_OBJ_ACK e \<noteq> UAVTALK_TYPE_OBJ e"
    by (auto simp: wire_format_def)
  have "\<exists>tx'. length tx' = length (txBuffer ?s1) \<and>
     sendSingleObject e ?s1 obj instId (UAVTALK_TYPE_ACK e) =
       Some (0, ?s1\<lparr>txBuffer := tx',
                  sink := (if outStream ?s1 \<noteq> 0 then sink ?s1 @ chunks (txSize ?s1) F else sink ?s1),
                  stats_txObjects := stats_txObjects ?s1 + 1,
                  stats_txBytes := stats_txBytes ?s1 + of_nat (length F),
                  stats_txObjectBytes := stats_txObjectBytes ?s1 + of_nat (length ([] :: byte list))\<rparr>)"
    using k tx F by (intro sendSingleObject_frame) auto
  then obtain tx' where s': "sendSingleObject e ?s1 obj instId (UAVTALK_TYPE_ACK e) =
       Some (0, ?s1\<lparr>txBuffer := tx',
                  sink := (if outStream s \<noteq> 0 then sink s @ chunks (txSize s) F else sink s),
                  stats_txObjects := stats_txObjects s + 1,
                  stats_txBytes := stats_txBytes s + of_nat (length F),
                  stats_txObjectBytes := stats_txObjectBytes s\<rparr>)"
    by (cases "outStream s = 0") auto
  have "receiveObject e s (UAVTALK_TYPE_OBJ_ACK e) objId instId data len
      = sendSingleObject e ?s1 obj instId (UAVTALK_TYPE_ACK e) \<bind> (\<lambda>r. Some (0, snd r))"
    using k inst u unfolding obj
    by (auto simp: receiveObject_def sendObject_def Let_def)
  with s' show ?thesis by (intro exI[of _ tx']) simp
qed

lemma le32_idA: "le32 idA = [68, 51, 34, 17]"
  by (simp add: le32_def idA_def)

lemma crc_wire_A: "PIOS_CRC_updateCRC ex 0 [60, 34, 12, 0, 68, 51, 34, 17, 1, 2, 3, 4] = 168"
  by (simp add: PIOS_CRC_updateCRC_def crc8_def crc8_bit_def)

lemma crc_ack_A: "PIOS_CRC_updateCRC ex 0 [60, 35, 8, 0, 68, 51, 34, 17] = 105"
  by (simp add: PIOS_CRC_updateCRC_def crc8_def crc8_bit_def)

lemma le32_DEADBEEF: "le32 0xDEADBEEF = [239, 190, 173, 222]"
  by (simp add: le32_def)

lemma crc_req_DEADBEEF: "PIOS_CRC_updateCRC ex 0 [60, 33, 8, 0, 239, 190, 173, 222] = 41"
  by (simp add: PIOS_CRC_updateCRC_def crc8_def crc8_bit_def)

lemma crc_nack_DEADBEEF: "PIOS_CRC_updateCRC ex 0 [60, 36, 8, 0, 239, 190, 173, 222] = 131"
  by (simp add: PIOS_CRC_updateCRC_def crc8_def crc8_bit_def)

subsection \<open>What transmitting and receiving leave unchanged\<close>

lemma keeps_refl [simp]: "keeps s s"
  by (simp add: keeps_def)

lemma keeps_trans: "keeps s s' \<Longrightarrow> keeps s' s'' \<Longrightarrow> keeps s s''"
  by (simp add: keeps_def)

lemma sendBuffer_total:
  "0 < txSize s \<Longrightarrow> \<exists>ws. sendBuffer n sent s = Some (s\<lparr>sink := ws\<rparr>)"
proof (induction "n - sent" arbitrary: sent s rule: less_induct)
  case less
  show ?case
  proof (cases "sent < n")
    case False
    have "s = s\<lparr>sink := sink s\<rparr>" by simp
    moreover from False have "sendBuffer n sent s = Some s" by (subst sendBuffer.simps) simp
    ultimately show ?thesis by metis
  next
    case True
    define sending where "sending = (if n - sent > txSize s then txSize s else n - sent)"
    define s' where "s' = (if outStream s \<noteq> 0
                   then s\<lparr>sink := sink s @ [take sending (drop sent (txBuffer s))]\<rparr>
                   else s)"
    have pos: "0 < sending" using True less.prems by (auto simp: sending_def)
    have step: "sendBuffer n sent s = sendBuffer n (sent + sending) s'"
      using True by (subst sendBuffer.simps) (simp add: sending_def s'_def Let_def)
    have "\<exists>ws. sendBuffer n (sent + sending) s' = Some (s'\<lparr>sink := ws\<rparr>)"
      using pos less.prems True by (intro less.hyps) (auto simp: s'_def)
    then show ?thesis unfolding step by (auto simp: s'_def)
  qed
qed

lemma sendSingleObject_keeps:
  assumes "0 < txSize s"
  shows "\<exists>ret s'. sendSingleObject e s obj instId type = Some (ret, s') \<and> keeps s s'"
proof -
  define objId where "objId = UAVObjGetID e (registry s) obj"
  define tx1 where "tx1 = (txBuffer s)
                  [0 := UAVTALK_SYNC_VAL e,
                   1 := type,
                   4 := ucast (objId AND 0xFF),
                   5 := ucast (drop_bit 8 objId AND 0xFF),
                   6 := ucast (drop_bit 16 objId AND 0xFF),
                   7 := ucast (drop_bit 24 objId AND 0xFF)]"
  define single where "single = UAVObjIsSingleInstance e (registry s) obj"
  define tx2 where "tx2 = (if single then tx1
                 else tx1[8 := ucast (instId AND 0xFF), 9 := ucast (drop_bit 8 instId AND 0xFF)])"
  define dataOffset where "dataOffset = (if single then 8 else 10 :: nat)"
  define len where "len = (if type = UAVTALK_TYPE_OBJ_REQ e \<or> type = UAVTALK_TYPE_ACK e then 0
                 else sint (of_nat (UAVObjGetNumBytes e (registry s) obj) :: 32 word))"
  define packed where "packed = (if len > 0 then UAVObjPack e (registry s) obj instId else (0, []))"
  define tx3 where "tx3 = store tx2 dataOffset (snd packed)"
  define n where "n = int dataOffset + len"
  define tx4 where "tx4 = tx3[2 := of_int n, 3 := of_int (n div 256)]"
  define tx5 where "tx5 = (if n < 0 then tx4
                           else tx4[nat n := PIOS_CRC_updateCRC e 0 (take (nat n) tx4)])"
  define nbytes where "nbytes = unat (of_int (n + int (UAVTALK_CHECKSUM_LENGTH e)) :: 32 word)"
  note U = sendSingleObject_unfold[OF objId_def tx1_def single_def tx2_def dataOffset_def len_def
      packed_def tx3_def n_def tx4_def tx5_def nbytes_def]
  obtain ws where sb: "sendBuffer nbytes 0 (s\<lparr>txBuffer := tx5\<rparr>)
      = Some (s\<lparr>txBuffer := tx5, sink := ws\<rparr>)"
    using sendBuffer_total[of "s\<lparr>txBuffer := tx5\<rparr>" nbytes 0]
      assms by auto
  show ?thesis
    unfolding U sb by (simp add: keeps_def)
qed

lemma sendInstances_keeps:
  "0 < txSize s \<Longrightarrow> \<exists>s'. sendInstances e obj type ns s = Some s' \<and> keeps s s'"
proof (induction ns arbitrary: s)
  case Nil
  then show ?case by simp
next
  case (Cons n ns)
  from sendSingleObject_keeps[OF Cons.prems, of e obj "of_nat n" type]
  obtain ret s1 where 1: "sendSingleObject e s obj (of_nat n) type = Some (ret, s1)" "keeps s s1"
    by blast
  then have "0 < txSize s1" using Cons.prems by (simp add: keeps_def)
  from Cons.IH[OF this] obtain s' where "sendInstances e obj type ns s1 = Some s'" "keeps s1 s'"
    by blast
  with 1 show ?case by (auto intro: keeps_trans)
qed

lemma sendObject_keeps:
  assumes "0 < txSize s"
  shows "\<exists>ret s'. sendObject e s obj instId type = Some (ret, s') \<and> keeps s s'"
  using sendSingleObject_keeps[OF assms, of e obj] sendInstances_keeps[OF assms, of e obj type]
  unfolding sendObject_def Let_def
  by (auto split: if_splits) (metis bind.bind_lunit)+

lemma sendNack_keeps: "keeps s (snd (sendNack e s objId))"
  by (simp add: sendNack_def Let_def keeps_def)

subsection \<open>What receiving leaves unchanged\<close>

lemma keeps_rx_inv:
  "keeps s1 s2 \<Longrightarrow> txSize s1 = txSize s \<Longrightarrow> transLock s1 = transLock s \<Longrightarrow>
   respSema s1 = respSema s \<Longrightarrow> respObj s1 = respObj s \<Longrightarrow> rx_inv s s2"
  by (simp add: keeps_def rx_inv_def)

lemma updateAck_rx_inv:
  "txSize s1 = txSize s \<Longrightarrow> transLock s1 = transLock s \<Longrightarrow>
   respSema s1 = respSema s \<Longrightarrow> respObj s1 = respObj s \<Longrightarrow> rx_inv s (updateAck e s1 obj instId)"
  by (simp add: updateAck_def rx_inv_def)

lemma receiveObject_inv:
  assumes "0 < txSize s"
  shows "\<exists>ret s'. receiveObject e s type objId instId data len = Some (ret, s') \<and> rx_inv s s'"
proof -
  let ?obj = "UAVObjGetByID e (registry s) objId"
  let ?u = "UAVObjUnpack e (registry s) ?obj instId data"
  let ?s1 = "s\<lparr>registry := snd ?u\<rparr>"
  have tx1: "0 < txSize ?s1" using assms by simp
  from sendObject_keeps[OF tx1, of e ?obj instId "UAVTALK_TYPE_ACK e"]
  obtain r1 s1 where 1: "sendObject e ?s1 ?obj instId (UAVTALK_TYPE_ACK e) = Some (r1, s1)"
    "keeps ?s1 s1" by blast
  from sendObject_keeps[OF assms, of e ?obj instId "UAVTALK_TYPE_OBJ e"]
  obtain r2 s2 where 2: "sendObject e s ?obj instId (UAVTALK_TYPE_OBJ e) = Some (r2, s2)"
    "keeps s s2" by blast
  have i0: "rx_inv s s" by (simp add: rx_inv_def)
  have i1: "rx_inv s s1" using 1(2) by (rule keeps_rx_inv) simp_all
  have i2: "rx_inv s s2" using 2(2) by (rule keeps_rx_inv) simp_all
  have i3: "rx_inv s (snd (sendNack e s objId))"
    using sendNack_keeps[of s e objId] by (rule keeps_rx_inv) simp_all
  have i4: "rx_inv s ?s1" by (simp add: rx_inv_def)
  have i5: "rx_inv s (updateAck e ?s1 ?obj instId)" by (rule updateAck_rx_inv) simp_all
  have i6: "rx_inv s (updateAck e s ?obj instId)" by (rule updateAck_rx_inv) simp_all
  consider (a) "type = UAVTALK_TYPE_OBJ e"
    | (b) "type \<noteq> UAVTALK_TYPE_OBJ e" "type = UAVTALK_TYPE_OBJ_ACK e"
    | (c) "type \<noteq> UAVTALK_TYPE_OBJ e" "type \<noteq> UAVTALK_TYPE_OBJ_ACK e" "type = UAVTALK_TYPE_OBJ_REQ e"
    | (d) "type \<noteq> UAVTALK_TYPE_OBJ e" "type \<noteq> UAVTALK_TYPE_OBJ_ACK e" "type \<noteq> UAVTALK_TYPE_OBJ_REQ e"
          "type = UAVTALK_TYPE_NACK e"
    | (f) "type \<noteq> UAVTALK_TYPE_OBJ e" "type \<noteq> UAVTALK_TYPE_OBJ_ACK e" "type \<noteq> UAVTALK_TYPE_OBJ_REQ e"
          "type \<noteq> UAVTALK_TYPE_NACK e"
    by blast
  then show ?thesis
  proof cases
    case a
    then show ?thesis
      unfolding receiveObject_def Let_def using i0 i5 by simp
  next
    case b
    then show ?thesis
      unfolding receiveObject_def Let_def using i0 i1 i4 1(1) by simp
  next
    case c
    then show ?thesis
      unfolding receiveObject_def Let_def using i2 i3 2(1) by simp
  next
    case d
    then show ?thesis
      unfolding receiveObject_def Let_def using i0 by simp
  next
    case f
    then show ?thesis
      unfolding receiveObject_def Let_def using i0 i6 by simp
  qed
qed

lemma step_other_inv:
  assumes "iproc_state s \<noteq> UAVTALK_STATE_CS"
  shows "\<exists>s'. UAVTalkProcessInputStream e s b = Some s' \<and> txSize s' = txSize s
     \<and> transLock s' = transLock s \<and> respSema s' = respSema s \<and> respObj s' = respObj s"
proof (cases "iproc_state s")
  case UAVTALK_STATE_SYNC
  then show ?thesis by (simp add: UAVTalkProcessInputStream_def Let_def)
next
  case UAVTALK_STATE_TYPE
  then show ?thesis by (simp add: UAVTalkProcessInputStream_def Let_def)
next
  case UAVTALK_STATE_SIZE
  then show ?thesis by (simp add: UAVTalkProcessInputStream_def Let_def)
next
  case UAVTALK_STATE_OBJID
  then show ?thesis by (simp add: UAVTalkProcessInputStream_def Let_def rxError_def)
next
  case UAVTALK_STATE_INSTID
  then show ?thesis by (simp add: UAVTalkProcessInputStream_def Let_def)
next
  case UAVTALK_STATE_DATA
  then show ?thesis by (simp add: UAVTalkProcessInputStream_def Let_def)
next
  case UAVTALK_STATE_CS
  with assms show ?thesis by simp
qed

lemma step_inv:
  assumes "0 < txSize s"
  shows "\<exists>s'. UAVTalkProcessInputStream e s b = Some s' \<and> rx_inv s s'"
proof (cases "iproc_state s = UAVTALK_STATE_CS")
  case False
  from step_other_inv[OF this, of e b] show ?thesis
    by (auto simp: rx_inv_def)
next
  case True
  define t where "t = s\<lparr>stats_rxBytes := stats_rxBytes s + 1,
                 iproc_rxPacketLength :=
                   (if iproc_rxPacketLength s < 0xffff then iproc_rxPacketLength s + 1
                    else iproc_rxPacketLength s)\<rparr>"
  define data where "data = take (iproc_length t) (rxBuffer t)"
  define s1 where "s1 = t\<lparr>lock := lock t + 1,
                 dispatched := dispatched t @ [(iproc_type t, iproc_objId t, iproc_instId t, data)]\<rparr>"
  have "0 < txSize s1" using assms by (simp add: s1_def t_def)
  from receiveObject_inv[OF this, of e "iproc_type s1" "iproc_objId s1" "iproc_instId s1" data "iproc_length s1"]
  obtain ret s2 where r: "receiveObject e s1 (iproc_type s1) (iproc_objId s1) (iproc_instId s1) data
      (iproc_length s1) = Some (ret, s2)" "rx_inv s1 s2"
    by blast
  have f: "txSize s1 = txSize s" "transLock s1 = transLock s" "respSema s1 = respSema s"
     "respObj s1 = respObj s"
    by (simp_all add: s1_def t_def)
  have i: "rx_inv s s2" using r(2) f by (simp add: rx_inv_def)
  have st: "iproc_state t = UAVTALK_STATE_CS" using True by (simp add: t_def)
  have e1: "rx_inv s (rxError t)" by (simp add: rx_inv_def rxError_def t_def)
  have e2: "rx_inv s (s2\<lparr>stats_rxObjectBytes := stats_rxObjectBytes s2 + of_nat (iproc_length s2),
                          stats_rxObjects := stats_rxObjects s2 + 1,
                          lock := lock s2 - 1,
                          iproc_state := UAVTALK_STATE_SYNC\<rparr>)"
    using i by (simp add: rx_inv_def)
  have "UAVTalkProcessInputStream e s b =
     (if b \<noteq> iproc_cs t then Some (rxError t)
      else if iproc_rxPacketLength t \<noteq> iproc_packet_size t + 1 then Some (rxError t)
      else do {
           r \<leftarrow> receiveObject e s1 (iproc_type s1) (iproc_objId s1) (iproc_instId s1) data (iproc_length s1);
           Some ((snd r)\<lparr>stats_rxObjectBytes := stats_rxObjectBytes (snd r) + of_nat (iproc_length (snd r)),
                          stats_rxObjects := stats_rxObjects (snd r) + 1,
                          lock := lock (snd r) - 1,
                          iproc_state := UAVTALK_STATE_SYNC\<rparr>) })"
    unfolding UAVTalkProcessInputStream_def t_def[symmetric] Let_def
    by (simp add: st s1_def data_def)
  then show ?thesis
    using e1 e2 r(1) by simp
qed

lemma processBytes_inv:
  "0 < txSize s \<Longrightarrow> \<exists>s'. processBytes e s bs = Some s' \<and> rx_inv s s'"
proof (induction bs arbitrary: s)
  case Nil
  then show ?case by (simp add: rx_inv_def)
next
  case (Cons b bs)
  from step_inv[OF Cons.prems, of e b] obtain s1 where
    1: "UAVTalkProcessInputStream e s b = Some s1" "rx_inv s s1" by blast
  then have "0 < txSize s1" using Cons.prems by (simp add: rx_inv_def)
  from Cons.IH[OF this] obtain s' where "processBytes e s1 bs = Some s'" "rx_inv s1 s'" by blast
  with 1 show ?case by (auto simp: rx_inv_def)
qed

lemma frame_data_A: "frame ex 0x20 idA [] [1, 2, 3, 4] = [60, 32, 12, 0, 68, 51, 34, 17, 1, 2, 3, 4, 150]"
  by (simp add: frame_eval)

lemma transactionWait_unfold:
  "s3 = s\<lparr>transLock := transLock s + 1, lock := lock s + 1, respObj := obj, respInstId := instId\<rparr>
   \<Longrightarrow> transactionWait e s obj instId type rx =
         sendObject e s3 obj instId type
           \<bind> (\<lambda>r. processBytes e ((snd r)\<lparr>lock := lock (snd r) - 1\<rparr>) rx)"
  by (simp add: transactionWait_def Let_def)

lemma request_answered:
  "\<exists>w. transactionWait ex (conn 1 64 reg0) 1 0 (UAVTALK_TYPE_OBJ_REQ ex)
         [60, 32, 12, 0, 68, 51, 34, 17, 1, 2, 3, 4, 150] = Some w \<and> respSema w"
proof -
  define s3 where "s3 = (conn 1 64 reg0)\<lparr>transLock := transLock (conn 1 64 reg0) + 1,
      lock := lock (conn 1 64 reg0) + 1, respObj := 1, respInstId := 0\<rparr>"
  have "\<exists>tx'. length tx' = length (txBuffer s3) \<and>
     sendSingleObject ex s3 1 0 (UAVTALK_TYPE_OBJ_REQ ex) =
       Some (0, s3\<lparr>txBuffer := tx',
                  sink := (if outStream s3 \<noteq> 0 then sink s3 @ chunks (txSize s3)
                     (frame ex 0x21 idA [] []) else sink s3),
                  stats_txObjects := stats_txObjects s3 + 1,
                  stats_txBytes := stats_txBytes s3 + of_nat (length (frame ex 0x21 idA [] [])),
                  stats_txObjectBytes := stats_txObjectBytes s3 + of_nat (length ([] :: byte list))\<rparr>)"
    by (intro sendSingleObject_frame) (simp_all add: s3_def)
  then obtain r where r: "sendSingleObject ex s3 1 0 (UAVTALK_TYPE_OBJ_REQ ex) = Some (0, r)"
    and kr: "iproc_state r = UAVTALK_STATE_SYNC" "registry r = reg0" "length (rxBuffer r) = 267"
      "respObj r = 1" "respInstId r = 0"
    by (auto simp: s3_def)
  have so: "sendObject ex s3 1 0 (UAVTALK_TYPE_OBJ_REQ ex) = Some (0, r)"
    using r by (simp add: sendObject_def)
  define s4 where "s4 = r\<lparr>lock := lock r - 1\<rparr>"
  define s1 where "s1 = s4\<lparr>stats_rxBytes := stats_rxBytes s4 + of_nat (length [1, 2, 3, 4 :: byte]) + 9,
               iproc_rxPacketLength := 9 + length [1, 2, 3, 4 :: byte],
               iproc_cs := PIOS_CRC_updateCRC ex 0 (frame_body ex 0x20 idA [] [1, 2, 3, 4]),
               iproc_type := 0x20,
               iproc_packet_size := 8 + length [1, 2, 3, 4 :: byte],
               iproc_objId := idA,
               iproc_rxCount := 0,
               iproc_obj := 1,
               iproc_length := length [1, 2, 3, 4 :: byte],
               iproc_instId := 0,
               iproc_state := UAVTALK_STATE_CS,
               rxBuffer := store (rxBuffer s4) 0 [1, 2, 3, 4],
               lock := lock s4 + 1,
               dispatched := dispatched s4 @ [(0x20, idA, 0, [1, 2, 3, 4])]\<rparr>"
  have run: "processBytes ex s4 (frame ex 0x20 idA [] [1, 2, 3, 4]) =
     do { r \<leftarrow> receiveObject ex s1 0x20 idA 0 [1, 2, 3, 4] (length [1, 2, 3, 4 :: byte]);
          Some ((snd r)\<lparr>stats_rxObjectBytes := stats_rxObjectBytes (snd r) + of_nat (iproc_length (snd r)),
                          stats_rxObjects := stats_rxObjects (snd r) + 1,
                          lock := lock (snd r) - 1,
                          iproc_state := UAVTALK_STATE_SYNC\<rparr>) }"
    using kr
    by (intro frame_run[where obj = 1, OF wire_format_ex _ _ _ _ _ _ _ _ s1_def])
       (simp_all add: s4_def)
  have rcv: "\<exists>s'. receiveObject ex s1 0x20 idA 0 [1, 2, 3, 4] (length [1, 2, 3, 4 :: byte]) = Some (0, s')
      \<and> respSema s'"
    using kr by (simp add: receiveObject_def updateAck_def s1_def s4_def Let_def)
  have "\<exists>w. processBytes ex s4 [60, 32, 12, 0, 68, 51, 34, 17, 1, 2, 3, 4, 150] = Some w \<and> respSema w"
    unfolding frame_data_A[symmetric] run using rcv by auto
  then show ?thesis
    unfolding transactionWait_unfold[OF s3_def] so s4_def
    by (simp only: Option.bind.simps snd_conv)
qed


lemma objectTransaction_result:
  assumes t: "type = UAVTALK_TYPE_OBJ_ACK e \<or> type = UAVTALK_TYPE_OBJ_REQ e"
    and tx: "0 < txSize s"
  shows "\<exists>w s'. transactionWait e s obj instId type rx = Some w
      \<and> objectTransaction e s obj instId type timeoutMs rx = Some (if respSema w then 0 else - 1, s')"
proof -
  define s3 where "s3 = s\<lparr>transLock := transLock s + 1, lock := lock s + 1,
                          respObj := obj, respInstId := instId\<rparr>"
  have "0 < txSize s3" using tx by (simp add: s3_def)
  from sendObject_keeps[OF this, of e obj instId type]
  obtain ret r where so: "sendObject e s3 obj instId type = Some (ret, r)" "keeps s3 r" by blast
  have "0 < txSize (r\<lparr>lock := lock r - 1\<rparr>)"
    using so(2) tx by (simp add: keeps_def s3_def)
  from processBytes_inv[OF this, of e rx]
  obtain w where w: "processBytes e (r\<lparr>lock := lock r - 1\<rparr>) rx = Some w" by blast
  have tw: "transactionWait e s obj instId type rx = Some w"
    unfolding transactionWait_unfold[OF s3_def] so using w by simp
  show ?thesis
    using t unfolding tw objectTransaction_def xSemaphoreTake_def Let_def
    by simp
qed




text \<open>
  The same frame with a wrong last byte: the state machine reads it to the checksum,
  counts one receive error, does not call \<open>receiveObject\<close> and is back in \<open>SYNC\<close>.
\<close>

lemma corrupted_checksum_run:
  assumes wf: "wire_format e"
    and s: "iproc_state s = UAVTALK_STATE_SYNC"
    and t: "type AND UAVTALK_TYPE_MASK e = UAVTALK_TYPE_VER e"
    and obj: "obj = UAVObjGetByID e (registry s) objId"
    and ok: "obj \<noteq> 0 \<or> type = UAVTALK_TYPE_OBJ_REQ e"
    and single: "obj = 0 \<or> UAVObjIsSingleInstance e (registry s) obj"
    and len: "length payload = (if type = UAVTALK_TYPE_OBJ_REQ e \<or> type = UAVTALK_TYPE_ACK e
                   \<or> type = UAVTALK_TYPE_NACK e
                then 0 else UAVObjGetNumBytes e (registry s) obj)"
    and max: "length payload < UAVTALK_MAX_PAYLOAD_LENGTH e"
    and buf: "UAVTALK_MAX_PAYLOAD_LENGTH e \<le> length (rxBuffer s)"
    and bad: "b \<noteq> PIOS_CRC_updateCRC e 0 (frame_body e type objId [] payload)"
  shows "\<exists>s'. processBytes e s (frame_body e type objId [] payload @ [b]) = Some s'
      \<and> stats_rxErrors s' = stats_rxErrors s + 1
      \<and> iproc_state s' = UAVTALK_STATE_SYNC
      \<and> dispatched s' = dispatched s \<and> sink s' = sink s \<and> registry s' = registry s"
proof -
  let ?n = "8 + length payload"
  let ?hdr = "[UAVTALK_SYNC_VAL e, type, of_nat ?n, of_nat (?n div 256)] @ le32 objId"
  let ?crc = "PIOS_CRC_updateCRC e 0 (frame_body e type objId [] payload)"
  from wf have k: "UAVTALK_MIN_HEADER_LENGTH e = 8" "UAVTALK_MAX_HEADER_LENGTH e = 10"
      "UAVTALK_MAX_HEADER_LENGTH e + UAVTALK_MAX_PAYLOAD_LENGTH e < 0xffff"
    by (simp_all add: wire_format_def)
  have fb: "frame_body e type objId [] payload = ?hdr @ payload"
    by (simp add: frame_body_def)
  define c where "c = s\<lparr>stats_rxBytes := stats_rxBytes s + 8,
               iproc_rxPacketLength := 8,
               iproc_cs := PIOS_CRC_updateCRC e 0 ?hdr,
               iproc_type := type,
               iproc_packet_size := ?n,
               iproc_objId := objId,
               iproc_rxCount := 4,
               iproc_obj := obj,
               iproc_state := UAVTALK_STATE_OBJID\<rparr>"
  define c8 where "c8 = c\<lparr>iproc_length := length payload, iproc_instId := 0, iproc_rxCount := 0,
                   iproc_state := (if payload \<noteq> [] then UAVTALK_STATE_DATA else UAVTALK_STATE_CS)\<rparr>"
  have n: "UAVTALK_MIN_HEADER_LENGTH e \<le> ?n"
      "?n \<le> UAVTALK_MAX_HEADER_LENGTH e + UAVTALK_MAX_PAYLOAD_LENGTH e" "?n < 65536"
    using k max by simp_all
  have pl0: "obj = 0 \<Longrightarrow> payload = []" using ok len by auto
  have h8: "processBytes e s ?hdr = Some c8"
    unfolding header8[OF s t n obj len c_def]
    using ok single max pl0 by (auto simp: c8_def)
  define c9 where "c9 = c8\<lparr>stats_rxBytes := stats_rxBytes c8 + of_nat (length payload),
             iproc_rxPacketLength := iproc_rxPacketLength c8 + length payload,
             iproc_cs := foldl (PIOS_CRC_updateByte e) (iproc_cs c8) payload,
             rxBuffer := store (rxBuffer c8) 0 payload,
             iproc_rxCount := 0,
             iproc_state := UAVTALK_STATE_CS\<rparr>"
  have pr: "processBytes e c8 payload = Some c9"
  proof (cases "payload = []")
    case True
    then show ?thesis by (simp add: c9_def c8_def c_def store_def)
  next
    case False
    have "processBytes e c8 payload =
      Some (c8\<lparr>stats_rxBytes := stats_rxBytes c8 + of_nat (length payload),
             iproc_rxPacketLength := iproc_rxPacketLength c8 + length payload,
             iproc_cs := foldl (PIOS_CRC_updateByte e) (iproc_cs c8) payload,
             rxBuffer := store (rxBuffer c8) (iproc_rxCount c8) payload,
             iproc_rxCount := 0,
             iproc_state := UAVTALK_STATE_CS\<rparr>)"
      using False max buf k by (intro payload_run) (auto simp: c8_def c_def)
    then show ?thesis by (simp add: c9_def c8_def)
  qed
  have cs: "iproc_cs c9 = ?crc"
    by (simp add: c9_def c8_def c_def fb PIOS_CRC_updateCRC_def)
  have st: "iproc_state c9 = UAVTALK_STATE_CS" "b \<noteq> iproc_cs c9" "iproc_rxPacketLength c9 < 0xffff"
    using max k bad by (simp_all add: cs) (simp_all add: c9_def c8_def c_def)
  note last = step_CS_bad[OF st, of e]
  have sp: "frame_body e type objId [] payload @ [b] = ?hdr @ (payload @ [b])"
    by (simp add: fb)
  have "processBytes e s (frame_body e type objId [] payload @ [b])
      = processBytes e s ?hdr \<bind> (\<lambda>s'. processBytes e s' (payload @ [b]))"
    unfolding sp by (rule processBytes_append)
  also have "\<dots> = processBytes e c8 (payload @ [b])"
    by (subst h8) simp
  also have "\<dots> = processBytes e c8 payload \<bind> (\<lambda>s'. processBytes e s' [b])"
    by (rule processBytes_append)
  also have "\<dots> = UAVTalkProcessInputStream e c9 b"
    by (subst pr) simp
  finally show ?thesis
    unfolding last by (simp add: c9_def c8_def c_def)
qed

subsection \<open>Frames of a multi-instance object\<close>

text \<open>
  In the instance, a frame for the multi-instance object \<open>B\<close> whose length field is not
  the 8 bytes of the short header plus the payload length is rejected with the last byte
  of the object id; the length field that \<open>sendSingleObject\<close> writes counts the instance
  field as well.
\<close>

lemma frame_ack_B1: "frame ex 0x23 idB (le16 1) [] = [60, 35, 10, 0, 212, 195, 178, 161, 1, 0, 188]"
  by (simp add: frame_eval)

lemma multi_instance_rejected:
  assumes s: "iproc_state s = UAVTALK_STATE_SYNC"
    and f: "bs = ([UAVTALK_SYNC_VAL ex, type, of_nat n, of_nat (n div 256)] @ le32 idB) @ rest"
    and t: "type AND 0xF8 = 0x20"
    and n: "8 \<le> n" "n \<le> 266"
    and len: "len = (if type = 0x21 \<or> type = 0x23 \<or> type = 0x24 then 0 else 4)"
    and ne: "8 + len \<noteq> n"
    and rest: "0x3C \<notin> set rest"
  shows "\<exists>s'. processBytes ex s bs = Some s'
      \<and> respSema s' = respSema s \<and> respObj s' = respObj s \<and> respInstId s' = respInstId s
      \<and> stats_rxErrors s' = stats_rxErrors s + 1 \<and> dispatched s' = dispatched s
      \<and> iproc_state s' = UAVTALK_STATE_SYNC"
proof -
  let ?hdr = "[UAVTALK_SYNC_VAL ex, type, of_nat n, of_nat (n div 256)] @ le32 idB"
  define c where "c = s\<lparr>stats_rxBytes := stats_rxBytes s + 8,
               iproc_rxPacketLength := 8,
               iproc_cs := PIOS_CRC_updateCRC ex 0 ?hdr,
               iproc_type := type,
               iproc_packet_size := n,
               iproc_objId := idB,
               iproc_rxCount := 4,
               iproc_obj := 2,
               iproc_state := UAVTALK_STATE_OBJID\<rparr>"
  define c1 where "c1 = rxError (c\<lparr>iproc_length := len\<rparr>)"
  have h: "processBytes ex s ?hdr = Some c1"
    unfolding c1_def using t n ne
    by (subst header8[where obj = 2 and len = len and c = c, OF s]) (simp_all add: c_def len)
  have "iproc_state c1 = UAVTALK_STATE_SYNC" by (simp add: c1_def rxError_def)
  from sync_skip_run[OF this, of ex rest] rest
  obtain m l where r: "processBytes ex c1 rest
      = Some (c1\<lparr>stats_rxBytes := m, iproc_rxPacketLength := l\<rparr>)"
    by auto
  have "processBytes ex s bs = processBytes ex s ?hdr \<bind> (\<lambda>s'. processBytes ex s' rest)"
    unfolding f by (rule processBytes_append)
  also have "\<dots> = Some (c1\<lparr>stats_rxBytes := m, iproc_rxPacketLength := l\<rparr>)"
    by (simp only: h Option.bind.simps r)
  finally show ?thesis
    by (simp add: c1_def rxError_def c_def)
qed

text \<open>
  What \<open>receiveObject\<close> does with a DATA or ACK frame that reaches it with an instance id
  other than the wildcard.
\<close>

lemma receiveObject_completes_pending:
  assumes "wire_format e"
    and "type = UAVTALK_TYPE_OBJ e \<or> type = UAVTALK_TYPE_ACK e"
    and "instId \<noteq> UAVOBJ_ALL_INSTANCES e"
    and "UAVObjGetByID e (registry s) objId \<noteq> 0"
  shows "\<exists>s'. receiveObject e s type objId instId data len = Some (0, s')
           \<and> stats_rxErrors s' = stats_rxErrors s
           \<and> (if respObj s \<noteq> 0 \<and> respObj s = UAVObjGetByID e (registry s) objId
                    \<and> (respInstId s = instId \<or> respInstId s = UAVOBJ_ALL_INSTANCES e)
               then respSema s' \<and> respObj s' = 0
               else respSema s' = respSema s \<and> respObj s' = respObj s)"
  using assms
  by (auto simp: receiveObject_def updateAck_def wire_format_def Let_def)

section \<open>The claims\<close>

subsection \<open>C1\<close>

text \<open>
  C1 says that every valid frame, given to the receive state machine as the transmitter
  produced it, is dispatched once with its type, object id, instance id and payload. The
  code does not do that for a multi-instance object: the transmitter counts the two
  bytes of the instance field in the length field (\<open>dataOffset = 10\<close>), and the state
  machine compares the length field with the 8 bytes read so far plus the payload length,
  before it reads the instance field. Here the DATA frame of instance 1 of the
  multi-instance object \<open>B\<close>, as \<open>sendSingleObject\<close> writes it, is rejected after its
  eighth byte: one receive error, no call of \<open>receiveObject\<close>.
\<close>

theorem multi_instance_frame_not_received:
  "map_option (\<lambda>(r, s). (r, sink s))
     (sendSingleObject ex (conn 1 64 reg0) 2 1 (UAVTALK_TYPE_OBJ ex))
     = Some (0, [[60, 32, 14, 0, 212, 195, 178, 161, 1, 0, 9, 10, 11, 12, 42]])
   \<and> map_option (\<lambda>s. (dispatched s, stats_rxErrors s, iproc_state s))
       (processBytes ex (conn 1 64 reg0) [60, 32, 14, 0, 212, 195, 178, 161, 1, 0, 9, 10, 11, 12, 42])
     = Some ([], 1, UAVTALK_STATE_SYNC)"
proof
  let ?s = "conn 1 64 reg0"
  have "\<exists>tx'. length tx' = length (txBuffer ?s) \<and>
     sendSingleObject ex ?s 2 1 (UAVTALK_TYPE_OBJ ex) =
       Some (0, ?s\<lparr>txBuffer := tx',
                  sink := (if outStream ?s \<noteq> 0 then sink ?s @ chunks (txSize ?s)
                     (frame ex 0x20 idB (le16 1) [9, 10, 11, 12]) else sink ?s),
                  stats_txObjects := stats_txObjects ?s + 1,
                  stats_txBytes := stats_txBytes ?s + of_nat (length (frame ex 0x20 idB (le16 1) [9, 10, 11, 12])),
                  stats_txObjectBytes := stats_txObjectBytes ?s + of_nat (length [9, 10, 11, 12 :: byte])\<rparr>)"
    by (intro sendSingleObject_frame) (simp_all add: reg0_def)
  then show "map_option (\<lambda>(r, s). (r, sink s))
     (sendSingleObject ex ?s 2 1 (UAVTALK_TYPE_OBJ ex))
     = Some (0, [[60, 32, 14, 0, 212, 195, 178, 161, 1, 0, 9, 10, 11, 12, 42]])"
    unfolding frame_B1 by (auto simp: chunks_single)
next
  let ?s = "conn 1 64 reg0"
  let ?hdr = "[UAVTALK_SYNC_VAL ex, 0x20, of_nat 14, of_nat (14 div 256)] @ le32 idB"
  define c where "c = ?s\<lparr>stats_rxBytes := stats_rxBytes ?s + 8,
               iproc_rxPacketLength := 8,
               iproc_cs := PIOS_CRC_updateCRC ex 0 ?hdr,
               iproc_type := 0x20,
               iproc_packet_size := 14,
               iproc_objId := idB,
               iproc_rxCount := 4,
               iproc_obj := 2,
               iproc_state := UAVTALK_STATE_OBJID\<rparr>"
  have h: "processBytes ex ?s ?hdr = Some (rxError (c\<lparr>iproc_length := 4\<rparr>))"
    by (subst header8[where obj = 2 and len = 4 and c = c]) (simp_all add: c_def)
  have sp: "[60, 32, 14, 0, 212, 195, 178, 161, 1, 0, 9, 10, 11, 12, 42]
      = ?hdr @ [1, 0, 9, 10, 11, 12, 42 :: byte]"
    by (simp add: le32_def idB_def)
  obtain n l where r: "processBytes ex (rxError (c\<lparr>iproc_length := 4\<rparr>)) [1, 0, 9, 10, 11, 12, 42]
      = Some ((rxError (c\<lparr>iproc_length := 4\<rparr>))\<lparr>stats_rxBytes := n, iproc_rxPacketLength := l\<rparr>)"
    using sync_skip_run[of "rxError (c\<lparr>iproc_length := 4\<rparr>)" ex "[1, 0, 9, 10, 11, 12, 42]"]
    by (auto simp: rxError_def)
  show "map_option (\<lambda>s. (dispatched s, stats_rxErrors s, iproc_state s))
       (processBytes ex ?s [60, 32, 14, 0, 212, 195, 178, 161, 1, 0, 9, 10, 11, 12, 42])
     = Some ([], 1, UAVTALK_STATE_SYNC)"
  proof -
    have "processBytes ex ?s [60, 32, 14, 0, 212, 195, 178, 161, 1, 0, 9, 10, 11, 12, 42]
        = processBytes ex ?s ?hdr \<bind> (\<lambda>s'. processBytes ex s' [1, 0, 9, 10, 11, 12, 42])"
      unfolding sp by (rule processBytes_append)
    also have "\<dots> = processBytes ex (rxError (c\<lparr>iproc_length := 4\<rparr>)) [1, 0, 9, 10, 11, 12, 42]"
      by (simp only: h Option.bind.simps)
    finally show ?thesis
      unfolding r by (simp add: rxError_def c_def)
  qed
qed

subsection \<open>C2\<close>

text \<open>
  C2, as amended: the length field is 12, not 13. When the registry holds a
  single-instance object \<open>A\<close> of 4 bytes, \<open>sendSingleObject\<close> with the type
  DATA-WITH-ACK writes, in order, the start marker, the type byte, the length 12 in two
  bytes, low byte first (the 8 header bytes and the 4 payload bytes, the checksum not
  counted), the four bytes of the object id, the 4 bytes that \<open>UAVObjPack\<close> stores and
  the checksum of all these bytes. A peer in state \<open>SYNC\<close> whose registry holds \<open>A\<close>
  and whose unpack succeeds calls \<open>receiveObject\<close> once with that payload, unpacks it
  into \<open>A\<close> and writes an ACK frame for \<open>A\<close> with the length 8 and no payload.
\<close>

theorem data_with_ack_exchange:
  assumes wf: "wire_format e" and mp: "4 < UAVTALK_MAX_PAYLOAD_LENGTH e"
    and sc: "0 < txSize s" "outStream s \<noteq> 0" "15 \<le> length (txBuffer s)"
    and sr: "UAVObjIsSingleInstance e (registry s) a" "UAVObjGetNumBytes e (registry s) a = 4"
        "UAVObjGetID e (registry s) a = objId"
        "UAVObjPack e (registry s) a 0 = (rc, payload)" "0 \<le> rc" "length payload = 4"
    and pc: "iproc_state p = UAVTALK_STATE_SYNC" "0 < txSize p" "outStream p \<noteq> 0"
        "UAVTALK_MAX_PAYLOAD_LENGTH e \<le> length (rxBuffer p)" "11 \<le> length (txBuffer p)"
    and pr: "UAVObjGetByID e (registry p) objId = b" "b \<noteq> 0"
        "UAVObjIsSingleInstance e (registry p) b" "UAVObjGetNumBytes e (registry p) b = 4"
        "UAVObjUnpack e (registry p) b 0 payload = (0, r')"
        "UAVObjGetID e r' b = objId" "UAVObjIsSingleInstance e r' b"
    and wire: "wire = [UAVTALK_SYNC_VAL e, UAVTALK_TYPE_OBJ_ACK e, 12, 0] @ le32 objId @ payload"
    and ack: "ack = [UAVTALK_SYNC_VAL e, UAVTALK_TYPE_ACK e, 8, 0] @ le32 objId"
  shows "(\<exists>s'. sendSingleObject e s a 0 (UAVTALK_TYPE_OBJ_ACK e) = Some (0, s')
            \<and> concat (sink s') = concat (sink s) @ wire @ [PIOS_CRC_updateCRC e 0 wire])
       \<and> (\<exists>p'. processBytes e p (wire @ [PIOS_CRC_updateCRC e 0 wire]) = Some p'
            \<and> registry p' = r'
            \<and> dispatched p' = dispatched p @ [(UAVTALK_TYPE_OBJ_ACK e, objId, 0, payload)]
            \<and> concat (sink p') = concat (sink p) @ ack @ [PIOS_CRC_updateCRC e 0 ack]
            \<and> stats_rxErrors p' = stats_rxErrors p
            \<and> iproc_state p' = UAVTALK_STATE_SYNC)"
proof
  from wf have k: "UAVTALK_CHECKSUM_LENGTH e = 1" "0 < UAVTALK_MAX_PAYLOAD_LENGTH e"
      "UAVOBJ_ALL_INSTANCES e \<noteq> 0"
      "UAVTALK_TYPE_OBJ_ACK e AND UAVTALK_TYPE_MASK e = UAVTALK_TYPE_VER e"
      "UAVTALK_TYPE_OBJ_ACK e \<noteq> UAVTALK_TYPE_OBJ_REQ e"
      "UAVTALK_TYPE_OBJ_ACK e \<noteq> UAVTALK_TYPE_ACK e"
      "UAVTALK_TYPE_OBJ_ACK e \<noteq> UAVTALK_TYPE_NACK e"
    by (auto simp: wire_format_def)
  have fw: "frame e (UAVTALK_TYPE_OBJ_ACK e) objId [] payload = wire @ [PIOS_CRC_updateCRC e 0 wire]"
    by (simp add: frame_def frame_body_def wire sr(6))
  have fa: "frame e (UAVTALK_TYPE_ACK e) objId [] [] = ack @ [PIOS_CRC_updateCRC e 0 ack]"
    by (simp add: frame_def frame_body_def ack)
  have "\<exists>tx'. length tx' = length (txBuffer s) \<and>
     sendSingleObject e s a 0 (UAVTALK_TYPE_OBJ_ACK e) =
       Some (0, s\<lparr>txBuffer := tx',
                  sink := (if outStream s \<noteq> 0 then sink s @ chunks (txSize s)
                     (frame e (UAVTALK_TYPE_OBJ_ACK e) objId [] payload) else sink s),
                  stats_txObjects := stats_txObjects s + 1,
                  stats_txBytes := stats_txBytes s + of_nat (length (frame e (UAVTALK_TYPE_OBJ_ACK e) objId [] payload)),
                  stats_txObjectBytes := stats_txObjectBytes s + of_nat (length payload)\<rparr>)"
    using k sc sr mp by (intro sendSingleObject_frame) auto
  then show "\<exists>s'. sendSingleObject e s a 0 (UAVTALK_TYPE_OBJ_ACK e) = Some (0, s')
            \<and> concat (sink s') = concat (sink s) @ wire @ [PIOS_CRC_updateCRC e 0 wire]"
    using sc by (auto simp: concat_chunks fw)
  define s1 where "s1 = p\<lparr>stats_rxBytes := stats_rxBytes p + of_nat (length payload) + 9,
               iproc_rxPacketLength := 9 + length payload,
               iproc_cs := PIOS_CRC_updateCRC e 0 (frame_body e (UAVTALK_TYPE_OBJ_ACK e) objId [] payload),
               iproc_type := UAVTALK_TYPE_OBJ_ACK e,
               iproc_packet_size := 8 + length payload,
               iproc_objId := objId,
               iproc_rxCount := 0,
               iproc_obj := b,
               iproc_length := length payload,
               iproc_instId := 0,
               iproc_state := UAVTALK_STATE_CS,
               rxBuffer := store (rxBuffer p) 0 payload,
               lock := lock p + 1,
               dispatched := dispatched p @ [(UAVTALK_TYPE_OBJ_ACK e, objId, 0, payload)]\<rparr>"
  have run: "processBytes e p (frame e (UAVTALK_TYPE_OBJ_ACK e) objId [] payload) =
     do { r \<leftarrow> receiveObject e s1 (UAVTALK_TYPE_OBJ_ACK e) objId 0 payload (length payload);
          Some ((snd r)\<lparr>stats_rxObjectBytes := stats_rxObjectBytes (snd r) + of_nat (iproc_length (snd r)),
                          stats_rxObjects := stats_rxObjects (snd r) + 1,
                          lock := lock (snd r) - 1,
                          iproc_state := UAVTALK_STATE_SYNC\<rparr>) }"
    using k pc pr sr(6) mp
    by (intro frame_run[where obj = b, OF wf _ _ _ _ _ _ _ _ s1_def]) auto
  have "\<exists>tx'. receiveObject e s1 (UAVTALK_TYPE_OBJ_ACK e) objId 0 payload (length payload) =
      Some (0, s1\<lparr>registry := r', txBuffer := tx',
                 sink := (if outStream s1 \<noteq> 0 then sink s1 @ chunks (txSize s1)
                     (frame e (UAVTALK_TYPE_ACK e) objId [] []) else sink s1),
                 stats_txObjects := stats_txObjects s1 + 1,
                 stats_txBytes := stats_txBytes s1 + of_nat (length (frame e (UAVTALK_TYPE_ACK e) objId [] [])),
                 stats_txObjectBytes := stats_txObjectBytes s1\<rparr>)"
    using k pc pr
    by (intro receive_OBJ_ACK[where obj = b, OF wf]) (auto simp: s1_def)
  then obtain tx' where rcv: "receiveObject e s1 (UAVTALK_TYPE_OBJ_ACK e) objId 0 payload (length payload) =
      Some (0, s1\<lparr>registry := r', txBuffer := tx',
                 sink := sink p @ chunks (txSize p) (frame e (UAVTALK_TYPE_ACK e) objId [] []),
                 stats_txObjects := stats_txObjects s1 + 1,
                 stats_txBytes := stats_txBytes s1 + of_nat (length (frame e (UAVTALK_TYPE_ACK e) objId [] [])),
                 stats_txObjectBytes := stats_txObjectBytes s1\<rparr>)"
    using pc by (auto simp: s1_def)
  show "\<exists>p'. processBytes e p (wire @ [PIOS_CRC_updateCRC e 0 wire]) = Some p'
            \<and> registry p' = r'
            \<and> dispatched p' = dispatched p @ [(UAVTALK_TYPE_OBJ_ACK e, objId, 0, payload)]
            \<and> concat (sink p') = concat (sink p) @ ack @ [PIOS_CRC_updateCRC e 0 ack]
            \<and> stats_rxErrors p' = stats_rxErrors p
            \<and> iproc_state p' = UAVTALK_STATE_SYNC"
    unfolding fw[symmetric] run rcv using pc(2)
    by (simp add: concat_chunks fa s1_def)
qed

theorem data_with_ack_exchange_witness:
  "wire_format ex \<and> 4 < UAVTALK_MAX_PAYLOAD_LENGTH ex
   \<and> UAVObjIsSingleInstance ex reg0 1 \<and> UAVObjGetNumBytes ex reg0 1 = 4
   \<and> UAVObjPack ex reg0 1 0 = (0, [1, 2, 3, 4])
   \<and> UAVObjUnpack ex ([0, 0, 0, 0], []) 1 0 [1, 2, 3, 4] = (0, ([1, 2, 3, 4], []))
   \<and> (\<exists>s'. sendSingleObject ex (conn 1 64 reg0) 1 0 (UAVTALK_TYPE_OBJ_ACK ex) = Some (0, s')
         \<and> concat (sink s') = [60, 34, 12, 0, 68, 51, 34, 17, 1, 2, 3, 4, 168])
   \<and> (\<exists>p'. processBytes ex (conn 1 64 ([0, 0, 0, 0], []))
               [60, 34, 12, 0, 68, 51, 34, 17, 1, 2, 3, 4, 168] = Some p'
         \<and> registry p' = ([1, 2, 3, 4], [])
         \<and> concat (sink p') = [60, 35, 8, 0, 68, 51, 34, 17, 105])"
proof -
  let ?s = "conn 1 64 reg0" and ?p = "conn 1 64 ([0, 0, 0, 0], [])"
  have h1: "wire_format ex" by (rule wire_format_ex)
  have h2: "4 < UAVTALK_MAX_PAYLOAD_LENGTH ex" by simp
  have sc: "0 < txSize ?s" "outStream ?s \<noteq> 0" "15 \<le> length (txBuffer ?s)" by simp_all
  have sr: "UAVObjIsSingleInstance ex (registry ?s) 1" "UAVObjGetNumBytes ex (registry ?s) 1 = 4"
        "UAVObjGetID ex (registry ?s) 1 = idA"
        "UAVObjPack ex (registry ?s) 1 0 = (0, [1, 2, 3, 4])" "(0::int) \<le> 0"
        "length [1, 2, 3, 4 :: byte] = 4"
    by (simp_all add: reg0_def)
  have pc: "iproc_state ?p = UAVTALK_STATE_SYNC" "0 < txSize ?p" "outStream ?p \<noteq> 0"
        "UAVTALK_MAX_PAYLOAD_LENGTH ex \<le> length (rxBuffer ?p)" "11 \<le> length (txBuffer ?p)"
    by simp_all
  have pr: "UAVObjGetByID ex (registry ?p) idA = 1" "(1::nat) \<noteq> 0"
        "UAVObjIsSingleInstance ex (registry ?p) 1" "UAVObjGetNumBytes ex (registry ?p) 1 = 4"
        "UAVObjUnpack ex (registry ?p) 1 0 [1, 2, 3, 4] = (0, ([1, 2, 3, 4], []))"
        "UAVObjGetID ex ([1, 2, 3, 4], []) 1 = idA" "UAVObjIsSingleInstance ex ([1, 2, 3, 4], []) 1"
    by simp_all
  note T = data_with_ack_exchange [OF h1 h2 sc sr pc pr refl refl]
  have "(\<exists>s'. sendSingleObject ex ?s 1 0 (UAVTALK_TYPE_OBJ_ACK ex) = Some (0, s')
         \<and> concat (sink s') = [60, 34, 12, 0, 68, 51, 34, 17, 1, 2, 3, 4, 168])
   \<and> (\<exists>p'. processBytes ex ?p [60, 34, 12, 0, 68, 51, 34, 17, 1, 2, 3, 4, 168] = Some p'
         \<and> registry p' = ([1, 2, 3, 4], [])
         \<and> concat (sink p') = [60, 35, 8, 0, 68, 51, 34, 17, 105])"
    using T by (simp add: le32_idA crc_wire_A crc_ack_A) blast
  with h1 h2 sr(1,2,4) pr(5) show ?thesis by simp
qed

text \<open>
  C2 as stated fails on the length field: the frame that \<open>sendSingleObject\<close> writes for
  the 4-byte single-instance object \<open>A\<close> carries 12 in bytes 2 and 3, not 13.
\<close>

theorem data_with_ack_length_field:
  "map_option (concat \<circ> sink \<circ> snd)
     (sendSingleObject ex (conn 1 64 reg0) 1 0 (UAVTALK_TYPE_OBJ_ACK ex))
     = Some [60, 34, 12, 0, 68, 51, 34, 17, 1, 2, 3, 4, 168]
   \<and> map_option (take 2 \<circ> drop 2 \<circ> concat \<circ> sink \<circ> snd)
       (sendSingleObject ex (conn 1 64 reg0) 1 0 (UAVTALK_TYPE_OBJ_ACK ex))
     \<noteq> Some [13, 0]"
proof -
  let ?s = "conn 1 64 reg0"
  have "\<exists>tx'. length tx' = length (txBuffer ?s) \<and>
     sendSingleObject ex ?s 1 0 (UAVTALK_TYPE_OBJ_ACK ex) =
       Some (0, ?s\<lparr>txBuffer := tx',
                  sink := (if outStream ?s \<noteq> 0 then sink ?s @ chunks (txSize ?s)
                     (frame ex 0x22 idA [] [1, 2, 3, 4]) else sink ?s),
                  stats_txObjects := stats_txObjects ?s + 1,
                  stats_txBytes := stats_txBytes ?s + of_nat (length (frame ex 0x22 idA [] [1, 2, 3, 4])),
                  stats_txObjectBytes := stats_txObjectBytes ?s + of_nat (length [1, 2, 3, 4 :: byte])\<rparr>)"
    by (intro sendSingleObject_frame) (simp_all add: reg0_def)
  moreover have "frame ex 0x22 idA [] [1, 2, 3, 4] = [60, 34, 12, 0, 68, 51, 34, 17, 1, 2, 3, 4, 168]"
    by (simp add: frame_eval)
  ultimately show ?thesis
    by (auto simp: chunks_single)
qed

subsection \<open>C3\<close>




subsection \<open>C4\<close>

text \<open>
  C4 says that no write handed to the output stream is longer than the chunk size given
  at connection creation, the write of a NACK frame included. \<open>sendSingleObject\<close> cuts
  its frame into pieces of at most \<open>txSize\<close> bytes; \<open>sendNack\<close> does not. Here a
  connection created with a chunk size of 4 receives a REQUEST for the unregistered
  object id \<open>0xDEADBEEF\<close> and hands its NACK frame of 9 bytes to the output stream in one
  write.
\<close>

theorem nack_written_in_one_piece:
  "txSize (conn 1 4 reg0) = 4
   \<and> map_option sink
       (processBytes ex (conn 1 4 reg0) [60, 33, 8, 0, 239, 190, 173, 222, 41])
     = Some [[60, 36, 8, 0, 239, 190, 173, 222, 131]]"
proof
  show "txSize (conn 1 4 reg0) = 4" by simp
next
  let ?s = "conn 1 4 reg0"
  have fr: "[60, 33, 8, 0, 239, 190, 173, 222, 41] = frame ex (UAVTALK_TYPE_OBJ_REQ ex) 0xDEADBEEF [] []"
    by (simp add: frame_eval)
  have nk: "frame ex (UAVTALK_TYPE_NACK ex) 0xDEADBEEF [] [] = [60, 36, 8, 0, 239, 190, 173, 222, 131]"
    by (simp add: frame_eval)
  define s1 where "s1 = ?s\<lparr>stats_rxBytes := stats_rxBytes ?s + of_nat (length ([] :: byte list)) + 9,
               iproc_rxPacketLength := 9 + length ([] :: byte list),
               iproc_cs := PIOS_CRC_updateCRC ex 0 (frame_body ex (UAVTALK_TYPE_OBJ_REQ ex) 0xDEADBEEF [] []),
               iproc_type := UAVTALK_TYPE_OBJ_REQ ex,
               iproc_packet_size := 8 + length ([] :: byte list),
               iproc_objId := 0xDEADBEEF,
               iproc_rxCount := 0,
               iproc_obj := 0,
               iproc_length := length ([] :: byte list),
               iproc_instId := 0,
               iproc_state := UAVTALK_STATE_CS,
               rxBuffer := store (rxBuffer ?s) 0 [],
               lock := lock ?s + 1,
               dispatched := dispatched ?s @ [(UAVTALK_TYPE_OBJ_REQ ex, 0xDEADBEEF, 0, [])]\<rparr>"
  have run: "processBytes ex ?s (frame ex (UAVTALK_TYPE_OBJ_REQ ex) 0xDEADBEEF [] []) =
     do { r \<leftarrow> receiveObject ex s1 (UAVTALK_TYPE_OBJ_REQ ex) 0xDEADBEEF 0 [] (length ([] :: byte list));
          Some ((snd r)\<lparr>stats_rxObjectBytes := stats_rxObjectBytes (snd r) + of_nat (iproc_length (snd r)),
                          stats_rxObjects := stats_rxObjects (snd r) + 1,
                          lock := lock (snd r) - 1,
                          iproc_state := UAVTALK_STATE_SYNC\<rparr>) }"
    by (rule frame_run[where obj = 0, OF wire_format_ex _ _ _ _ _ _ _ _ s1_def])
       (simp_all add: idA_def idB_def)
  obtain tx' where nack: "sendNack ex s1 0xDEADBEEF =
       (0, s1\<lparr>txBuffer := tx',
             sink := (if outStream s1 \<noteq> 0
                      then sink s1 @ [frame ex (UAVTALK_TYPE_NACK ex) 0xDEADBEEF [] []] else sink s1),
             stats_txBytes := stats_txBytes s1 + 9\<rparr>)"
    using sendNack_frame[of ex s1 "0xDEADBEEF"] by (auto simp: s1_def)
  have "receiveObject ex s1 (UAVTALK_TYPE_OBJ_REQ ex) 0xDEADBEEF 0 [] 0
      = Some (0, snd (sendNack ex s1 0xDEADBEEF))"
    by (simp add: receiveObject_def s1_def idA_def idB_def)
  then show "map_option sink (processBytes ex ?s [60, 33, 8, 0, 239, 190, 173, 222, 41])
     = Some [[60, 36, 8, 0, 239, 190, 173, 222, 131]]"
    unfolding fr run nack nk by (simp add: s1_def)
qed

subsection \<open>C5\<close>

text \<open>
  C5, as amended. The object id of an inbound frame does not resolve in the registry.
  If the frame is a REQUEST without instance field (length field 8), the receiver hands
  a NACK frame with that object id and no payload to the output stream, and the
  receive-error counter is unchanged. If the frame has any other type, the state machine
  rejects it with the last byte of its object id: the receive-error counter is
  incremented, the state machine is back in \<open>SYNC\<close> and \<open>receiveObject\<close> is not called. The
  bytes that follow, the rest of the frame among them, are searched for a start marker:
  after any bytes \<open>rest\<close> that hold no start marker (none, for the end of the object id) the
  counter, the state and the history of the calls of \<open>receiveObject\<close> are still those.
\<close>

theorem unknown_object_request_nack:
  assumes wf: "wire_format e"
    and s: "iproc_state s = UAVTALK_STATE_SYNC"
    and unk: "UAVObjGetByID e (registry s) objId = 0"
    and buf: "UAVTALK_MAX_PAYLOAD_LENGTH e \<le> length (rxBuffer s)" "9 \<le> length (txBuffer s)"
    and req: "req = [UAVTALK_SYNC_VAL e, UAVTALK_TYPE_OBJ_REQ e, 8, 0] @ le32 objId"
    and nack: "nack = [UAVTALK_SYNC_VAL e, UAVTALK_TYPE_NACK e, 8, 0] @ le32 objId"
  shows "(\<exists>s'. processBytes e s (req @ [PIOS_CRC_updateCRC e 0 req]) = Some s'
            \<and> sink s' = (if outStream s \<noteq> 0 then sink s @ [nack @ [PIOS_CRC_updateCRC e 0 nack]]
                          else sink s)
            \<and> stats_rxErrors s' = stats_rxErrors s
            \<and> iproc_state s' = UAVTALK_STATE_SYNC)
       \<and> (type AND UAVTALK_TYPE_MASK e = UAVTALK_TYPE_VER e \<and> type \<noteq> UAVTALK_TYPE_OBJ_REQ e
            \<and> 8 \<le> n \<and> n \<le> UAVTALK_MAX_HEADER_LENGTH e + UAVTALK_MAX_PAYLOAD_LENGTH e
            \<and> UAVTALK_SYNC_VAL e \<notin> set rest \<longrightarrow>
           (\<exists>s'. processBytes e s
                    (([UAVTALK_SYNC_VAL e, type, of_nat n, of_nat (n div 256)] @ le32 objId) @ rest)
                    = Some s'
              \<and> stats_rxErrors s' = stats_rxErrors s + 1
              \<and> iproc_state s' = UAVTALK_STATE_SYNC
              \<and> dispatched s' = dispatched s
              \<and> sink s' = sink s))"
proof (intro conjI impI)
  from wf have k: "UAVTALK_CHECKSUM_LENGTH e = 1" "0 < UAVTALK_MAX_PAYLOAD_LENGTH e"
      "UAVTALK_TYPE_OBJ_REQ e AND UAVTALK_TYPE_MASK e = UAVTALK_TYPE_VER e"
      "UAVTALK_TYPE_OBJ_REQ e \<noteq> UAVTALK_TYPE_OBJ e"
      "UAVTALK_TYPE_OBJ_REQ e \<noteq> UAVTALK_TYPE_OBJ_ACK e"
    by (auto simp: wire_format_def)
  have fr: "frame e (UAVTALK_TYPE_OBJ_REQ e) objId [] [] = req @ [PIOS_CRC_updateCRC e 0 req]"
    by (simp add: frame_def frame_body_def req)
  have fn: "frame e (UAVTALK_TYPE_NACK e) objId [] [] = nack @ [PIOS_CRC_updateCRC e 0 nack]"
    by (simp add: frame_def frame_body_def nack)
  define s1 where "s1 = s\<lparr>stats_rxBytes := stats_rxBytes s + of_nat (length ([] :: byte list)) + 9,
               iproc_rxPacketLength := 9 + length ([] :: byte list),
               iproc_cs := PIOS_CRC_updateCRC e 0 (frame_body e (UAVTALK_TYPE_OBJ_REQ e) objId [] []),
               iproc_type := UAVTALK_TYPE_OBJ_REQ e,
               iproc_packet_size := 8 + length ([] :: byte list),
               iproc_objId := objId,
               iproc_rxCount := 0,
               iproc_obj := 0,
               iproc_length := length ([] :: byte list),
               iproc_instId := 0,
               iproc_state := UAVTALK_STATE_CS,
               rxBuffer := store (rxBuffer s) 0 [],
               lock := lock s + 1,
               dispatched := dispatched s @ [(UAVTALK_TYPE_OBJ_REQ e, objId, 0, [])]\<rparr>"
  have run: "processBytes e s (frame e (UAVTALK_TYPE_OBJ_REQ e) objId [] []) =
     do { r \<leftarrow> receiveObject e s1 (UAVTALK_TYPE_OBJ_REQ e) objId 0 [] (length ([] :: byte list));
          Some ((snd r)\<lparr>stats_rxObjectBytes := stats_rxObjectBytes (snd r) + of_nat (iproc_length (snd r)),
                          stats_rxObjects := stats_rxObjects (snd r) + 1,
                          lock := lock (snd r) - 1,
                          iproc_state := UAVTALK_STATE_SYNC\<rparr>) }"
    using k s unk buf
    by (intro frame_run[where obj = 0, OF wf _ _ _ _ _ _ _ _ s1_def]) auto
  obtain tx' where nk: "sendNack e s1 objId =
       (0, s1\<lparr>txBuffer := tx',
             sink := (if outStream s1 \<noteq> 0
                      then sink s1 @ [frame e (UAVTALK_TYPE_NACK e) objId [] []] else sink s1),
             stats_txBytes := stats_txBytes s1 + 9\<rparr>)"
    using sendNack_frame[of e s1 objId] k buf by (auto simp: s1_def)
  have rcv: "receiveObject e s1 (UAVTALK_TYPE_OBJ_REQ e) objId 0 [] (length ([] :: byte list))
      = Some (0, snd (sendNack e s1 objId))"
    using k unk by (simp add: receiveObject_def s1_def)
  show "\<exists>s'. processBytes e s (req @ [PIOS_CRC_updateCRC e 0 req]) = Some s'
            \<and> sink s' = (if outStream s \<noteq> 0 then sink s @ [nack @ [PIOS_CRC_updateCRC e 0 nack]]
                          else sink s)
            \<and> stats_rxErrors s' = stats_rxErrors s
            \<and> iproc_state s' = UAVTALK_STATE_SYNC"
    unfolding fr[symmetric] run rcv nk fn[symmetric]
    by (simp add: s1_def)
next
  assume a: "type AND UAVTALK_TYPE_MASK e = UAVTALK_TYPE_VER e \<and> type \<noteq> UAVTALK_TYPE_OBJ_REQ e
            \<and> 8 \<le> n \<and> n \<le> UAVTALK_MAX_HEADER_LENGTH e + UAVTALK_MAX_PAYLOAD_LENGTH e
            \<and> UAVTALK_SYNC_VAL e \<notin> set rest"
  from wf have k: "UAVTALK_MIN_HEADER_LENGTH e = 8"
     "UAVTALK_MAX_HEADER_LENGTH e + UAVTALK_MAX_PAYLOAD_LENGTH e < 0xffff"
    by (auto simp: wire_format_def)
  let ?hdr = "[UAVTALK_SYNC_VAL e, type, of_nat n, of_nat (n div 256)] @ le32 objId"
  define c where "c = s\<lparr>stats_rxBytes := stats_rxBytes s + 8,
               iproc_rxPacketLength := 8,
               iproc_cs := PIOS_CRC_updateCRC e 0
                  ([UAVTALK_SYNC_VAL e, type, of_nat n, of_nat (n div 256)] @ le32 objId),
               iproc_type := type,
               iproc_packet_size := n,
               iproc_objId := objId,
               iproc_rxCount := 4,
               iproc_obj := 0,
               iproc_state := UAVTALK_STATE_OBJID\<rparr>"
  have h: "processBytes e s ?hdr = Some (rxError c)"
    using a k unk
    by (subst header8[where obj = 0 and c = c, OF s _ _ _ _ _ refl c_def]) auto
  have "iproc_state (rxError c) = UAVTALK_STATE_SYNC" by (simp add: rxError_def)
  from sync_skip_run[OF this, of e rest] a
  obtain m l where r: "processBytes e (rxError c) rest
      = Some ((rxError c)\<lparr>stats_rxBytes := m, iproc_rxPacketLength := l\<rparr>)"
    by blast
  have "processBytes e s (?hdr @ rest) = processBytes e s ?hdr \<bind> (\<lambda>s'. processBytes e s' rest)"
    by (rule processBytes_append)
  also have "\<dots> = Some ((rxError c)\<lparr>stats_rxBytes := m, iproc_rxPacketLength := l\<rparr>)"
    by (simp only: h Option.bind.simps r)
  finally show "\<exists>s'. processBytes e s (?hdr @ rest) = Some s'
              \<and> stats_rxErrors s' = stats_rxErrors s + 1
              \<and> iproc_state s' = UAVTALK_STATE_SYNC
              \<and> dispatched s' = dispatched s
              \<and> sink s' = sink s"
    by (simp add: rxError_def c_def)
qed

theorem unknown_object_request_nack_witness:
  "wire_format ex \<and> iproc_state (conn 1 64 reg0) = UAVTALK_STATE_SYNC
   \<and> UAVObjGetByID ex (registry (conn 1 64 reg0)) 0xDEADBEEF = 0
   \<and> (0x20 :: byte) AND UAVTALK_TYPE_MASK ex = UAVTALK_TYPE_VER ex
   \<and> (0x20 :: byte) \<noteq> UAVTALK_TYPE_OBJ_REQ ex
   \<and> UAVTALK_SYNC_VAL ex \<notin> set [1, 2, 3, 4, 51]
   \<and> frame ex 0x20 0xDEADBEEF [] [1, 2, 3, 4] = [60, 32, 12, 0, 239, 190, 173, 222, 1, 2, 3, 4, 51]
   \<and> (\<exists>s'. processBytes ex (conn 1 64 reg0) [60, 33, 8, 0, 239, 190, 173, 222, 41] = Some s'
         \<and> sink s' = [[60, 36, 8, 0, 239, 190, 173, 222, 131]]
         \<and> stats_rxErrors s' = 0)
   \<and> (\<exists>s'. processBytes ex (conn 1 64 reg0) [60, 32, 12, 0, 239, 190, 173, 222] = Some s'
         \<and> stats_rxErrors s' = 1 \<and> iproc_state s' = UAVTALK_STATE_SYNC \<and> dispatched s' = [])
   \<and> (\<exists>s'. processBytes ex (conn 1 64 reg0) [60, 32, 12, 0, 239, 190, 173, 222, 1, 2, 3, 4, 51]
                = Some s'
         \<and> stats_rxErrors s' = 1 \<and> iproc_state s' = UAVTALK_STATE_SYNC \<and> dispatched s' = [])"
proof -
  let ?s = "conn 1 64 reg0"
  have h: "wire_format ex" "iproc_state ?s = UAVTALK_STATE_SYNC"
    "UAVObjGetByID ex (registry ?s) 0xDEADBEEF = 0"
    "UAVTALK_MAX_PAYLOAD_LENGTH ex \<le> length (rxBuffer ?s)" "9 \<le> length (txBuffer ?s)"
    by (simp_all add: wire_format_ex idA_def idB_def)
  have t: "(0x20 :: byte) AND UAVTALK_TYPE_MASK ex = UAVTALK_TYPE_VER ex"
    "(0x20 :: byte) \<noteq> UAVTALK_TYPE_OBJ_REQ ex"
    "UAVTALK_SYNC_VAL ex \<notin> set []"
    "UAVTALK_SYNC_VAL ex \<notin> set [1, 2, 3, 4, 51]"
    by simp_all
  have f: "frame ex 0x20 0xDEADBEEF [] [1, 2, 3, 4] = [60, 32, 12, 0, 239, 190, 173, 222, 1, 2, 3, 4, 51]"
    by (simp add: frame_eval)
  note T = unknown_object_request_nack [OF h refl refl, of "0x20" 12 "[]"]
  have a: "(\<exists>s'. processBytes ex ?s [60, 33, 8, 0, 239, 190, 173, 222, 41] = Some s'
         \<and> sink s' = [[60, 36, 8, 0, 239, 190, 173, 222, 131]]
         \<and> stats_rxErrors s' = 0)
   \<and> (\<exists>s'. processBytes ex ?s [60, 32, 12, 0, 239, 190, 173, 222] = Some s'
         \<and> stats_rxErrors s' = 1 \<and> iproc_state s' = UAVTALK_STATE_SYNC \<and> dispatched s' = [])"
    using T t by (simp add: le32_DEADBEEF crc_req_DEADBEEF crc_nack_DEADBEEF) blast
  note T' = unknown_object_request_nack [OF h refl refl, of "0x20" 12 "[1, 2, 3, 4, 51]"]
  have b: "\<exists>s'. processBytes ex ?s [60, 32, 12, 0, 239, 190, 173, 222, 1, 2, 3, 4, 51] = Some s'
         \<and> stats_rxErrors s' = 1 \<and> iproc_state s' = UAVTALK_STATE_SYNC \<and> dispatched s' = []"
    using conjunct2[OF T'] t by (simp add: le32_DEADBEEF) blast
  from a b h(1-3) t f show ?thesis by simp
qed

text \<open>
  C5 as stated fails in both halves, for the unregistered object id \<open>0xDEADBEEF\<close>. A
  REQUEST that carries an instance field, as the transmitter writes it for a
  multi-instance object: the state machine finds that the length field, 10, is not the 8
  bytes read so far, counts a receive error and sends no NACK. A DATA frame whose payload
  holds the start marker \<open>0x3C\<close> followed by a byte with the version tag: the state
  machine rejects the frame after the object id, finds the start marker in the payload
  and ends the frame in \<open>SIZE\<close>, not in \<open>SYNC\<close>.
\<close>

theorem request_with_instance_field_no_nack:
  "frame ex (UAVTALK_TYPE_OBJ_REQ ex) 0xDEADBEEF (le16 0) []
     = [60, 33, 10, 0, 239, 190, 173, 222, 0, 0, 53]
   \<and> UAVObjGetByID ex reg0 0xDEADBEEF = 0
   \<and> map_option sink
       (processBytes ex (conn 1 64 reg0) [60, 33, 10, 0, 239, 190, 173, 222, 0, 0, 53]) = Some []
   \<and> map_option stats_rxErrors
       (processBytes ex (conn 1 64 reg0) [60, 33, 10, 0, 239, 190, 173, 222, 0, 0, 53]) = Some 1
   \<and> frame ex (UAVTALK_TYPE_OBJ ex) 0xDEADBEEF [] [1, 2, 0x3C, 0x20]
     = [60, 32, 12, 0, 239, 190, 173, 222, 1, 2, 60, 32, 245]
   \<and> map_option (\<lambda>s. (iproc_state s, stats_rxErrors s))
       (processBytes ex (conn 1 64 reg0) [60, 32, 12, 0, 239, 190, 173, 222, 1, 2, 60, 32, 245])
     = Some (UAVTALK_STATE_SIZE, 1)"
proof -
  let ?s = "conn 1 64 reg0"
  let ?hdr = "[UAVTALK_SYNC_VAL ex, 0x21, of_nat 10, of_nat (10 div 256)] @ le32 0xDEADBEEF"
  define c where "c = ?s\<lparr>stats_rxBytes := stats_rxBytes ?s + 8,
               iproc_rxPacketLength := 8,
               iproc_cs := PIOS_CRC_updateCRC ex 0 ?hdr,
               iproc_type := 0x21,
               iproc_packet_size := 10,
               iproc_objId := 0xDEADBEEF,
               iproc_rxCount := 4,
               iproc_obj := 0,
               iproc_state := UAVTALK_STATE_OBJID\<rparr>"
  define c1 where "c1 = rxError (c\<lparr>iproc_length := 0\<rparr>)"
  have h: "processBytes ex ?s ?hdr = Some c1"
    unfolding c1_def
    by (subst header8[where obj = 0 and len = 0 and c = c]) (simp_all add: c_def idA_def idB_def)
  have sp: "[60, 33, 10, 0, 239, 190, 173, 222, 0, 0, 53] = ?hdr @ [0, 0, 53 :: byte]"
    by (simp add: le32_def)
  have c1: "iproc_state c1 = UAVTALK_STATE_SYNC" "stats_rxErrors c1 = 1" "sink c1 = []"
    by (simp_all add: c1_def rxError_def c_def)
  obtain n l where r: "processBytes ex c1 [0, 0, 53]
      = Some (c1\<lparr>stats_rxBytes := n, iproc_rxPacketLength := l\<rparr>)"
    using sync_skip_run[of c1 ex "[0, 0, 53]"] c1(1) by auto
  have "processBytes ex ?s [60, 33, 10, 0, 239, 190, 173, 222, 0, 0, 53]
        = processBytes ex ?s ?hdr \<bind> (\<lambda>s'. processBytes ex s' [0, 0, 53])"
    unfolding sp by (rule processBytes_append)
  also have "\<dots> = Some (c1\<lparr>stats_rxBytes := n, iproc_rxPacketLength := l\<rparr>)"
    by (simp only: h Option.bind.simps r)
  finally have req: "processBytes ex ?s [60, 33, 10, 0, 239, 190, 173, 222, 0, 0, 53]
      = Some (c1\<lparr>stats_rxBytes := n, iproc_rxPacketLength := l\<rparr>)" .
  have freq: "frame ex (UAVTALK_TYPE_OBJ_REQ ex) 0xDEADBEEF (le16 0) []
     = [60, 33, 10, 0, 239, 190, 173, 222, 0, 0, 53]"
    by (simp add: frame_eval)
  let ?hdr' = "[UAVTALK_SYNC_VAL ex, 0x20, of_nat 12, of_nat (12 div 256)] @ le32 0xDEADBEEF"
  define d where "d = ?s\<lparr>stats_rxBytes := stats_rxBytes ?s + 8,
               iproc_rxPacketLength := 8,
               iproc_cs := PIOS_CRC_updateCRC ex 0 ?hdr',
               iproc_type := 0x20,
               iproc_packet_size := 12,
               iproc_objId := 0xDEADBEEF,
               iproc_rxCount := 4,
               iproc_obj := 0,
               iproc_state := UAVTALK_STATE_OBJID\<rparr>"
  define d1 where "d1 = rxError d"
  have h': "processBytes ex ?s ?hdr' = Some d1"
    unfolding d1_def
    by (subst header8[where obj = 0 and len = 4 and c = d]) (simp_all add: d_def idA_def idB_def)
  have sp': "[60, 32, 12, 0, 239, 190, 173, 222, 1, 2, 60, 32, 245]
      = ?hdr' @ ([1, 2] @ [60, 32, 245 :: byte])"
    by (simp add: le32_def)
  have d1: "iproc_state d1 = UAVTALK_STATE_SYNC" "stats_rxErrors d1 = 1"
    by (simp_all add: d1_def rxError_def d_def)
  obtain n' l' where r': "processBytes ex d1 [1, 2]
      = Some (d1\<lparr>stats_rxBytes := n', iproc_rxPacketLength := l'\<rparr>)"
    using sync_skip_run[of d1 ex "[1, 2]"] d1(1) by auto
  have e: "processBytes ex (d1\<lparr>stats_rxBytes := n', iproc_rxPacketLength := l'\<rparr>)
             [UAVTALK_SYNC_VAL ex, 32, 245]
      = Some (d1\<lparr>stats_rxBytes := n' + 3, iproc_rxPacketLength := 3,
                 iproc_cs := crc8 (crc8 (crc8 0 0x3C) 32) 245, iproc_type := 32,
                 iproc_packet_size := 245,
                 iproc_state := UAVTALK_STATE_SIZE, iproc_rxCount := 1\<rparr>)"
    by (simp add: step_SYNC_eq step_TYPE step_SIZE_lo d1)
  have "processBytes ex ?s [60, 32, 12, 0, 239, 190, 173, 222, 1, 2, 60, 32, 245]
      = processBytes ex ?s ?hdr' \<bind> (\<lambda>s'. processBytes ex s' ([1, 2] @ [60, 32, 245]))"
    unfolding sp' by (rule processBytes_append)
  also have "\<dots> = processBytes ex d1 ([1, 2] @ [60, 32, 245])"
    by (simp only: h' Option.bind.simps)
  also have "\<dots> = processBytes ex d1 [1, 2] \<bind> (\<lambda>s'. processBytes ex s' [60, 32, 245])"
    by (rule processBytes_append)
  also have "\<dots> = processBytes ex (d1\<lparr>stats_rxBytes := n', iproc_rxPacketLength := l'\<rparr>)
       [UAVTALK_SYNC_VAL ex, 32, 245]"
    by (simp only: r' Option.bind.simps ex_simps)
  finally have dat: "map_option (\<lambda>s. (iproc_state s, stats_rxErrors s))
       (processBytes ex ?s [60, 32, 12, 0, 239, 190, 173, 222, 1, 2, 60, 32, 245])
     = Some (UAVTALK_STATE_SIZE, 1)"
    unfolding e by (simp add: d1)
  have fdat: "frame ex (UAVTALK_TYPE_OBJ ex) 0xDEADBEEF [] [1, 2, 0x3C, 0x20]
     = [60, 32, 12, 0, 239, 190, 173, 222, 1, 2, 60, 32, 245]"
    by (simp add: frame_eval)
  from req freq dat fdat show ?thesis
    by (simp add: c1 idA_def idB_def)
qed

subsection \<open>C6\<close>




subsection \<open>C7\<close>

text \<open>
  C7 says that a frame that is valid but for its last byte, the checksum, costs one
  receive error, is not dispatched and leaves the state machine in \<open>SYNC\<close>. For a frame
  of a multi-instance object the state machine never reaches the checksum: it rejects
  the frame after the eighth byte, as in C1, and looks for a start marker in the rest.
  Here the frame of instance 1 of \<open>B\<close>, as \<open>sendSingleObject\<close> writes it, has the payload
  \<open>[9, 10, 11, 0x3C]\<close> and the checksum \<open>186\<close>; with the checksum replaced by \<open>0x20\<close> the
  state machine ends in \<open>SIZE\<close>, not in \<open>SYNC\<close>.
\<close>

theorem corrupted_checksum_multi_instance:
  "map_option (\<lambda>(r, s). (r, sink s))
     (sendSingleObject ex (conn 1 64 reg1) 2 1 (UAVTALK_TYPE_OBJ ex))
     = Some (0, [[60, 32, 14, 0, 212, 195, 178, 161, 1, 0, 9, 10, 11, 60, 186]])
   \<and> map_option (\<lambda>s. (iproc_state s, stats_rxErrors s, dispatched s))
       (processBytes ex (conn 1 64 reg1) [60, 32, 14, 0, 212, 195, 178, 161, 1, 0, 9, 10, 11, 60, 32])
     = Some (UAVTALK_STATE_SIZE, 1, [])"
proof
  let ?s = "conn 1 64 reg1"
  have "\<exists>tx'. length tx' = length (txBuffer ?s) \<and>
     sendSingleObject ex ?s 2 1 (UAVTALK_TYPE_OBJ ex) =
       Some (0, ?s\<lparr>txBuffer := tx',
                  sink := (if outStream ?s \<noteq> 0 then sink ?s @ chunks (txSize ?s)
                     (frame ex 0x20 idB (le16 1) [9, 10, 11, 0x3C]) else sink ?s),
                  stats_txObjects := stats_txObjects ?s + 1,
                  stats_txBytes := stats_txBytes ?s + of_nat (length (frame ex 0x20 idB (le16 1) [9, 10, 11, 0x3C])),
                  stats_txObjectBytes := stats_txObjectBytes ?s + of_nat (length [9, 10, 11, 0x3C :: byte])\<rparr>)"
    by (intro sendSingleObject_frame) (simp_all add: reg1_def)
  then show "map_option (\<lambda>(r, s). (r, sink s))
     (sendSingleObject ex ?s 2 1 (UAVTALK_TYPE_OBJ ex))
     = Some (0, [[60, 32, 14, 0, 212, 195, 178, 161, 1, 0, 9, 10, 11, 60, 186]])"
    unfolding frame_B1_sync by (auto simp: chunks_single)
next
  let ?s = "conn 1 64 reg1"
  let ?hdr = "[UAVTALK_SYNC_VAL ex, 0x20, of_nat 14, of_nat (14 div 256)] @ le32 idB"
  define c where "c = ?s\<lparr>stats_rxBytes := stats_rxBytes ?s + 8,
               iproc_rxPacketLength := 8,
               iproc_cs := PIOS_CRC_updateCRC ex 0 ?hdr,
               iproc_type := 0x20,
               iproc_packet_size := 14,
               iproc_objId := idB,
               iproc_rxCount := 4,
               iproc_obj := 2,
               iproc_state := UAVTALK_STATE_OBJID\<rparr>"
  define c1 where "c1 = rxError (c\<lparr>iproc_length := 4\<rparr>)"
  have h: "processBytes ex ?s ?hdr = Some c1"
    unfolding c1_def
    by (subst header8[where obj = 2 and len = 4 and c = c]) (simp_all add: c_def)
  have sp: "[60, 32, 14, 0, 212, 195, 178, 161, 1, 0, 9, 10, 11, 60, 32]
      = ?hdr @ ([1, 0, 9, 10, 11] @ [60, 32 :: byte])"
    by (simp add: le32_def idB_def)
  have c1: "iproc_state c1 = UAVTALK_STATE_SYNC" "stats_rxErrors c1 = 1" "dispatched c1 = []"
    by (simp_all add: c1_def rxError_def c_def)
  obtain n l where r: "processBytes ex c1 [1, 0, 9, 10, 11]
      = Some (c1\<lparr>stats_rxBytes := n, iproc_rxPacketLength := l\<rparr>)"
    using sync_skip_run[of c1 ex "[1, 0, 9, 10, 11]"] c1(1) by auto
  have e: "processBytes ex (c1\<lparr>stats_rxBytes := n, iproc_rxPacketLength := l\<rparr>) [UAVTALK_SYNC_VAL ex, 32]
      = Some (c1\<lparr>stats_rxBytes := n + 2, iproc_rxPacketLength := 2,
                 iproc_cs := crc8 (crc8 0 0x3C) 32, iproc_type := 32, iproc_packet_size := 0,
                 iproc_state := UAVTALK_STATE_SIZE, iproc_rxCount := 0\<rparr>)"
    by (simp add: step_SYNC_eq step_TYPE c1)
  show "map_option (\<lambda>s. (iproc_state s, stats_rxErrors s, dispatched s))
       (processBytes ex ?s [60, 32, 14, 0, 212, 195, 178, 161, 1, 0, 9, 10, 11, 60, 32])
     = Some (UAVTALK_STATE_SIZE, 1, [])"
  proof -
    have "processBytes ex ?s [60, 32, 14, 0, 212, 195, 178, 161, 1, 0, 9, 10, 11, 60, 32]
        = processBytes ex ?s ?hdr \<bind> (\<lambda>s'. processBytes ex s' ([1, 0, 9, 10, 11] @ [60, 32]))"
      unfolding sp by (rule processBytes_append)
    also have "\<dots> = processBytes ex c1 ([1, 0, 9, 10, 11] @ [60, 32])"
      by (simp only: h Option.bind.simps)
    also have "\<dots> = processBytes ex c1 [1, 0, 9, 10, 11] \<bind> (\<lambda>s'. processBytes ex s' [60, 32])"
      by (rule processBytes_append)
    also have "\<dots> = processBytes ex (c1\<lparr>stats_rxBytes := n, iproc_rxPacketLength := l\<rparr>) [UAVTALK_SYNC_VAL ex, 32]"
      by (simp only: r Option.bind.simps ex_simps)
    finally show ?thesis
      unfolding e by (simp add: c1)
  qed
qed

subsection \<open>C8\<close>

text \<open>
  C8. A blocking transaction (a request, or a send with acknowledgment) on a connection
  whose response semaphore is not given when the transaction starts: when the
  completion signal has been raised by the time the wait ends, \<open>objectTransaction\<close>
  returns 0; when it has not, \<open>objectTransaction\<close> returns \<open>-1\<close>. In both cases the
  pending slot is empty, the semaphore is taken and \<open>transLock\<close> is held as often as
  before the call, that is, it has been released. The caller's wait is modelled by the
  input \<open>rx\<close> that the receiver processes in the meantime.
\<close>

theorem blocking_transaction_outcome:
  assumes t: "type = UAVTALK_TYPE_OBJ_ACK e \<or> type = UAVTALK_TYPE_OBJ_REQ e"
    and tx: "0 < txSize s"
    and sema: "\<not> respSema s"
  shows "\<exists>w. transactionWait e s obj instId type rx = Some w
      \<and> (respSema w \<longrightarrow>
            (\<exists>s'. objectTransaction e s obj instId type timeoutMs rx = Some (0, s')
                  \<and> respObj s' = 0 \<and> transLock s' = transLock s \<and> \<not> respSema s'))
      \<and> (\<not> respSema w \<longrightarrow>
            (\<exists>s'. objectTransaction e s obj instId type timeoutMs rx = Some (- 1, s')
                  \<and> respObj s' = 0 \<and> transLock s' = transLock s \<and> \<not> respSema s'))"
proof -
  define s3 where "s3 = s\<lparr>transLock := transLock s + 1, lock := lock s + 1,
                          respObj := obj, respInstId := instId\<rparr>"
  have "0 < txSize s3" using tx by (simp add: s3_def)
  from sendObject_keeps[OF this, of e obj instId type]
  obtain ret r where so: "sendObject e s3 obj instId type = Some (ret, r)" "keeps s3 r" by blast
  define s4 where "s4 = r\<lparr>lock := lock r - 1\<rparr>"
  have s4: "0 < txSize s4" "\<not> respSema s4" "transLock s4 = transLock s + 1"
    using so(2) tx sema by (simp_all add: s4_def keeps_def s3_def)
  from processBytes_inv[OF s4(1), of e rx]
  obtain w where w: "processBytes e s4 rx = Some w" "rx_inv s4 w" by blast
  have wf: "transLock w = transLock s + 1" "respSema w \<longrightarrow> respObj w = 0"
    using w(2) s4 by (simp_all add: rx_inv_def)
  have tw: "transactionWait e s obj instId type rx = Some w"
    unfolding transactionWait_def Let_def using so(1) w(1)
    by (simp add: s3_def s4_def)
  show ?thesis
    using t wf unfolding tw objectTransaction_def xSemaphoreTake_def Let_def
    by simp
qed

theorem blocking_transaction_outcome_witness:
  "0 < txSize (conn 1 64 reg0) \<and> \<not> respSema (conn 1 64 reg0)
   \<and> (\<exists>s'. objectTransaction ex (conn 1 64 reg0) 1 0 (UAVTALK_TYPE_OBJ_REQ ex) 100
              [60, 32, 12, 0, 68, 51, 34, 17, 1, 2, 3, 4, 150] = Some (0, s')
         \<and> respObj s' = 0 \<and> transLock s' = 0)
   \<and> (\<exists>s'. objectTransaction ex (conn 1 64 reg0) 1 0 (UAVTALK_TYPE_OBJ_REQ ex) 100 [] = Some (- 1, s')
         \<and> respObj s' = 0 \<and> transLock s' = 0)"
proof -
  let ?s = "conn 1 64 reg0"
  have h: "UAVTALK_TYPE_OBJ_REQ ex = UAVTALK_TYPE_OBJ_ACK ex \<or> UAVTALK_TYPE_OBJ_REQ ex = UAVTALK_TYPE_OBJ_REQ ex"
    "0 < txSize ?s" "\<not> respSema ?s"
    by simp_all
  from blocking_transaction_outcome[OF h, of 1 0 "[60, 32, 12, 0, 68, 51, 34, 17, 1, 2, 3, 4, 150]" 100]
    request_answered
  have a: "\<exists>s'. objectTransaction ex ?s 1 0 (UAVTALK_TYPE_OBJ_REQ ex) 100
              [60, 32, 12, 0, 68, 51, 34, 17, 1, 2, 3, 4, 150] = Some (0, s')
         \<and> respObj s' = 0 \<and> transLock s' = 0"
    by auto
  have "0 < txSize (?s\<lparr>transLock := transLock ?s + 1, lock := lock ?s + 1, respObj := 1, respInstId := 0\<rparr>)"
    by simp
  from sendObject_keeps[OF this, of ex 1 0 "UAVTALK_TYPE_OBJ_REQ ex"]
  have "\<exists>w. transactionWait ex ?s 1 0 (UAVTALK_TYPE_OBJ_REQ ex) [] = Some w \<and> \<not> respSema w"
    unfolding transactionWait_unfold[OF refl] by (auto simp: keeps_def)
  with blocking_transaction_outcome[OF h, of 1 0 "[]" 100]
  have b: "\<exists>s'. objectTransaction ex ?s 1 0 (UAVTALK_TYPE_OBJ_REQ ex) 100 [] = Some (- 1, s')
         \<and> respObj s' = 0 \<and> transLock s' = 0"
    by auto
  from a b h(2,3) show ?thesis by blast
qed

subsection \<open>C9\<close>

text \<open>
  C9 says that an inbound DATA or ACK frame completes the pending transaction when its
  object and its instance id are those of the pending target. The code does not do that
  for a multi-instance object: as in C1, the state machine rejects the frame with the
  last byte of the object id, so \<open>receiveObject\<close> and \<open>updateAck\<close> are not called. Here a
  transaction is pending for instance 1 of the multi-instance object \<open>B\<close>. The ACK frame
  for that instance, as \<open>sendSingleObject\<close> writes it, and the DATA frame of that instance
  each leave the completion signal unraised and the pending slot as it was, and count a
  receive error. So \<open>UAVTalkSendObject\<close> for instance 1 of \<open>B\<close> with acknowledgment returns
  \<open>-1\<close>, the timeout, when the matching ACK frame arrives during its wait.
\<close>

theorem matching_frame_does_not_complete:
  "map_option (\<lambda>(r, s). (r, sink s))
     (sendSingleObject ex (conn 1 64 reg0) 2 1 (UAVTALK_TYPE_ACK ex))
     = Some (0, [[60, 35, 10, 0, 212, 195, 178, 161, 1, 0, 188]])
   \<and> map_option (\<lambda>s. (respSema s, respObj s, respInstId s, stats_rxErrors s, dispatched s))
       (processBytes ex ((conn 1 64 reg0)\<lparr>respObj := 2, respInstId := 1\<rparr>)
          [60, 35, 10, 0, 212, 195, 178, 161, 1, 0, 188])
     = Some (False, 2, 1, 1, [])
   \<and> map_option (\<lambda>s. (respSema s, respObj s, respInstId s, stats_rxErrors s, dispatched s))
       (processBytes ex ((conn 1 64 reg0)\<lparr>respObj := 2, respInstId := 1\<rparr>)
          [60, 32, 14, 0, 212, 195, 178, 161, 1, 0, 9, 10, 11, 12, 42])
     = Some (False, 2, 1, 1, [])
   \<and> map_option fst
       (UAVTalkSendObject ex (conn 1 64 reg0) 2 1 1 100
          [60, 35, 10, 0, 212, 195, 178, 161, 1, 0, 188])
     = Some (- 1)"
proof -
  let ?s = "conn 1 64 reg0"
  let ?p = "?s\<lparr>respObj := 2, respInstId := 1\<rparr>"
  let ?ack = "[60, 35, 10, 0, 212, 195, 178, 161, 1, 0, 188] :: byte list"
  let ?dat = "[60, 32, 14, 0, 212, 195, 178, 161, 1, 0, 9, 10, 11, 12, 42] :: byte list"
  have fa: "?ack = ([UAVTALK_SYNC_VAL ex, 0x23, of_nat 10, of_nat (10 div 256)] @ le32 idB) @ [1, 0, 188]"
    by (simp add: le32_def idB_def)
  have fd: "?dat = ([UAVTALK_SYNC_VAL ex, 0x20, of_nat 14, of_nat (14 div 256)] @ le32 idB)
       @ [1, 0, 9, 10, 11, 12, 42]"
    by (simp add: le32_def idB_def)
  have "\<exists>tx'. length tx' = length (txBuffer ?s) \<and>
     sendSingleObject ex ?s 2 1 (UAVTALK_TYPE_ACK ex) =
       Some (0, ?s\<lparr>txBuffer := tx',
                  sink := (if outStream ?s \<noteq> 0 then sink ?s @ chunks (txSize ?s)
                     (frame ex 0x23 idB (le16 1) []) else sink ?s),
                  stats_txObjects := stats_txObjects ?s + 1,
                  stats_txBytes := stats_txBytes ?s + of_nat (length (frame ex 0x23 idB (le16 1) [])),
                  stats_txObjectBytes := stats_txObjectBytes ?s + of_nat (length ([] :: byte list))\<rparr>)"
    by (intro sendSingleObject_frame) (simp_all add: reg0_def)
  then have 1: "map_option (\<lambda>(r, s). (r, sink s))
     (sendSingleObject ex ?s 2 1 (UAVTALK_TYPE_ACK ex)) = Some (0, [?ack])"
    unfolding frame_ack_B1 by (auto simp: chunks_single)
  have "iproc_state ?p = UAVTALK_STATE_SYNC" by simp
  from multi_instance_rejected[OF this fa, of 0]
  have 2: "map_option (\<lambda>s. (respSema s, respObj s, respInstId s, stats_rxErrors s, dispatched s))
       (processBytes ex ?p ?ack) = Some (False, 2, 1, 1, [])"
    by auto
  have "iproc_state ?p = UAVTALK_STATE_SYNC" by simp
  from multi_instance_rejected[OF this fd, of 4]
  have 3: "map_option (\<lambda>s. (respSema s, respObj s, respInstId s, stats_rxErrors s, dispatched s))
       (processBytes ex ?p ?dat) = Some (False, 2, 1, 1, [])"
    by auto
  define s3 where "s3 = ?s\<lparr>transLock := transLock ?s + 1, lock := lock ?s + 1,
      respObj := 2, respInstId := 1\<rparr>"
  have "\<exists>tx'. length tx' = length (txBuffer s3) \<and>
     sendSingleObject ex s3 2 1 (UAVTALK_TYPE_OBJ_ACK ex) =
       Some (0, s3\<lparr>txBuffer := tx',
                  sink := (if outStream s3 \<noteq> 0 then sink s3 @ chunks (txSize s3)
                     (frame ex 0x22 idB (le16 1) [9, 10, 11, 12]) else sink s3),
                  stats_txObjects := stats_txObjects s3 + 1,
                  stats_txBytes := stats_txBytes s3
                     + of_nat (length (frame ex 0x22 idB (le16 1) [9, 10, 11, 12])),
                  stats_txObjectBytes := stats_txObjectBytes s3 + of_nat (length [9, 10, 11, 12 :: byte])\<rparr>)"
    by (intro sendSingleObject_frame) (simp_all add: s3_def reg0_def)
  then obtain r where r: "sendSingleObject ex s3 2 1 (UAVTALK_TYPE_OBJ_ACK ex) = Some (0, r)"
    and kr: "iproc_state r = UAVTALK_STATE_SYNC" "\<not> respSema r"
    by (auto simp: s3_def)
  have so: "sendObject ex s3 2 1 (UAVTALK_TYPE_OBJ_ACK ex) = Some (0, r)"
    using r by (simp add: sendObject_def)
  have "iproc_state (r\<lparr>lock := lock r - 1\<rparr>) = UAVTALK_STATE_SYNC" using kr by simp
  from multi_instance_rejected[OF this fa, of 0] kr
  obtain w where w: "processBytes ex (r\<lparr>lock := lock r - 1\<rparr>) ?ack = Some w" "\<not> respSema w"
    by auto
  have tw: "transactionWait ex ?s 2 1 (UAVTALK_TYPE_OBJ_ACK ex) ?ack = Some w"
    unfolding transactionWait_unfold[OF s3_def] so using w(1) by simp
  have "0 < txSize ?s" by simp
  from objectTransaction_result[OF _ this, of "UAVTALK_TYPE_OBJ_ACK ex" ex 2 1 ?ack 100] tw w(2)
  have 4: "map_option fst (UAVTalkSendObject ex ?s 2 1 1 100 ?ack) = Some (- 1)"
    by (auto simp: UAVTalkSendObject_def)
  from 1 2 3 4 show ?thesis by blast
qed

subsection \<open>C10\<close>

text \<open>
  C10. For an inbound DATA frame whose instance id is not the wildcard, \<open>receiveObject\<close>
  calls \<open>updateAck\<close> after \<open>UAVObjUnpack\<close> whatever the unpack returns: a matching
  pending transaction is completed (signal raised, slot cleared), also when the unpack
  fails. For a DATA-WITH-ACK frame an ACK is transmitted only when the unpack returns 0:
  when it does not, \<open>receiveObject\<close> returns \<open>-1\<close> and changes nothing but the
  registry; when it does, an ACK frame without payload is handed to the output stream.
\<close>

theorem data_completes_pending_despite_unpack:
  assumes wf: "wire_format e"
    and inst: "instId \<noteq> UAVOBJ_ALL_INSTANCES e"
    and obj: "obj = UAVObjGetByID e (registry s) objId"
    and u: "u = UAVObjUnpack e (registry s) obj instId data"
    and tx: "0 < txSize s" "11 \<le> length (txBuffer s)"
  shows "(respObj s = obj \<and> (respInstId s = instId \<or> respInstId s = UAVOBJ_ALL_INSTANCES e) \<longrightarrow>
            (\<exists>s'. receiveObject e s (UAVTALK_TYPE_OBJ e) objId instId data len = Some (0, s')
                  \<and> respSema s' \<and> respObj s' = 0 \<and> registry s' = snd u))
       \<and> (fst u \<noteq> 0 \<longrightarrow>
            receiveObject e s (UAVTALK_TYPE_OBJ_ACK e) objId instId data len
              = Some (- 1, s\<lparr>registry := snd u\<rparr>))
       \<and> (fst u = 0 \<longrightarrow>
            (\<exists>s'. receiveObject e s (UAVTALK_TYPE_OBJ_ACK e) objId instId data len = Some (0, s')
                  \<and> (outStream s \<noteq> 0 \<longrightarrow>
                        concat (sink s') = concat (sink s)
                          @ frame e (UAVTALK_TYPE_ACK e) (UAVObjGetID e (snd u) obj)
                              (if UAVObjIsSingleInstance e (snd u) obj then [] else le16 instId) [])))"
proof (intro conjI impI)
  assume "respObj s = obj \<and> (respInstId s = instId \<or> respInstId s = UAVOBJ_ALL_INSTANCES e)"
  then show "\<exists>s'. receiveObject e s (UAVTALK_TYPE_OBJ e) objId instId data len = Some (0, s')
                  \<and> respSema s' \<and> respObj s' = 0 \<and> registry s' = snd u"
    using inst unfolding obj u
    by (auto simp: receiveObject_def updateAck_def Let_def)
next
  assume "fst u \<noteq> 0"
  then show "receiveObject e s (UAVTALK_TYPE_OBJ_ACK e) objId instId data len
              = Some (- 1, s\<lparr>registry := snd u\<rparr>)"
    using wf inst unfolding obj u
    by (auto simp: receiveObject_def wire_format_def Let_def)
next
  assume ok: "fst u = 0"
  let ?s1 = "s\<lparr>registry := snd u\<rparr>"
  let ?F = "frame e (UAVTALK_TYPE_ACK e) (UAVObjGetID e (snd u) obj)
              (if UAVObjIsSingleInstance e (snd u) obj then [] else le16 instId) []"
  from wf have k: "UAVTALK_CHECKSUM_LENGTH e = 1" "0 < UAVTALK_MAX_PAYLOAD_LENGTH e"
      "UAVTALK_TYPE_OBJ_ACK e \<noteq> UAVTALK_TYPE_OBJ e"
    by (auto simp: wire_format_def)
  have "\<exists>tx'. length tx' = length (txBuffer ?s1) \<and>
     sendSingleObject e ?s1 obj instId (UAVTALK_TYPE_ACK e) =
       Some (0, ?s1\<lparr>txBuffer := tx',
                  sink := (if outStream ?s1 \<noteq> 0 then sink ?s1 @ chunks (txSize ?s1) ?F else sink ?s1),
                  stats_txObjects := stats_txObjects ?s1 + 1,
                  stats_txBytes := stats_txBytes ?s1 + of_nat (length ?F),
                  stats_txObjectBytes := stats_txObjectBytes ?s1 + of_nat (length ([] :: byte list))\<rparr>)"
    using k tx by (intro sendSingleObject_frame) auto
  then obtain s' where s': "sendSingleObject e ?s1 obj instId (UAVTALK_TYPE_ACK e) = Some (0, s')"
    "outStream s \<noteq> 0 \<longrightarrow> sink s' = sink s @ chunks (txSize s) ?F"
    by auto
  have "receiveObject e s (UAVTALK_TYPE_OBJ_ACK e) objId instId data len
      = sendSingleObject e ?s1 obj instId (UAVTALK_TYPE_ACK e) \<bind> (\<lambda>r. Some (0, snd r))"
    using k inst ok unfolding obj u
    by (auto simp: receiveObject_def sendObject_def Let_def)
  with s' tx(1) show "\<exists>s'. receiveObject e s (UAVTALK_TYPE_OBJ_ACK e) objId instId data len = Some (0, s')
                  \<and> (outStream s \<noteq> 0 \<longrightarrow> concat (sink s') = concat (sink s) @ ?F)"
    by (auto simp: concat_chunks)
qed

theorem data_completes_pending_despite_unpack_witness:
  "wire_format ex \<and> (7 :: 16 word) \<noteq> UAVOBJ_ALL_INSTANCES ex
   \<and> 0 < txSize (conn 1 64 reg0) \<and> 11 \<le> length (txBuffer (conn 1 64 reg0))
   \<and> fst (UAVObjUnpack ex reg0 2 7 [1, 2, 3, 4]) \<noteq> 0
   \<and> map_option (\<lambda>(r, s'). (r, respSema s', respObj s'))
        (receiveObject ex ((conn 1 64 reg0)\<lparr>respObj := 2, respInstId := 7\<rparr>)
           (UAVTALK_TYPE_OBJ ex) idB 7 [1, 2, 3, 4] 4) = Some (0, True, 0)
   \<and> map_option (\<lambda>(r, s'). (r, sink s'))
        (receiveObject ex ((conn 1 64 reg0)\<lparr>respObj := 2, respInstId := 7\<rparr>)
           (UAVTALK_TYPE_OBJ_ACK ex) idB 7 [1, 2, 3, 4] 4) = Some (- 1, [])"
proof -
  let ?s = "(conn 1 64 reg0)\<lparr>respObj := 2, respInstId := 7\<rparr>"
  have h1: "wire_format ex" by (rule wire_format_ex)
  have h2: "(7 :: 16 word) \<noteq> UAVOBJ_ALL_INSTANCES ex" by simp
  have h3: "(2 :: nat) = UAVObjGetByID ex (registry ?s) idB" by simp
  have h4: "0 < txSize ?s" "11 \<le> length (txBuffer ?s)" by simp_all
  have f: "fst (UAVObjUnpack ex reg0 2 7 [1, 2, 3, 4]) \<noteq> 0" by (simp add: reg0_def)
  from data_completes_pending_despite_unpack [OF h1 h2 h3 refl h4, of "[1, 2, 3, 4]" 4] f
  have "map_option (\<lambda>(r, s'). (r, respSema s', respObj s'))
        (receiveObject ex ?s (UAVTALK_TYPE_OBJ ex) idB 7 [1, 2, 3, 4] 4) = Some (0, True, 0)"
    and "map_option (\<lambda>(r, s'). (r, sink s'))
        (receiveObject ex ?s (UAVTALK_TYPE_OBJ_ACK ex) idB 7 [1, 2, 3, 4] 4) = Some (- 1, [])"
    by auto
  with h1 h2 h4 f show ?thesis by simp
qed

end
